theory Spec2Isabelle
  imports Complex_Main "HOL-Library.Char_ord" "HOL-Library.List_Lexorder"
    "HOL-Library.Product_Lexorder" "HOL-Library.AList"
begin

section \<open>Python values shared by the embedding\<close>

text \<open>
  Exceptions of the Python source are values: every function that can raise returns
  \<open>pyerr + 'a\<close>, with \<open>Inl\<close> the exception that leaves the function.
\<close>

datatype pyerr =
    ValueError | KeyError | TypeError | AttributeError | AssertionError | IndexError | NameError
  | IndexingError

text \<open>
  \<open>logging.warning\<close> is the only output of the metric catalog. The log is threaded
  through as a list of structured records that carry the values the source interpolates
  into its message.
\<close>

datatype warning =
    UsingEnergyDistance string "string list"
  | DroppingMetric string string "string list"

subsection \<open>Floats\<close>

text \<open>
  A float is a real number or one of the three special values of IEEE arithmetic.
  The operations \<open>fl_add\<close>, \<open>fl_sub\<close>, \<open>fl_mul\<close>, \<open>fl_div\<close> and \<open>fl_sqrt\<close> are exact on
  finite values; the special values follow the IEEE rules numpy applies, with numpy's
  results for division by zero. The operations \<open>f64_add\<close>, ..., further down, round.
\<close>

datatype fl = Fin real | PInf | NInf | NaN

fun isfinite :: "fl \<Rightarrow> bool" where
  "isfinite (Fin _) = True"
| "isfinite _ = False"

fun isnan :: "fl \<Rightarrow> bool" where
  "isnan NaN = True"
| "isnan _ = False"

fun fl_neg :: "fl \<Rightarrow> fl" where
  "fl_neg (Fin a) = Fin (- a)"
| "fl_neg PInf = NInf"
| "fl_neg NInf = PInf"
| "fl_neg NaN = NaN"

fun fl_add :: "fl \<Rightarrow> fl \<Rightarrow> fl" where
  "fl_add (Fin a) (Fin b) = Fin (a + b)"
| "fl_add NaN _ = NaN"
| "fl_add _ NaN = NaN"
| "fl_add PInf NInf = NaN"
| "fl_add NInf PInf = NaN"
| "fl_add PInf _ = PInf"
| "fl_add _ PInf = PInf"
| "fl_add NInf _ = NInf"
| "fl_add _ NInf = NInf"

definition fl_sub :: "fl \<Rightarrow> fl \<Rightarrow> fl" where
  "fl_sub a b = fl_add a (fl_neg b)"

text \<open>The sign of a float: 1, 0 or -1; \<open>None\<close> for NaN.\<close>

fun fl_sign :: "fl \<Rightarrow> int option" where
  "fl_sign (Fin a) = Some (if a > 0 then 1 else if a < 0 then - 1 else 0)"
| "fl_sign PInf = Some 1"
| "fl_sign NInf = Some (- 1)"
| "fl_sign NaN = None"

definition signed_inf :: "int \<Rightarrow> fl" where
  "signed_inf s = (if s > 0 then PInf else if s < 0 then NInf else NaN)"

fun fl_mul :: "fl \<Rightarrow> fl \<Rightarrow> fl" where
  "fl_mul (Fin a) (Fin b) = Fin (a * b)"
| "fl_mul x y =
     (case (fl_sign x, fl_sign y) of
        (Some s, Some t) \<Rightarrow> signed_inf (s * t)
      | _ \<Rightarrow> NaN)"

fun fl_div :: "fl \<Rightarrow> fl \<Rightarrow> fl" where
  "fl_div (Fin a) (Fin b) =
     (if b \<noteq> 0 then Fin (a / b)
      else if a > 0 then PInf else if a < 0 then NInf else NaN)"
| "fl_div (Fin a) PInf = Fin 0"
| "fl_div (Fin a) NInf = Fin 0"
| "fl_div PInf (Fin b) = (if b \<ge> 0 then PInf else NInf)"
| "fl_div NInf (Fin b) = (if b \<ge> 0 then NInf else PInf)"
| "fl_div _ _ = NaN"

fun fl_sqrt :: "fl \<Rightarrow> fl" where
  "fl_sqrt (Fin a) = (if a \<ge> 0 then Fin (sqrt a) else NaN)"
| "fl_sqrt PInf = PInf"
| "fl_sqrt _ = NaN"

text \<open>Comparisons are false as soon as one side is NaN.\<close>

fun fl_less :: "fl \<Rightarrow> fl \<Rightarrow> bool" where
  "fl_less (Fin a) (Fin b) = (a < b)"
| "fl_less NaN _ = False"
| "fl_less _ NaN = False"
| "fl_less _ NInf = False"
| "fl_less PInf _ = False"
| "fl_less NInf _ = True"
| "fl_less _ PInf = True"

fun fl_le :: "fl \<Rightarrow> fl \<Rightarrow> bool" where
  "fl_le (Fin a) (Fin b) = (a \<le> b)"
| "fl_le NaN _ = False"
| "fl_le _ NaN = False"
| "fl_le NInf _ = True"
| "fl_le _ PInf = True"
| "fl_le _ _ = False"

text \<open>
  \<open>x == y\<close> on floats: structural equality, except that NaN differs from itself.
\<close>

definition fl_eq :: "fl \<Rightarrow> fl \<Rightarrow> bool" where
  "fl_eq a b = (a = b \<and> \<not> isnan a)"

subsection \<open>Binary64 arithmetic\<close>

text \<open>
  What Python and numpy compute on two doubles: the exact result rounded to the nearest
  binary64 number, ties to the even significand, and to infinity when the rounded result
  passes the largest double. A binary64 number is \<open>m * 2 ^ e\<close> with \<open>\<bar>m\<bar> < 2 ^ 53\<close> and
  \<open>e \<ge> - 1074\<close>; the exponent of the last place of \<open>x\<close> is \<open>f64_ulp_exp x\<close>. Signed
  zeros are not told apart.
\<close>

definition round_half_even :: "real \<Rightarrow> int" where
  "round_half_even y =
     (let f = \<lfloor>y\<rfloor>; r = y - of_int f
      in if r < 1 / 2 then f else if 1 / 2 < r then f + 1 else if even f then f else f + 1)"

definition f64_ulp_exp :: "real \<Rightarrow> int" where
  "f64_ulp_exp x = max \<lfloor>log 2 \<bar>x\<bar>\<rfloor> (- 1022) - 52"

definition f64_round :: "real \<Rightarrow> fl" where
  "f64_round x =
     (if x = 0 then Fin 0
      else (let u = 2 powr (of_int (f64_ulp_exp x));
                r = of_int (round_half_even (x / u)) * u
            in if 2 ^ 1024 \<le> \<bar>r\<bar> then (if x < 0 then NInf else PInf) else Fin r))"

fun f64 :: "fl \<Rightarrow> fl" where
  "f64 (Fin x) = f64_round x"
| "f64 v = v"

definition f64_add :: "fl \<Rightarrow> fl \<Rightarrow> fl" where
  "f64_add a b = f64 (fl_add a b)"

definition f64_sub :: "fl \<Rightarrow> fl \<Rightarrow> fl" where
  "f64_sub a b = f64 (fl_sub a b)"

definition f64_mul :: "fl \<Rightarrow> fl \<Rightarrow> fl" where
  "f64_mul a b = f64 (fl_mul a b)"

definition f64_div :: "fl \<Rightarrow> fl \<Rightarrow> fl" where
  "f64_div a b = f64 (fl_div a b)"

definition f64_sqrt :: "fl \<Rightarrow> fl" where
  "f64_sqrt a = f64 (fl_sqrt a)"
subsection \<open>Arrays and data frames\<close>

text \<open>
  A numpy array is one-dimensional or two-dimensional. A two-dimensional array keeps its
  number of columns beside its rows, so that the shapes \<open>(n, 0)\<close> and \<open>(0, k)\<close> are
  told apart.
\<close>

datatype ndarray = Arr1 "fl list" | Arr2 nat "fl list list"

fun shape0 :: "ndarray \<Rightarrow> nat" where
  "shape0 (Arr1 xs) = length xs"
| "shape0 (Arr2 k rs) = length rs"

fun ndim :: "ndarray \<Rightarrow> nat" where
  "ndim (Arr1 xs) = 1"
| "ndim (Arr2 k rs) = 2"

fun ravel :: "ndarray \<Rightarrow> fl list" where
  "ravel (Arr1 xs) = xs"
| "ravel (Arr2 k rs) = concat rs"

text \<open>
  A data frame is an index (one label per row) and an ordered list of named columns, each
  as long as the index.
\<close>

record dataframe =
  df_index :: "int list"
  df_columns :: "(string \<times> fl list) list"

definition nrows :: "dataframe \<Rightarrow> nat" where
  "nrows df = length (df_index df)"

definition colnames :: "dataframe \<Rightarrow> string list" where
  "colnames df = map fst (df_columns df)"

definition wf_frame :: "dataframe \<Rightarrow> bool" where
  "wf_frame df = (distinct (colnames df) \<and> list_all (\<lambda>(c, v). length v = nrows df) (df_columns df))"

text \<open>\<open>df[c]\<close>: a missing column raises \<open>KeyError\<close>.\<close>

definition getitem :: "dataframe \<Rightarrow> string \<Rightarrow> pyerr + fl list" where
  "getitem df c = (case map_of (df_columns df) c of None \<Rightarrow> Inl KeyError | Some v \<Rightarrow> Inr v)"

text \<open>
  \<open>df[c] = v\<close> for an array \<open>v\<close>: pandas raises \<open>ValueError\<close> when the length of \<open>v\<close>
  is not the number of rows, replaces the column \<open>c\<close> when the frame has one and appends
  it as the last column otherwise.
\<close>

definition setitem :: "dataframe \<Rightarrow> string \<Rightarrow> fl list \<Rightarrow> pyerr + dataframe" where
  "setitem df c v =
     (if length v \<noteq> nrows df then Inl ValueError
      else Inr (df\<lparr>df_columns := AList.update c v (df_columns df)\<rparr>))"

text \<open>\<open>df[[c1, ..., ck]]\<close>: a new frame with these columns, \<open>KeyError\<close> if one is missing.\<close>

definition getitems :: "dataframe \<Rightarrow> string list \<Rightarrow> pyerr + dataframe" where
  "getitems df cs =
     (if list_all (\<lambda>c. c \<in> set (colnames df)) cs
      then Inr (df\<lparr>df_columns := map (\<lambda>c. (c, the (map_of (df_columns df) c))) cs\<rparr>)
      else Inl KeyError)"

text \<open>Boolean-mask selection \<open>xs[mask]\<close> and \<open>df[mask]\<close>.\<close>

definition mask_list :: "bool list \<Rightarrow> 'a list \<Rightarrow> 'a list" where
  "mask_list msk xs = map snd (filter fst (zip msk xs))"

definition mask_rows :: "dataframe \<Rightarrow> bool list \<Rightarrow> dataframe" where
  "mask_rows df msk =
     \<lparr>df_index = mask_list msk (df_index df),
      df_columns = map (\<lambda>(c, v). (c, mask_list msk v)) (df_columns df)\<rparr>"

text \<open>\<open>df[df[c] == x]\<close>.\<close>

definition rows_where_eq :: "dataframe \<Rightarrow> string \<Rightarrow> fl \<Rightarrow> pyerr + dataframe" where
  "rows_where_eq df c x =
     (case getitem df c of
        Inl e \<Rightarrow> Inl e
      | Inr v \<Rightarrow> Inr (mask_rows df (map (\<lambda>y. fl_eq y x) v)))"

text \<open>\<open>df.iloc[:m]\<close>: the leading \<open>m\<close> rows.\<close>

definition iloc_head :: "nat \<Rightarrow> dataframe \<Rightarrow> dataframe" where
  "iloc_head m df =
     \<lparr>df_index = take m (df_index df),
      df_columns = map (\<lambda>(c, v). (c, take m v)) (df_columns df)\<rparr>"

text \<open>\<open>df.values\<close>: the rows of the frame.\<close>

definition df_row :: "dataframe \<Rightarrow> nat \<Rightarrow> fl list" where
  "df_row df i = map (\<lambda>(c, v). v ! i) (df_columns df)"

definition df_values :: "dataframe \<Rightarrow> ndarray" where
  "df_values df = Arr2 (length (df_columns df)) (map (df_row df) [0..<nrows df])"

text \<open>
  \<open>df.reset_index()\<close> returns a new frame whose index is \<open>0, ..., n - 1\<close> and whose first
  column holds the old index. The new column is named \<open>index\<close>, or \<open>level_0\<close> when the
  frame already has a column \<open>index\<close>; pandas raises \<open>ValueError\<close> when that name is
  taken as well.
\<close>

definition reset_index :: "dataframe \<Rightarrow> pyerr + dataframe" where
  "reset_index df =
     (let name = (if ''index'' \<in> set (colnames df) then ''level_0'' else ''index'')
      in if name \<in> set (colnames df) then Inl ValueError
         else Inr \<lparr>df_index = map int [0..<nrows df],
                   df_columns = (name, map (\<lambda>i. Fin (real_of_int i)) (df_index df)) # df_columns df\<rparr>)"

subsection \<open>The store\<close>

text \<open>
  Python passes a data frame by reference, and the scorer writes columns into the frame
  it is given. A frame that is written to lives in a store, at a reference;
  \<open>copy.deepcopy(df)\<close> and \<open>df.copy()\<close> allocate a new reference. A computation takes the
  store and returns its result, or the exception it raised, with the store it leaves.
\<close>

type_synonym ref = nat

record store =
  frames :: "ref \<Rightarrow> dataframe"
  next_ref :: ref

type_synonym 'a comp = "store \<Rightarrow> (pyerr + 'a) \<times> store"

definition alloc :: "dataframe \<Rightarrow> ref comp" where
  "alloc df s = (Inr (next_ref s), s\<lparr>frames := (frames s)(next_ref s := df), next_ref := Suc (next_ref s)\<rparr>)"

definition deref :: "ref \<Rightarrow> dataframe comp" where
  "deref r s = (Inr (frames s r), s)"

definition assign :: "ref \<Rightarrow> dataframe \<Rightarrow> unit comp" where
  "assign r df s = (Inr (), s\<lparr>frames := (frames s)(r := df)\<rparr>)"

definition ret :: "'a \<Rightarrow> 'a comp" where
  "ret x s = (Inr x, s)"

definition raise :: "pyerr \<Rightarrow> 'a comp" where
  "raise e s = (Inl e, s)"

text \<open>A pure step that may raise, run inside a computation.\<close>

definition lift :: "pyerr + 'a \<Rightarrow> 'a comp" where
  "lift r s = (r, s)"

definition bnd :: "'a comp \<Rightarrow> ('a \<Rightarrow> 'b comp) \<Rightarrow> 'b comp" where
  "bnd m f s = (case m s of (Inl e, s') \<Rightarrow> (Inl e, s') | (Inr x, s') \<Rightarrow> f x s')"

text \<open>\<open>df[c] = v\<close> on the frame at a reference: the write goes to the frame itself.\<close>

definition setitem_at :: "ref \<Rightarrow> string \<Rightarrow> fl list \<Rightarrow> unit comp" where
  "setitem_at r c v =
     bnd (deref r) (\<lambda>df. bnd (lift (setitem df c v)) (\<lambda>df'. assign r df'))"

text \<open>
  A computation keeps the frame at a reference when every run of it, from a store in
  which the reference is allocated, ends with the same frame at that reference (and
  with nothing deallocated), whether it returns or raises.
\<close>

definition keeps_frame :: "ref \<Rightarrow> 'a comp \<Rightarrow> bool" where
  "keeps_frame df c = (\<forall>s r s'. c s = (r, s') \<longrightarrow> df < next_ref s \<longrightarrow>
                          frames s' df = frames s df \<and> next_ref s \<le> next_ref s')"

text \<open>Sequencing of pure steps that may raise.\<close>

definition andthen :: "pyerr + 'a \<Rightarrow> ('a \<Rightarrow> pyerr + 'b) \<Rightarrow> pyerr + 'b" where
  "andthen r f = (case r of Inl e \<Rightarrow> Inl e | Inr x \<Rightarrow> f x)"

subsection \<open>Estimators and the scorer\<close>

text \<open>
  The fitted estimators are external objects; the scorer reads their attributes and calls
  their methods. A method is a function that may raise. The effect methods return their
  estimates as a one-dimensional array, the form \<open>make_scores\<close> flattens an \<open>(n, 1)\<close>
  result into. An attribute that \<open>hasattr\<close> may find missing is an option.
  \<open>_treatment_name\<close> is a string or a list of strings.
\<close>

datatype name_spec = Name string | Names "string list"

record inner_estimator =
  propensity_model :: "(dataframe \<Rightarrow> pyerr + ndarray) option"
  inner_effect :: "dataframe \<Rightarrow> pyerr + ndarray"

record causal_estimator =
  est_treatment_name :: name_spec
  est_outcome_name :: string
  est_effect_modifier_names :: "string list"
  est_observed_common_causes_names :: "string list"
  identifier_method :: string
  estimating_instrument_names :: "string list"
  effect :: "dataframe \<Rightarrow> pyerr + fl list"
  effect_tt :: "dataframe \<Rightarrow> pyerr + fl list"
  est_estimator :: "inner_estimator option"

record causal_estimate =
  estimator :: causal_estimator

record causal_model =
  cm_treatment :: "string list"
  cm_outcome :: "string list"
  get_effect_modifiers :: "string list"
  get_common_causes :: "string list"

text \<open>
  The ERUPT object of the scorer. \<open>make_scores\<close> hands its three methods the working
  frame itself, not a copy, and checks the frame afterwards: the methods are computations
  on the store, given the reference of the frame. The policy argument is the array the
  policy function returns (\<open>make_scores\<close> passes a function that ignores its argument).
\<close>

record erupt_obj =
  erupt_weights :: "ref \<Rightarrow> bool list \<Rightarrow> fl list comp"
  erupt_score :: "ref \<Rightarrow> fl list \<Rightarrow> bool list \<Rightarrow> fl comp"
  probabilistic_erupt_score :: "ref \<Rightarrow> fl list \<Rightarrow> fl list \<Rightarrow> fl list \<Rightarrow> fl comp"

text \<open>
  \<open>Scorer.__init__\<close> sets \<open>psw_estimator\<close> and \<open>erupt\<close> only when the problem is
  \<open>backdoor\<close>; reading them on another scorer raises \<open>AttributeError\<close>.
\<close>

record scorer =
  problem :: string
  multivalue :: bool
  causal_model :: causal_model
  psw_estimator :: "causal_estimator option"
  erupt :: "erupt_obj option"

definition attr :: "'a option \<Rightarrow> pyerr + 'a" where
  "attr a = (case a of None \<Rightarrow> Inl AttributeError | Some x \<Rightarrow> Inr x)"

subsection \<open>External collaborators\<close>

text \<open>
  The functions of other packages the scorer calls, and \<open>psw_joint_weights\<close> of
  \<open>causaltune.utils\<close>, whose code is not part of the scoring module: each is a parameter,
  and what is proved holds for every choice of them. None of them is handed a data frame
  of the scorer to write to. \<open>series_mean\<close> and \<open>series_std\<close> are \<open>Series.mean()\<close> and
  \<open>Series.std()\<close> of pandas, functions of the values of the Series: the order in which
  pandas adds the values up, and so the double it returns, is not fixed here.
  \<open>np_argsort\<close>, \<open>kneighbors\<close> and \<open>cdist\<close> are \<open>np.argsort\<close>, the nearest-neighbour search
  of scikit-learn and \<open>scipy.spatial.distance.cdist\<close> (from one point to the rows of an
  array); the conditional dependence coefficient is built on them.
\<close>

record libs =
  dcor_energy_distance :: "ndarray \<Rightarrow> ndarray \<Rightarrow> pyerr + fl"
  pairwise_distances :: "ndarray \<Rightarrow> ndarray \<Rightarrow> pyerr + ndarray"
  psw_joint_weights :: "fl list \<Rightarrow> fl list option \<Rightarrow> pyerr + ndarray"
  quantile_transform :: "dataframe \<Rightarrow> pyerr + fl list list"
  qini_score :: "dataframe \<Rightarrow> pyerr + fl"
  auuc_score :: "dataframe \<Rightarrow> pyerr + fl"
  series_mean :: "fl list \<Rightarrow> fl"
  series_std :: "fl list \<Rightarrow> fl"
  np_argsort :: "fl list \<Rightarrow> nat list"
  kneighbors :: "ndarray \<Rightarrow> pyerr + ((fl \<times> fl \<times> fl) \<times> (nat \<times> nat \<times> nat)) list"
  cdist :: "fl list \<Rightarrow> fl list list \<Rightarrow> pyerr + fl list"
section \<open>The metric catalog\<close>

text \<open>
  \<open>supported_metrics\<close> has no \<open>else\<close> branch after \<open>elif problem == "backdoor"\<close>:
  for any other problem the Python function falls off its end and returns \<open>None\<close>.
\<close>

definition supported_metrics :: "string \<Rightarrow> bool \<Rightarrow> bool \<Rightarrow> string list option" where
  "supported_metrics problem' multivalue' scores_only =
     (if problem' = ''iv'' then
        (let metrics = [''energy_distance'', ''frobenius_norm'', ''codec'']
         in Some (if \<not> scores_only then metrics @ [''ate''] else metrics))
      else if problem' = ''backdoor'' then
        (if multivalue' then Some [''energy_distance'', ''psw_energy_distance'']
         else
           (let metrics = [''erupt'', ''norm_erupt'', ''prob_erupt'', ''policy_risk'',
                           ''qini'', ''auc'', ''energy_distance'', ''psw_energy_distance'',
                           ''frobenius_norm'', ''codec'']
            in Some (if \<not> scores_only then metrics @ [''ate''] else metrics)))
      else None)"

text \<open>
  \<open>m not in metrics\<close> raises \<open>TypeError\<close> when \<open>metrics\<close> is \<open>None\<close>.
\<close>

definition not_in :: "string \<Rightarrow> string list option \<Rightarrow> pyerr + bool" where
  "not_in m metrics = (case metrics of None \<Rightarrow> Inl TypeError | Some ms \<Rightarrow> Inr (m \<notin> set ms))"

text \<open>
  \<open>resolve_metric\<close> takes the log of warnings so far and returns it with the warning it
  emitted, if any.
\<close>

definition resolve_metric ::
  "scorer \<Rightarrow> string \<Rightarrow> warning list \<Rightarrow> pyerr + (string \<times> warning list)" where
  "resolve_metric self metric wlog =
     (let metrics = supported_metrics (problem self) (multivalue self) True
      in case not_in metric metrics of
           Inl e \<Rightarrow> Inl e
         | Inr True \<Rightarrow> Inr (''energy_distance'', wlog @ [UsingEnergyDistance metric (the metrics)])
         | Inr False \<Rightarrow> Inr (metric, wlog))"

text \<open>
  The loop of \<open>resolve_reported_metrics\<close> runs over a copy of the list and removes
  from the list itself.
\<close>

fun drop_unsupported ::
  "string \<Rightarrow> string list option \<Rightarrow> string list \<Rightarrow> string list \<times> warning list \<Rightarrow>
   pyerr + (string list \<times> warning list)" where
  "drop_unsupported problem' metrics [] st = Inr st"
| "drop_unsupported problem' metrics (m # ms) (cur, wlog) =
     (case not_in m metrics of
        Inl e \<Rightarrow> Inl e
      | Inr True \<Rightarrow>
          drop_unsupported problem' metrics ms
            (remove1 m cur, wlog @ [DroppingMetric m problem' (the metrics)])
      | Inr False \<Rightarrow> drop_unsupported problem' metrics ms (cur, wlog))"

text \<open>
  With \<open>metrics_to_report = None\<close> the function returns what \<open>supported_metrics\<close>
  returned, which is \<open>None\<close> for a problem outside the catalog.
\<close>

definition resolve_reported_metrics ::
  "scorer \<Rightarrow> string list option \<Rightarrow> string \<Rightarrow> warning list \<Rightarrow>
   pyerr + (string list option \<times> warning list)" where
  "resolve_reported_metrics self metrics_to_report scoring_metric wlog =
     (let metrics = supported_metrics (problem self) (multivalue self) False
      in case metrics_to_report of
           None \<Rightarrow> Inr (metrics, wlog)
         | Some mtr \<Rightarrow>
             (let mtr' = sorted_list_of_set (set (mtr @ [scoring_metric]))
              in case drop_unsupported (problem self) metrics mtr' (mtr', wlog) of
                   Inl e \<Rightarrow> Inl e
                 | Inr (res, wlog') \<Rightarrow> Inr (Some res, wlog')))"

section \<open>Ranking score records\<close>

text \<open>
  A score record is a dictionary with an optional entry \<open>estimator_name\<close> and float
  entries under metric names. The scores dictionary is the list of its items in insertion
  order.
\<close>

record score_rec =
  estimator_name :: "string option"
  entries :: "string \<Rightarrow> fl option"

text \<open>\<open>x[metric]\<close> in a key function: \<open>KeyError\<close> when the record has no such entry.\<close>

definition metric_of :: "string \<Rightarrow> score_rec \<Rightarrow> pyerr + fl" where
  "metric_of metric x = (case entries x metric of None \<Rightarrow> Inl KeyError | Some v \<Rightarrow> Inr v)"

text \<open>
  Python's \<open>min(xs, key=f)\<close> and \<open>max(xs, key=f)\<close>: the key of every element is
  computed, the first element is the candidate, and a later element replaces the
  candidate only when its key is strictly better. \<open>better a b\<close> is \<open>a < b\<close> for
  \<open>min\<close> and \<open>a > b\<close> for \<open>max\<close>.
\<close>

fun best_from ::
  "(fl \<Rightarrow> fl \<Rightarrow> bool) \<Rightarrow> ('a \<Rightarrow> pyerr + fl) \<Rightarrow> 'a \<times> fl \<Rightarrow> 'a list \<Rightarrow> pyerr + 'a" where
  "best_from better key (b, kb) [] = Inr b"
| "best_from better key (b, kb) (x # xs) =
     (case key x of
        Inl e \<Rightarrow> Inl e
      | Inr kx \<Rightarrow>
          if better kx kb then best_from better key (x, kx) xs
          else best_from better key (b, kb) xs)"

definition py_best ::
  "(fl \<Rightarrow> fl \<Rightarrow> bool) \<Rightarrow> ('a \<Rightarrow> pyerr + fl) \<Rightarrow> 'a list \<Rightarrow> pyerr + 'a" where
  "py_best better key xs =
     (case xs of
        [] \<Rightarrow> Inl ValueError
      | x # xs' \<Rightarrow> (case key x of Inl e \<Rightarrow> Inl e | Inr kx \<Rightarrow> best_from better key (x, kx) xs'))"

definition py_min :: "('a \<Rightarrow> pyerr + fl) \<Rightarrow> 'a list \<Rightarrow> pyerr + 'a" where
  "py_min key xs = py_best (\<lambda>a b. fl_less a b) key xs"

definition py_max :: "('a \<Rightarrow> pyerr + fl) \<Rightarrow> 'a list \<Rightarrow> pyerr + 'a" where
  "py_max key xs = py_best (\<lambda>a b. fl_less b a) key xs"

definition lower_is_better :: "string list" where
  "lower_is_better =
     [''energy_distance'', ''psw_energy_distance'', ''frobenius_norm'', ''codec'', ''policy_risk'']"

text \<open>The loop over the sorted estimator names, filling the dictionary \<open>best\<close>.\<close>

fun best_loop ::
  "(string \<times> score_rec) list \<Rightarrow> string \<Rightarrow> string list \<Rightarrow> (string \<times> score_rec) list \<Rightarrow>
   pyerr + (string \<times> score_rec) list" where
  "best_loop scores metric [] best = Inr best"
| "best_loop scores metric (name # names) best =
     (let est_scores = filter (\<lambda>v. estimator_name v = Some name) (map snd scores)
      in case (if metric \<in> set lower_is_better
               then py_min (metric_of metric) est_scores
               else py_max (metric_of metric) est_scores) of
           Inl e \<Rightarrow> Inl e
         | Inr b \<Rightarrow> best_loop scores metric names (AList.update name b best))"

definition best_score_by_estimator ::
  "(string \<times> score_rec) list \<Rightarrow> string \<Rightarrow> pyerr + (string \<times> score_rec) list" where
  "best_score_by_estimator scores metric =
     (if list_ex (\<lambda>(k, v). estimator_name v = None) scores then Inl ValueError
      else
        (let estimator_names =
               sorted_list_of_set
                 (set (map (\<lambda>v. the (estimator_name v))
                        (filter (\<lambda>v. estimator_name v \<noteq> None) (map snd scores))))
         in best_loop scores metric estimator_names []))"

section \<open>Reductions of numpy and pandas\<close>

definition fl_sum :: "fl list \<Rightarrow> fl" where
  "fl_sum xs = foldr fl_add xs (Fin 0)"

definition fl_sq :: "fl \<Rightarrow> fl" where
  "fl_sq x = fl_mul x x"

text \<open>
  numpy reduces over every element: the mean of an empty array is \<open>0 / 0\<close>, that is NaN,
  and \<open>np.std\<close> is the population standard deviation.
\<close>

definition np_mean :: "fl list \<Rightarrow> fl" where
  "np_mean xs = fl_div (fl_sum xs) (Fin (real (length xs)))"

definition np_std :: "fl list \<Rightarrow> fl" where
  "np_std xs = (let m = np_mean xs in fl_sqrt (np_mean (map (\<lambda>x. fl_sq (fl_sub x m)) xs)))"

text \<open>
  pandas reductions skip NaN entries; \<open>Series.std\<close> is the sample standard deviation
  (one degree of freedom less), NaN for fewer than two entries. These are the reductions
  in exact arithmetic.
\<close>

definition dropna :: "fl list \<Rightarrow> fl list" where
  "dropna xs = filter (\<lambda>x. \<not> isnan x) xs"

definition pd_sum :: "fl list \<Rightarrow> fl" where
  "pd_sum xs = fl_sum (dropna xs)"

definition pd_mean :: "fl list \<Rightarrow> fl" where
  "pd_mean xs = (let ys = dropna xs in fl_div (fl_sum ys) (Fin (real (length ys))))"

definition pd_std :: "fl list \<Rightarrow> fl" where
  "pd_std xs =
     (let ys = dropna xs; n = length ys
      in if n \<le> 1 then NaN
         else (let m = fl_div (fl_sum ys) (Fin (real n))
               in fl_sqrt (fl_div (fl_sum (map (\<lambda>y. fl_sq (fl_sub y m)) ys)) (Fin (real (n - 1))))))"

text \<open>\<open>math.sqrt\<close> raises \<open>ValueError\<close> on a negative argument.\<close>

fun math_sqrt :: "fl \<Rightarrow> pyerr + fl" where
  "math_sqrt (Fin a) = (if a < 0 then Inl ValueError else Inr (f64_round (sqrt a)))"
| "math_sqrt PInf = Inr PInf"
| "math_sqrt NInf = Inl ValueError"
| "math_sqrt NaN = Inr NaN"

section \<open>The naive average treatment effect\<close>

text \<open>
  A pandas Series: its index (one label per entry) and its values. \<open>df[c]\<close> is the Series
  of column \<open>c\<close> on the index of the frame.
\<close>

record series =
  s_index :: "int list"
  s_values :: "fl list"

definition column :: "dataframe \<Rightarrow> string \<Rightarrow> pyerr + series" where
  "column df c = andthen (getitem df c) (\<lambda>v. Inr \<lparr>s_index = df_index df, s_values = v\<rparr>)"

text \<open>
  \<open>x[key]\<close> for a boolean Series \<open>key\<close>. When the two indexes are equal the mask is used
  as it is. Otherwise pandas looks every label of \<open>x\<close> up in the index of \<open>key\<close>: a label
  that is not there raises \<open>IndexingError\<close>, and when the positions found are not one per
  label (a label is repeated in the index of \<open>key\<close>) the mask has the wrong length and
  numpy raises \<open>IndexError\<close>.
\<close>

definition bool_getitem :: "series \<Rightarrow> int list \<Rightarrow> bool list \<Rightarrow> pyerr + fl list" where
  "bool_getitem x key_index key =
     (if key_index = s_index x then Inr (mask_list key (s_values x))
      else
        (let positions = (\<lambda>l. filter (\<lambda>i. key_index ! i = l) [0..<length key_index]);
             indexer = concat (map positions (s_index x))
         in if list_ex (\<lambda>l. positions l = []) (s_index x) then Inl IndexingError
            else if length indexer \<noteq> length (s_index x) then Inl IndexError
            else Inr (mask_list (map (\<lambda>i. key ! i) indexer) (s_values x))))"

text \<open>
  \<open>naive_ate(treatment, outcome)\<close>. The means and the standard deviations are those pandas
  returns for the selected values; the scalar operations on them are operations on
  doubles. \<open>treated\<close> counts over the whole treatment Series.
\<close>

definition naive_ate :: "libs \<Rightarrow> series \<Rightarrow> series \<Rightarrow> pyerr + (fl \<times> fl \<times> nat)" where
  "naive_ate L treatment outcome =
     (let is1 = map (\<lambda>t. fl_eq t (Fin 1)) (s_values treatment);
          is0 = map (\<lambda>t. fl_eq t (Fin 0)) (s_values treatment);
          treated = length (filter (\<lambda>b. b) is1)
      in andthen (bool_getitem outcome (s_index treatment) is1) (\<lambda>y1.
         andthen (bool_getitem outcome (s_index treatment) is0) (\<lambda>y0.
           let mean' = f64_sub (series_mean L y1) (series_mean L y0);
               std1 = f64_div (series_std L y1)
                        (f64_add (f64_sqrt (Fin (real treated))) (f64_round (1 / 1000)))
           in andthen (math_sqrt (Fin (real_of_int (int (length (s_values outcome)) - int treated))))
                (\<lambda>r. let std2 = f64_div (series_std L y0) (f64_add r (f64_round (1 / 1000)))
                     in andthen (math_sqrt (f64_add (f64_mul std1 std1) (f64_mul std2 std2)))
                          (\<lambda>std'. Inr (mean', std', length (s_values treatment)))))))"

text \<open>
  The mean of the outcome over the rows with treatment \<open>v\<close>, written from the words of the
  specification: the pandas mean of the outcomes of the rows, in their order, whose
  treatment is \<open>v\<close>.
\<close>

definition spec_conditional_mean :: "libs \<Rightarrow> series \<Rightarrow> series \<Rightarrow> fl \<Rightarrow> fl" where
  "spec_conditional_mean L treatment outcome v =
     series_mean L
       (map (\<lambda>i. s_values outcome ! i)
          (filter (\<lambda>i. fl_eq (s_values treatment ! i) v) [0..<length (s_values treatment)]))"
section \<open>The conditional dependence coefficient\<close>

subsection \<open>The random source\<close>

text \<open>
  \<open>np.random\<close> is a global generator. It is modelled as an explicit state: a sequence of
  naturals and the position of the next one. A draw from \<open>0, ..., a - 1\<close> is the next
  natural modulo \<open>a\<close>. \<open>np.random.choice(a, size)\<close> raises \<open>ValueError\<close> when samples are
  asked from an empty population.
\<close>

record rng =
  draws :: "nat \<Rightarrow> nat"
  pos :: nat

definition random_choice :: "nat \<Rightarrow> nat \<Rightarrow> rng \<Rightarrow> pyerr + (nat list \<times> rng)" where
  "random_choice a k g =
     (if a = 0 \<and> k > 0 then Inl ValueError
      else Inr (map (\<lambda>j. draws g (pos g + j) mod a) [0..<k], g\<lparr>pos := pos g + k\<rparr>))"

definition randomNN :: "nat list \<Rightarrow> rng \<Rightarrow> pyerr + (nat list \<times> rng)" where
  "randomNN ids g =
     (let m = length ids
      in andthen (random_choice (m - 1) m g)
           (\<lambda>(x, g'). Inr (map (\<lambda>(v, j). ids ! (v + (if v \<ge> j then 1 else 0))) (zip x [0..<m]), g')))"

subsection \<open>Nearest neighbours\<close>

text \<open>
  \<open>NearestNeighbors(n_neighbors=3).fit(A).kneighbors(A)\<close> of scikit-learn is the field
  \<open>kneighbors\<close> of the collaborators: it raises, or returns for every row of \<open>A\<close> three
  distances and three row indices (two arrays of shape \<open>(n, 3)\<close>, here one pair of
  triples per row). Which rows it lists at equal distances, and the distances it computes
  in floating point, are its own.
\<close>

text \<open>
  \<open>df.groupby('group')['id'].transform(Scorer.randomNN)\<close>: the groups are visited in
  increasing order of their key, \<open>randomNN\<close> is applied to the ids of each group, and the
  results are put back in the rows of the group.
\<close>

fun transform_groups ::
  "(nat \<times> nat) list \<Rightarrow> nat list \<Rightarrow> (nat \<times> nat) list \<Rightarrow> rng \<Rightarrow>
   pyerr + ((nat \<times> nat) list \<times> rng)" where
  "transform_groups rows [] acc g = Inr (acc, g)"
| "transform_groups rows (key # keys) acc g =
     (let ids = map fst (filter (\<lambda>(i, grp). grp = key) rows)
      in andthen (randomNN ids g)
           (\<lambda>(vals, g'). transform_groups rows keys (acc @ zip ids vals) g'))"

definition group_transform :: "nat list \<Rightarrow> nat list \<Rightarrow> rng \<Rightarrow> pyerr + (nat list \<times> rng)" where
  "group_transform ids groups g =
     andthen (transform_groups (zip ids groups) (sorted_list_of_set (set groups)) [] g)
       (\<lambda>(acc, g'). Inr (map (\<lambda>i. the (map_of acc i)) ids, g'))"

text \<open>\<open>a[idx] = vals\<close> for an index array \<open>idx\<close>.\<close>

definition scatter :: "'a list \<Rightarrow> nat list \<Rightarrow> 'a list \<Rightarrow> 'a list" where
  "scatter a idx vals = fold (\<lambda>(i, v) acc. acc[i := v]) (zip idx vals) a"

text \<open>\<open>a.min()\<close> of a non-empty array: NaN as soon as one entry is NaN.\<close>

definition np_amin :: "fl list \<Rightarrow> fl" where
  "np_amin xs =
     (if list_ex isnan xs then NaN else foldr (\<lambda>x m. if fl_less x m then x else m) xs PInf)"

text \<open>
  \<open>helper_ties(a)\<close>: the distances from row \<open>a\<close> of \<open>X\<close> to the other rows (\<open>cdist\<close> of
  scipy, a collaborator), the positions of the smallest one among them, one of these
  drawn at random, and the shift back to an index of the full array. \<open>cdist\<close> refuses a
  one-dimensional second argument, and the minimum of no distances raises.
\<close>

definition helper_ties :: "libs \<Rightarrow> ndarray \<Rightarrow> nat \<Rightarrow> rng \<Rightarrow> pyerr + (nat \<times> rng)" where
  "helper_ties L X a g =
     (case X of
        Arr1 xs \<Rightarrow> Inl (if a < length xs then ValueError else IndexError)
      | Arr2 k P \<Rightarrow>
          if a \<ge> length P then Inl IndexError
          else
            (let others = take a P @ drop (Suc a) P
             in andthen (cdist L (P ! a) others)
                  (\<lambda>distances.
                     if distances = [] then Inl ValueError
                     else
                       (let ids = filter (\<lambda>j. fl_eq (distances ! j) (np_amin distances))
                                    [0..<length distances]
                        in andthen (random_choice (length ids) 1 g)
                             (\<lambda>(x, g'). let v = ids ! (x ! 0)
                                         in Inr (v + (if v \<ge> a then 1 else 0), g'))))))"

fun ties_loop :: "libs \<Rightarrow> ndarray \<Rightarrow> nat list \<Rightarrow> rng \<Rightarrow> pyerr + (nat list \<times> rng)" where
  "ties_loop L X [] g = Inr ([], g)"
| "ties_loop L X (a # as) g =
     andthen (helper_ties L X a g)
       (\<lambda>(v, g'). andthen (ties_loop L X as g') (\<lambda>(vs, g''). Inr (v # vs, g'')))"

text \<open>
  The nearest-neighbour index of every row of \<open>A\<close>, with the two corrections of the
  source: rows whose second neighbour is at distance 0 get a random other member of their
  group, and rows whose second and third neighbours are at the same distance get a random
  nearest row. \<open>H\<close> holds the array \<open>helper_ties\<close> works on, or \<open>None\<close> while
  \<open>helper_ties\<close> has not been defined in the calling function (then using it raises
  \<open>NameError\<close>). The result says whether there were ties, that is, whether the source
  went through its \<open>def helper_ties\<close>.
\<close>

definition nn_stage ::
  "libs \<Rightarrow> ndarray \<Rightarrow> ndarray option \<Rightarrow> rng \<Rightarrow> pyerr + (nat list \<times> bool \<times> rng)" where
  "nn_stage L A H g =
     andthen (kneighbors L A)
       (\<lambda>nb.
          let n = length nb;
              dist1 = (\<lambda>i. case nb ! i of ((d0, d1, d2), _) \<Rightarrow> d1);
              dist2 = (\<lambda>i. case nb ! i of ((d0, d1, d2), _) \<Rightarrow> d2);
              nn_index = map (\<lambda>(_, (i0, i1, i2)). i1) nb;
              repeat_data = filter (\<lambda>i. fl_eq (dist1 i) (Fin 0)) [0..<n];
              groups = map (\<lambda>i. case nb ! i of (_, (i0, i1, i2)) \<Rightarrow> i0) repeat_data
          in andthen (group_transform repeat_data groups g)
               (\<lambda>(rnn, g1).
                  let nn_index1 = scatter nn_index repeat_data rnn;
                      ties = filter (\<lambda>i. fl_eq (dist1 i) (dist2 i) \<and> i \<notin> set repeat_data) [0..<n]
                  in if length ties > 0
                     then (case H of
                             None \<Rightarrow> Inl NameError
                           | Some X \<Rightarrow>
                               andthen (ties_loop L X ties g1)
                                 (\<lambda>(vals, g2). Inr (scatter nn_index1 ties vals, True, g2)))
                     else Inr (nn_index1, False, g1)))"

subsection \<open>Ranks\<close>

text \<open>
  \<open>R_Y = np.argsort(np.argsort(Y))\<close>. \<open>np.argsort\<close> is the field \<open>np_argsort\<close> of the
  collaborators: the order it gives to equal values is that of the sort numpy runs, which
  is not stable by default. Its second application is to the index array the first
  returned. Whatever the order, equal responses get different ranks; the comment of the
  source (\<open>Rank Y with ties method 'max'\<close>) describes another ranking.
\<close>

definition rank_Y :: "libs \<Rightarrow> fl list \<Rightarrow> nat list" where
  "rank_Y L Y = np_argsort L (map (\<lambda>i. Fin (real i)) (np_argsort L Y))"

text \<open>
  \<open>np.minimum(R_Y, R_Y[nn_index])\<close>: the index array must stay inside \<open>R_Y\<close>
  (\<open>IndexError\<close>) and the two arrays must have one length (\<open>ValueError\<close>).
\<close>

definition min_with_neighbour :: "nat list \<Rightarrow> nat list \<Rightarrow> pyerr + nat list" where
  "min_with_neighbour R nn =
     (if list_ex (\<lambda>j. j \<ge> length R) nn then Inl IndexError
      else if length nn \<noteq> length R then Inl ValueError
      else Inr (map (\<lambda>(r, j). min r (R ! j)) (zip R nn)))"

definition int_sum :: "nat list \<Rightarrow> int" where
  "int_sum xs = sum_list (map int xs)"

subsection \<open>The estimators\<close>

definition estimateConditionalS :: "libs \<Rightarrow> fl list \<Rightarrow> ndarray \<Rightarrow> rng \<Rightarrow> pyerr + (fl \<times> rng)" where
  "estimateConditionalS L Y X g =
     (let n = length Y
      in andthen (nn_stage L X (Some X) g)
           (\<lambda>(nn_index_X, t, g').
              let R_Y = rank_Y L Y
              in andthen (min_with_neighbour R_Y nn_index_X)
                   (\<lambda>m. Inr (fl_div (Fin (real_of_int (int_sum R_Y - int_sum m)))
                                     (Fin (real (n\<^sup>2))), g'))))"

text \<open>\<open>Z.reshape(-1, 1)\<close> and \<open>np.hstack((X, Z))\<close> for a two-dimensional \<open>Z\<close>.\<close>

definition reshape_column :: "ndarray \<Rightarrow> ndarray" where
  "reshape_column Z = Arr2 1 (map (\<lambda>x. [x]) (ravel Z))"

fun hstack :: "ndarray \<Rightarrow> ndarray \<Rightarrow> pyerr + ndarray" where
  "hstack (Arr2 k rs) (Arr2 l qs) =
     (if length rs \<noteq> length qs then Inl ValueError
      else Inr (Arr2 (k + l) (map (\<lambda>(r, q). r @ q) (zip rs qs))))"
| "hstack _ _ = Inl ValueError"

text \<open>
  In \<open>estimateConditionalQ\<close> the function \<open>helper_ties\<close> is defined, over \<open>X\<close>, only when
  \<open>X\<close> has ties; the ties of \<open>W\<close> are resolved with that same function.
\<close>

definition estimateConditionalQ ::
  "libs \<Rightarrow> fl list \<Rightarrow> ndarray \<Rightarrow> ndarray \<Rightarrow> rng \<Rightarrow> pyerr + (fl \<times> rng)" where
  "estimateConditionalQ L Y X Z g =
     (let Z' = reshape_column Z;
          n = length Y
      in andthen (hstack X Z')
           (\<lambda>W. andthen (nn_stage L X (Some X) g)
              (\<lambda>(nn_index_X, t, g1).
                 andthen (nn_stage L W (if t then Some X else None) g1)
                   (\<lambda>(nn_index_W, t', g2).
                      let R_Y = rank_Y L Y
                      in andthen (min_with_neighbour R_Y nn_index_W)
                           (\<lambda>mW. andthen (min_with_neighbour R_Y nn_index_X)
                              (\<lambda>mX. Inr (fl_div (Fin (real_of_int (int_sum mW - int_sum mX)))
                                                 (Fin (real (n\<^sup>2))), g2)))))))"

definition estimateConditionalT ::
  "libs \<Rightarrow> fl list \<Rightarrow> ndarray \<Rightarrow> ndarray \<Rightarrow> rng \<Rightarrow> pyerr + (fl \<times> rng)" where
  "estimateConditionalT L Y Z X g =
     andthen (estimateConditionalS L Y X g)
       (\<lambda>(S, g1).
          if fl_eq S (Fin 0) then Inr (Fin 1, g1)
          else andthen (estimateConditionalQ L Y X Z g1) (\<lambda>(Q, g2). Inr (fl_div Q S, g2)))"

text \<open>
  \<open>codec\<close>. Without \<open>X\<close>, rows with a non-finite entry are removed when \<open>na_rm\<close> is set
  (\<open>np.all(..., axis=1)\<close> raises on a one-dimensional \<open>Z\<close>), and the call is
  \<open>estimateConditionalQ(Y, Z, np.zeros((n, 0)))\<close>: \<open>Z\<close> goes to the parameter \<open>X\<close> and
  the array of shape \<open>(n, 0)\<close> to the parameter \<open>Z\<close>.
\<close>

definition codec ::
  "libs \<Rightarrow> fl list \<Rightarrow> ndarray \<Rightarrow> ndarray option \<Rightarrow> bool \<Rightarrow> rng \<Rightarrow> pyerr + (fl \<times> rng)" where
  "codec L Y Z X na_rm g =
     (case X of
        None \<Rightarrow>
          if length Y \<noteq> shape0 Z then Inl ValueError
          else andthen
                 (if na_rm
                  then (case Z of
                          Arr1 zs \<Rightarrow> Inl ValueError
                        | Arr2 k rs \<Rightarrow>
                            (let msk = map (\<lambda>(y, r). isfinite y \<and> list_all isfinite r) (zip Y rs)
                             in Inr (mask_list msk Y, Arr2 k (mask_list msk rs))))
                  else Inr (Y, Z))
                 (\<lambda>(Y', Z').
                    let n = length Y'
                    in if n < 2 then Inl ValueError
                       else estimateConditionalQ L Y' Z' (Arr2 0 (replicate n [])) g)
      | Some X' \<Rightarrow>
          if length Y \<noteq> shape0 X' \<or> length Y \<noteq> shape0 Z \<or> shape0 X' \<noteq> shape0 Z
          then Inl ValueError
          else if length Y < 2 then Inl ValueError
          else estimateConditionalT L Y Z X' g)"
section \<open>The metric functions\<close>

subsection \<open>Array helpers\<close>

text \<open>Order of first appearance, as \<open>Series.unique()\<close> returns it.\<close>

definition unique :: "'a list \<Rightarrow> 'a list" where
  "unique xs = rev (remdups (rev xs))"

text \<open>
  \<open>a[:, i]\<close> for a value \<open>i\<close> taken from a column: \<open>i\<close> must be an integer inside the
  columns of the two-dimensional array \<open>a\<close> (a negative \<open>i\<close> counts from the last column),
  otherwise \<open>IndexError\<close>.
\<close>

definition column_at :: "ndarray \<Rightarrow> fl \<Rightarrow> pyerr + fl list" where
  "column_at a i =
     (case (a, i) of
        (Arr2 k rs, Fin x) \<Rightarrow>
          if x \<notin> \<int> then Inl IndexError
          else (let j = (if x < 0 then int k + \<lfloor>x\<rfloor> else \<lfloor>x\<rfloor>)
                in if 0 \<le> j \<and> j < int k then Inr (map (\<lambda>r. r ! nat j) rs) else Inl IndexError)
      | _ \<Rightarrow> Inl IndexError)"

text \<open>
  The loop that picks, for every row, the predicted probability of the treatment the row
  received: \<open>psw[treatment_series == i] = all_psw[:, i][treatment_series == i]\<close> for every
  treatment value \<open>i\<close>. A boolean index of another length than the array raises
  \<open>IndexError\<close>.
\<close>

fun realized_loop :: "ndarray \<Rightarrow> fl list \<Rightarrow> fl list \<Rightarrow> fl list \<Rightarrow> pyerr + fl list" where
  "realized_loop all_psw ts [] acc = Inr acc"
| "realized_loop all_psw ts (i # is) acc =
     andthen (column_at all_psw i)
       (\<lambda>c. if length ts \<noteq> shape0 all_psw then Inl IndexError
            else realized_loop all_psw ts is
                   (map (\<lambda>(t, c', a). if fl_eq t i then c' else a) (zip ts (zip c acc))))"

definition realized_psw :: "ndarray \<Rightarrow> fl list \<Rightarrow> pyerr + fl list" where
  "realized_psw all_psw ts =
     realized_loop all_psw ts (unique ts) (replicate (shape0 all_psw) (Fin 0))"

text \<open>
  Elementwise product of two one-dimensional arrays, with numpy's broadcasting of an
  array of length one; other lengths that differ raise \<open>ValueError\<close>.
\<close>

definition np_multiply1 :: "fl list \<Rightarrow> fl list \<Rightarrow> pyerr + fl list" where
  "np_multiply1 a b =
     (if length a = length b then Inr (map (\<lambda>(x, y). fl_mul x y) (zip a b))
      else if length a = 1 then Inr (map (fl_mul (a ! 0)) b)
      else if length b = 1 then Inr (map (\<lambda>x. fl_mul x (b ! 0)) a)
      else Inl ValueError)"

text \<open>
  \<open>D * w.reshape(-1, 1)\<close>: every row of \<open>D\<close> times its weight, again with broadcasting
  of a single row or a single weight.
\<close>

definition scale_rows :: "fl list list \<Rightarrow> fl list \<Rightarrow> pyerr + fl list list" where
  "scale_rows D w =
     (if length D = length w then Inr (map (\<lambda>(r, x). map (\<lambda>y. fl_mul y x) r) (zip D w))
      else if length w = 1 then Inr (map (map (\<lambda>y. fl_mul y (w ! 0))) D)
      else if length D = 1 then Inr (map (\<lambda>x. map (\<lambda>y. fl_mul y x) (D ! 0)) w)
      else Inl ValueError)"

fun rows_of :: "ndarray \<Rightarrow> fl list list" where
  "rows_of (Arr2 k rs) = rs"
| "rows_of (Arr1 xs) = map (\<lambda>x. [x]) xs"

subsection \<open>Potential outcomes\<close>

definition treatment_name_of :: "causal_estimator \<Rightarrow> pyerr + string" where
  "treatment_name_of est =
     (case est_treatment_name est of
        Name s \<Rightarrow> Inr s
      | Names [] \<Rightarrow> Inl IndexError
      | Names (s # _) \<Rightarrow> Inr s)"

text \<open>
  \<open>_Y0_X_potential_outcomes(estimate, df)\<close>. The two assignments \<open>df["dy"] = ...\<close> and
  \<open>df["yhat"] = ...\<close> write to the frame the caller passed; the deep copy is taken
  afterwards and is what the function returns.
\<close>

definition Y0_X_potential_outcomes ::
  "causal_estimate \<Rightarrow> ref \<Rightarrow> (ref \<times> string \<times> string) comp" where
  "Y0_X_potential_outcomes estimate df =
     (let est = estimator estimate
      in bnd (lift (treatment_name_of est)) (\<lambda>treatment_name.
         bnd (deref df) (\<lambda>d0.
         bnd (lift (effect_tt est d0)) (\<lambda>dy.
         bnd (setitem_at df ''dy'' dy) (\<lambda>_.
         bnd (deref df) (\<lambda>d1.
         bnd (lift (getitem d1 (est_outcome_name est))) (\<lambda>y.
         bnd (lift (getitem d1 ''dy'')) (\<lambda>dy'.
         bnd (setitem_at df ''yhat'' (map (\<lambda>(a, b). fl_sub a b) (zip y dy'))) (\<lambda>_.
         bnd (lift (if identifier_method est = ''iv''
                    then (case estimating_instrument_names est of
                            [] \<Rightarrow> Inl IndexError
                          | z # _ \<Rightarrow> Inr z)
                    else Inr treatment_name)) (\<lambda>split_test_by.
         bnd (deref df) (\<lambda>d2.
         bnd (alloc d2) (\<lambda>Y0X.
         ret (Y0X, treatment_name, split_test_by)))))))))))))"

subsection \<open>Energy distance\<close>

definition energy_distance_score :: "libs \<Rightarrow> causal_estimate \<Rightarrow> ref \<Rightarrow> fl comp" where
  "energy_distance_score L estimate df =
     bnd (Y0_X_potential_outcomes estimate df) (\<lambda>(Y0X, _, split_test_by).
     bnd (deref Y0X) (\<lambda>y0x.
     bnd (lift (rows_where_eq y0x split_test_by (Fin 1))) (\<lambda>YX_1.
     bnd (lift (rows_where_eq y0x split_test_by (Fin 0))) (\<lambda>YX_0.
       let select_cols = est_effect_modifier_names (estimator estimate) @ [''yhat'']
       in bnd (lift (getitems YX_1 select_cols)) (\<lambda>a.
          bnd (lift (getitems YX_0 select_cols)) (\<lambda>b.
          lift (dcor_energy_distance L (df_values a) (df_values b))))))))"

subsection \<open>Propensity scores of the two groups\<close>

text \<open>
  \<open>self.psw_estimator.estimator.propensity_model\<close>: each attribute may be missing.
\<close>

definition propensity_model_of :: "scorer \<Rightarrow> pyerr + (dataframe \<Rightarrow> pyerr + ndarray)" where
  "propensity_model_of self =
     andthen (attr (psw_estimator self)) (\<lambda>psw.
     andthen (attr (est_estimator psw)) (\<lambda>inner.
     attr (propensity_model inner)))"

definition features_of :: "scorer \<Rightarrow> string list" where
  "features_of self =
     get_effect_modifiers (causal_model self) @ get_common_causes (causal_model self)"

text \<open>
  The part \<open>frobenius_norm_score\<close> and \<open>psw_energy_distance\<close> share: the probability of
  the realized treatment for the rows of the first group and the probability of
  treatment 0 for the rows of the second.
\<close>

definition group_propensities ::
  "scorer \<Rightarrow> string \<Rightarrow> dataframe \<Rightarrow> dataframe \<Rightarrow> pyerr + (fl list \<times> fl list)" where
  "group_propensities self treatment_name Y0X_1 Y0X_0 =
     andthen (propensity_model_of self) (\<lambda>propensitymodel.
     andthen (getitems Y0X_1 (features_of self)) (\<lambda>f1.
     andthen (propensitymodel f1) (\<lambda>YX_1_all_psw.
     andthen (getitem Y0X_1 treatment_name) (\<lambda>treatment_series.
     andthen (realized_psw YX_1_all_psw treatment_series) (\<lambda>YX_1_psw.
     andthen (propensity_model_of self) (\<lambda>propensitymodel'.
     andthen (getitems Y0X_0 (features_of self)) (\<lambda>f0.
     andthen (propensitymodel' f0) (\<lambda>p0.
     andthen (column_at p0 (Fin 0)) (\<lambda>YX_0_psw.
     Inr (YX_1_psw, YX_0_psw))))))))))"

subsection \<open>Frobenius norm\<close>

text \<open>
  The difference matrix: the selected columns of the leading \<open>min_rows\<close> rows of the two
  groups, subtracted row by row, each row scaled by the square root of the product of the
  two propensities.
\<close>

definition difference_matrix ::
  "string list \<Rightarrow> dataframe \<Rightarrow> dataframe \<Rightarrow> fl list \<Rightarrow> fl list \<Rightarrow> pyerr + fl list list" where
  "difference_matrix select_cols Y0X_1 Y0X_0 YX_1_psw YX_0_psw =
     (let min_rows = min (nrows Y0X_1) (nrows Y0X_0);
          Y0X_1' = iloc_head min_rows Y0X_1;
          Y0X_0' = iloc_head min_rows Y0X_0;
          YX_1_psw' = take min_rows YX_1_psw;
          YX_0_psw' = take min_rows YX_0_psw
      in andthen (getitems Y0X_1' select_cols) (\<lambda>a.
         andthen (getitems Y0X_0' select_cols) (\<lambda>b.
         andthen (np_multiply1 YX_1_psw' YX_0_psw') (\<lambda>w.
         scale_rows
           (map (\<lambda>(r, q). map (\<lambda>(x, y). fl_sub x y) (zip r q))
              (zip (rows_of (df_values a)) (rows_of (df_values b))))
           (map fl_sqrt w)))))"

definition frobenius_norm :: "fl list list \<Rightarrow> fl" where
  "frobenius_norm D = fl_sqrt (fl_sum (map fl_sq (concat D)))"

definition normalized_frobenius :: "nat \<Rightarrow> fl list list \<Rightarrow> fl" where
  "normalized_frobenius p D =
     (let score = fl_div (frobenius_norm D) (fl_sqrt (Fin (real (length D * p))))
      in if isfinite score then score else PInf)"

text \<open>
  The score as the specification words it, to compare with the code: with \<open>n\<close> the smaller
  of the two group sizes, the entry of the difference matrix in row \<open>k < n\<close> and column \<open>c\<close>
  is the value of \<open>c\<close> in the \<open>k\<close>-th row of the treated group minus its value in the
  \<open>k\<close>-th row of the control group, times the square root of the product of the
  propensities of these two rows; the score is the Frobenius norm of the matrix over the
  square root of rows times columns, and the sentinel infinity when a group is empty or
  the quotient is not finite.
\<close>

definition cell_of :: "dataframe \<Rightarrow> string \<Rightarrow> nat \<Rightarrow> fl" where
  "cell_of df c k = the (map_of (df_columns df) c) ! k"

definition spec_frobenius_score ::
  "string list \<Rightarrow> dataframe \<Rightarrow> dataframe \<Rightarrow> fl list \<Rightarrow> fl list \<Rightarrow> fl" where
  "spec_frobenius_score cols G1 G0 w1 w0 =
     (let n = min (nrows G1) (nrows G0);
          entry = (\<lambda>k c. fl_mul (fl_sub (cell_of G1 c k) (cell_of G0 c k))
                                (fl_sqrt (fl_mul (w1 ! k) (w0 ! k))));
          squares = concat (map (\<lambda>k. map (\<lambda>c. fl_sq (entry k c)) cols) [0..<n]);
          score = fl_div (fl_sqrt (fl_sum squares)) (fl_sqrt (Fin (real (n * length cols))))
      in if n = 0 then PInf else if isfinite score then score else PInf)"

text \<open>
  \<open>frobenius_norm_score\<close>. Only \<open>AttributeError\<close> is caught around the two effect
  calls.
\<close>

definition cate_or_inf :: "causal_estimator \<Rightarrow> dataframe \<Rightarrow> pyerr + fl list option" where
  "cate_or_inf est d =
     (case effect est d of
        Inr c \<Rightarrow> Inr (Some c)
      | Inl AttributeError \<Rightarrow>
          (case effect_tt est d of
             Inr c \<Rightarrow> Inr (Some c)
           | Inl AttributeError \<Rightarrow> Inr None
           | Inl e \<Rightarrow> Inl e)
      | Inl e \<Rightarrow> Inl e)"

definition frobenius_norm_score ::
  "scorer \<Rightarrow> causal_estimate \<Rightarrow> ref \<Rightarrow> fl \<Rightarrow> fl comp" where
  "frobenius_norm_score self estimate df sd_threshold =
     bnd (deref df) (\<lambda>d0.
     bnd (lift (cate_or_inf (estimator estimate) d0)) (\<lambda>cate.
       case cate of
         None \<Rightarrow> ret PInf
       | Some cate_estimates \<Rightarrow>
           if fl_le (np_std cate_estimates) sd_threshold then ret PInf
           else
             bnd (Y0_X_potential_outcomes estimate df) (\<lambda>(Y0X, treatment_name, split_test_by).
             bnd (deref Y0X) (\<lambda>y0x.
             bnd (lift (rows_where_eq y0x split_test_by (Fin 1))) (\<lambda>Y0X_1.
             bnd (lift (rows_where_eq y0x split_test_by (Fin 0))) (\<lambda>Y0X_0.
               if nrows Y0X_1 = 0 \<or> nrows Y0X_0 = 0 then ret PInf
               else
                 (let select_cols = est_effect_modifier_names (estimator estimate) @ [''yhat'']
                  in bnd (lift (group_propensities self treatment_name Y0X_1 Y0X_0))
                       (\<lambda>(YX_1_psw, YX_0_psw).
                     bnd (lift (difference_matrix select_cols Y0X_1 Y0X_0 YX_1_psw YX_0_psw))
                       (\<lambda>D. ret (normalized_frobenius (length select_cols) D))))))))))"

subsection \<open>Propensity-weighted energy distance\<close>

text \<open>Elementwise product of two matrices of one shape; other shapes raise.\<close>

definition mat_multiply :: "ndarray \<Rightarrow> ndarray \<Rightarrow> pyerr + fl list list" where
  "mat_multiply a b =
     (if ndim a = 2 \<and> ndim b = 2 \<and> map length (rows_of a) = map length (rows_of b)
      then Inr (map (\<lambda>(r, q). map (\<lambda>(x, y). fl_mul x y) (zip r q)) (zip (rows_of a) (rows_of b)))
      else Inl ValueError)"

definition weighted_mean_distance :: "ndarray \<Rightarrow> ndarray \<Rightarrow> pyerr + fl" where
  "weighted_mean_distance w dm =
     andthen (mat_multiply w dm) (\<lambda>m.
       Inr (np_mean (map (fl_mul (fl_div (Fin 1) (np_mean (ravel w)))) (concat m))))"

text \<open>
  The quantile-transformed copy of the reconstructed frame: the transformed feature
  columns on the index of \<open>Y0X\<close>, with the columns \<open>yhat\<close> and \<open>split_test_by\<close> of
  \<open>Y0X\<close>.
\<close>

definition transformed_frame ::
  "libs \<Rightarrow> dataframe \<Rightarrow> string list \<Rightarrow> string \<Rightarrow> pyerr + dataframe" where
  "transformed_frame L Y0X features split_test_by =
     andthen (getitems Y0X features) (\<lambda>f.
     andthen (quantile_transform L f) (\<lambda>X_quantiles.
       if length X_quantiles \<noteq> nrows Y0X \<or> \<not> list_all (\<lambda>r. length r = length features) X_quantiles
       then Inl ValueError
       else
         (let t = \<lparr>df_index = df_index Y0X,
                   df_columns = map (\<lambda>(j, c). (c, map (\<lambda>r. r ! j) X_quantiles))
                                  (zip [0..<length features] features)\<rparr>
          in andthen (getitems Y0X [''yhat'', split_test_by]) (\<lambda>extra.
             andthen (getitem extra ''yhat'') (\<lambda>yh.
             andthen (setitem t ''yhat'' yh) (\<lambda>t1.
             andthen (getitem extra split_test_by) (\<lambda>sp.
             setitem t1 split_test_by sp)))))))"

definition psw_energy_distance ::
  "libs \<Rightarrow> scorer \<Rightarrow> causal_estimate \<Rightarrow> ref \<Rightarrow> bool \<Rightarrow> fl comp" where
  "psw_energy_distance L self estimate df normalise_features =
     bnd (Y0_X_potential_outcomes estimate df) (\<lambda>(Y0X, treatment_name, split_test_by).
     bnd (deref Y0X) (\<lambda>y0x.
     bnd (lift (rows_where_eq y0x split_test_by (Fin 1))) (\<lambda>Y0X_1.
     bnd (lift (rows_where_eq y0x split_test_by (Fin 0))) (\<lambda>Y0X_0.
     bnd (lift (group_propensities self treatment_name Y0X_1 Y0X_0)) (\<lambda>(YX_1_psw, YX_0_psw).
       let select_cols = est_effect_modifier_names (estimator estimate) @ [''yhat''];
           features = est_effect_modifier_names (estimator estimate)
       in bnd (lift (psw_joint_weights L YX_1_psw (Some YX_0_psw))) (\<lambda>xy_psw.
          bnd (lift (psw_joint_weights L YX_0_psw None)) (\<lambda>xx_psw.
          bnd (lift (psw_joint_weights L YX_1_psw None)) (\<lambda>yy_psw.
          bnd (lift (if normalise_features
                     then andthen (transformed_frame L y0x features split_test_by) (\<lambda>t.
                          andthen (rows_where_eq t split_test_by (Fin 1)) (\<lambda>g1.
                          andthen (rows_where_eq t split_test_by (Fin 0)) (\<lambda>g0. Inr (g1, g0))))
                     else Inr (Y0X_1, Y0X_0))) (\<lambda>(G1, G0).
          bnd (lift (getitems G1 select_cols)) (\<lambda>a.
          bnd (lift (getitems G0 select_cols)) (\<lambda>b.
          bnd (lift (pairwise_distances L (df_values a) (df_values b))) (\<lambda>dxy.
          bnd (lift (weighted_mean_distance xy_psw dxy)) (\<lambda>mean_xy.
          bnd (lift (getitems G1 select_cols)) (\<lambda>a'.
          bnd (lift (pairwise_distances L (df_values a') (df_values a'))) (\<lambda>dyy.
          bnd (lift (weighted_mean_distance yy_psw dyy)) (\<lambda>mean_yy.
          bnd (lift (getitems G0 select_cols)) (\<lambda>b'.
          bnd (lift (pairwise_distances L (df_values b') (df_values b'))) (\<lambda>dxx.
          bnd (lift (weighted_mean_distance xx_psw dxx)) (\<lambda>mean_xx.
          ret (fl_sub (fl_sub (fl_mul (Fin 2) mean_xy) mean_xx) mean_yy))))))))))))))))))))"

subsection \<open>Policy risk\<close>

definition of_bool_fl :: "bool \<Rightarrow> fl" where
  "of_bool_fl b = Fin (if b then 1 else 0)"

definition default_policy :: "fl list \<Rightarrow> fl list" where
  "default_policy cate = map (\<lambda>c. of_bool_fl (fl_less (Fin 0) c)) cate"

text \<open>\<open>np.clip(x, lo, hi)\<close>; NaN stays NaN.\<close>

definition np_clip :: "fl \<Rightarrow> fl \<Rightarrow> fl \<Rightarrow> fl" where
  "np_clip x lo hi = (if isnan x then NaN else if fl_less x lo then lo else if fl_less hi x then hi else x)"

text \<open>
  \<open>a[idx]\<close> for an array of index labels used as positions: a negative one counts from
  the end, one outside the array raises \<open>IndexError\<close>.
\<close>

definition np_take :: "'a list \<Rightarrow> int list \<Rightarrow> pyerr + 'a list" where
  "np_take a idx =
     (let n = int (length a);
          p = map (\<lambda>i. if i < 0 then n + i else i) idx
      in if list_all (\<lambda>j. 0 \<le> j \<and> j < n) p then Inr (map (\<lambda>j. a ! nat j) p) else Inl IndexError)"

text \<open>
  \<open>df.loc[labels]\<close>: the rows with each label in turn, \<open>KeyError\<close> for a label the index
  does not have.
\<close>

definition loc_rows :: "dataframe \<Rightarrow> int list \<Rightarrow> pyerr + dataframe" where
  "loc_rows df labels =
     (if list_all (\<lambda>l. l \<in> set (df_index df)) labels
      then (let ps = concat (map (\<lambda>l. filter (\<lambda>i. df_index df ! i = l) [0..<nrows df]) labels)
            in Inr \<lparr>df_index = map (\<lambda>i. df_index df ! i) ps,
                    df_columns = map (\<lambda>(c, v). (c, map (\<lambda>i. v ! i) ps)) (df_columns df)\<rparr>)
      else Inl KeyError)"

text \<open>
  \<open>np.where(c, a, b)\<close> on one-dimensional arrays of one length (an array of length one
  is broadcast); other lengths raise \<open>ValueError\<close>.
\<close>

definition np_where :: "bool list \<Rightarrow> fl list \<Rightarrow> fl list \<Rightarrow> pyerr + fl list" where
  "np_where c a b =
     (if length a \<noteq> length b then Inl ValueError
      else if length c = length a then Inr (map (\<lambda>(x, y, z). if x then y else z) (zip c (zip a b)))
      else if length a = 1 then Inr (map (\<lambda>x. if x then a ! 0 else b ! 0) c)
      else if length c = 1 then Inr (if c ! 0 then a else b)
      else Inl ValueError)"

text \<open>
  The weighted policy value of the evaluation rows. The products are products of Series
  on the index of \<open>rct_df\<close>; the sums and the means are pandas reductions.
\<close>

definition policy_term :: "fl list \<Rightarrow> fl list \<Rightarrow> fl list \<Rightarrow> fl list \<Rightarrow> real \<Rightarrow> fl" where
  "policy_term y t pt w level =
     fl_mul
       (fl_div
          (pd_sum (map (\<lambda>(yi, ti, qi, wi).
                      fl_mul (fl_mul (fl_mul yi (of_bool_fl (fl_eq ti (Fin level))))
                                     (of_bool_fl (fl_eq qi (Fin level)))) wi)
                   (zip y (zip t (zip pt w)))))
          (pd_sum w))
       (pd_mean (map (\<lambda>qi. of_bool_fl (fl_eq qi (Fin level))) pt))"

text \<open>
  \<open>policy_risk_score\<close>. \<open>np.squeeze\<close> turns an array of one estimate into a scalar, which
  cannot be indexed later. With a list-valued \<open>_treatment_name\<close> the comparison
  \<open>df[treatment_name] == 1\<close> is a frame, \<open>np.where\<close> broadcasts it against the
  propensities, and the assignment of the resulting two-dimensional weights raises
  \<open>ValueError\<close>. The function reads \<open>df\<close> and writes only to its copy \<open>rct_df\<close>.
\<close>

definition policy_risk_score ::
  "scorer \<Rightarrow> causal_estimate \<Rightarrow> ref \<Rightarrow> fl list \<Rightarrow> string \<Rightarrow>
   (fl list \<Rightarrow> pyerr + fl list) option \<Rightarrow> int list option \<Rightarrow> fl \<Rightarrow> fl \<Rightarrow> fl comp" where
  "policy_risk_score self estimate df cate_estimate outcome_name policy rct_indices sd_threshold clip =
     bnd (deref df) (\<lambda>d.
       let policy' = (case policy of None \<Rightarrow> (\<lambda>c. Inr (default_policy c)) | Some f \<Rightarrow> f);
           rct_indices' = (case rct_indices of None \<Rightarrow> df_index d | Some ix \<Rightarrow> ix)
       in if fl_le (np_std cate_estimate) sd_threshold then ret (Fin 0)
          else
            bnd (lift (policy' cate_estimate)) (\<lambda>policy_treatment.
            bnd (lift (case psw_estimator self of
                         None \<Rightarrow> Inl AttributeError
                       | Some psw \<Rightarrow>
                           (case est_estimator psw of
                              None \<Rightarrow> Inl ValueError
                            | Some inner \<Rightarrow>
                                (case propensity_model inner of
                                   None \<Rightarrow> Inl ValueError
                                 | Some pm \<Rightarrow> Inr (psw, pm))))) (\<lambda>(psw, pm).
            bnd (lift (getitems d (''random'' # est_effect_modifier_names psw))) (\<lambda>f.
            bnd (lift (pm f)) (\<lambda>proba.
            bnd (lift (if ndim proba = 2 then column_at proba (Fin 1) else Inr (ravel proba)))
              (\<lambda>scores.
              let propensity_scores = map (\<lambda>p. np_clip p clip (fl_sub (Fin 1) clip)) scores
              in case est_treatment_name psw of
                   Names cs \<Rightarrow> bnd (lift (getitems d cs)) (\<lambda>_. raise ValueError)
                 | Name treatment_name \<Rightarrow>
                     bnd (lift (getitem d treatment_name)) (\<lambda>t.
                     bnd (lift (np_where (map (\<lambda>x. fl_eq x (Fin 1)) t)
                                  (map (\<lambda>p. fl_div (Fin 1) p) propensity_scores)
                                  (map (\<lambda>p. fl_div (Fin 1) (fl_sub (Fin 1) p)) propensity_scores)))
                       (\<lambda>weights.
                     bnd (lift (loc_rows d rct_indices')) (\<lambda>rct0.
                     bnd (alloc rct0) (\<lambda>rct_df.
                     bnd (lift (np_take weights rct_indices')) (\<lambda>w.
                     bnd (setitem_at rct_df ''weight'' w) (\<lambda>_.
                     bnd (lift (if length cate_estimate = 1 then Inl IndexError
                                else np_take policy_treatment rct_indices')) (\<lambda>p.
                     bnd (setitem_at rct_df ''policy_treatment'' p) (\<lambda>_.
                     bnd (deref rct_df) (\<lambda>r.
                     bnd (lift (getitem r outcome_name)) (\<lambda>y.
                     bnd (lift (getitem r treatment_name)) (\<lambda>tr.
                     bnd (lift (getitem r ''policy_treatment'')) (\<lambda>pt.
                     bnd (lift (getitem r ''weight'')) (\<lambda>wt.
                       let value_policy = fl_add (policy_term y tr pt wt 1) (policy_term y tr pt wt 0)
                       in ret (fl_sub (Fin 1) value_policy))))))))))))))))))))"

subsection \<open>Uplift scores\<close>

definition uplift_frame :: "causal_estimate \<Rightarrow> dataframe \<Rightarrow> fl list \<Rightarrow> pyerr + dataframe" where
  "uplift_frame estimate d cate_estimate =
     (let est = estimator estimate
      in andthen (getitem d (est_outcome_name est)) (\<lambda>y.
         andthen (treatment_name_of est) (\<lambda>treatment_name.
         andthen (getitem d treatment_name) (\<lambda>w.
         setitem \<lparr>df_index = df_index d, df_columns = [(''y'', y), (''w'', w)]\<rparr>
           ''model'' cate_estimate))))"

definition qini_make_score :: "libs \<Rightarrow> causal_estimate \<Rightarrow> ref \<Rightarrow> fl list \<Rightarrow> fl comp" where
  "qini_make_score L estimate df cate_estimate =
     bnd (deref df) (\<lambda>d.
     bnd (lift (uplift_frame estimate d cate_estimate)) (\<lambda>new_df.
     lift (qini_score L new_df)))"

definition auc_make_score :: "libs \<Rightarrow> causal_estimate \<Rightarrow> ref \<Rightarrow> fl list \<Rightarrow> fl comp" where
  "auc_make_score L estimate df cate_estimate =
     bnd (deref df) (\<lambda>d.
     bnd (lift (uplift_frame estimate d cate_estimate)) (\<lambda>new_df.
     lift (auuc_score L new_df)))"

definition r_make_score :: "(fl list \<Rightarrow> pyerr + fl) \<Rightarrow> fl list \<Rightarrow> pyerr + fl" where
  "r_make_score r_scorer cate_estimate = r_scorer cate_estimate"

subsection \<open>CODEC as a causal score\<close>

definition identify_confounders :: "dataframe \<Rightarrow> string \<Rightarrow> string \<Rightarrow> string list" where
  "identify_confounders df treatment_col outcome_col =
     filter (\<lambda>c. c \<notin> set [treatment_col, outcome_col, ''random'', ''index'']) (colnames df)"

text \<open>
  \<open>codec_score(estimate, df)\<close> writes \<open>dy\<close> and \<open>yhat\<close> into the frame it is given and
  takes no copy. It uses the random source of \<open>codec\<close>.
\<close>

definition codec_score :: "libs \<Rightarrow> causal_estimate \<Rightarrow> ref \<Rightarrow> rng \<Rightarrow> (fl \<times> rng) comp" where
  "codec_score L estimate df g =
     (let est = estimator estimate
      in bnd (lift (treatment_name_of est)) (\<lambda>treatment_name.
         bnd (deref df) (\<lambda>d0.
           let outcome_name = est_outcome_name est;
               confounders = identify_confounders d0 treatment_name outcome_name
           in bnd (lift (effect est d0)) (\<lambda>cate_est.
              let standard_deviations = np_std cate_est
              in bnd (lift (effect_tt est d0)) (\<lambda>dy.
                 bnd (setitem_at df ''dy'' dy) (\<lambda>_.
                 bnd (deref df) (\<lambda>d1.
                 bnd (lift (getitem d1 (est_outcome_name est))) (\<lambda>y.
                 bnd (lift (getitem d1 ''dy'')) (\<lambda>dy'.
                 bnd (setitem_at df ''yhat'' (map (\<lambda>(a, b). fl_sub a b) (zip y dy'))) (\<lambda>_.
                 bnd (deref df) (\<lambda>d2.
                 bnd (lift (getitem d2 ''yhat'')) (\<lambda>Y.
                 bnd (lift (getitem d2 treatment_name)) (\<lambda>Z.
                 bnd (lift (getitems d2 confounders)) (\<lambda>X.
                   if fl_less standard_deviations (Fin (1 / 100)) then ret (PInf, g)
                   else lift (codec L Y (Arr1 Z) (Some (df_values X)) True g)))))))))))))))"

section \<open>The score aggregator\<close>

text \<open>
  \<open>Scorer.ate\<close> returns the estimate with the naive standard deviation and the sample
  size when the weighting estimator has one effect column, and the vector of estimates
  (with two \<open>None\<close>) otherwise. \<open>len\<close> of the mean of a one-dimensional effect raises
  \<open>TypeError\<close>.
\<close>

datatype ate_result = AteScalar fl fl nat | AteVector "fl list"

definition ate :: "libs \<Rightarrow> scorer \<Rightarrow> dataframe \<Rightarrow> pyerr + ate_result" where
  "ate L self df =
     andthen (attr (psw_estimator self)) (\<lambda>psw.
     andthen (attr (est_estimator psw)) (\<lambda>inner.
     andthen (inner_effect inner df) (\<lambda>e.
       case e of
         Arr1 xs \<Rightarrow> Inl TypeError
       | Arr2 k rs \<Rightarrow>
           (let estimate = map (\<lambda>j. np_mean (map (\<lambda>r. r ! j) rs)) [0..<k]
            in if length estimate = 1
               then (case cm_treatment (causal_model self) of
                       [] \<Rightarrow> Inl IndexError
                     | treatment_name # _ \<Rightarrow>
                         (case cm_outcome (causal_model self) of
                            [] \<Rightarrow> Inl IndexError
                          | outcome_name # _ \<Rightarrow>
                              andthen (column df treatment_name) (\<lambda>t.
                              andthen (column df outcome_name) (\<lambda>y.
                              andthen (naive_ate L t y) (\<lambda>(m, s, c).
                              Inr (AteScalar (estimate ! 0) s c))))))
               else Inr (AteVector estimate)))))"

text \<open>
  The result of \<open>make_scores\<close>: a dictionary from metric names to scores, with the table
  of diagnostic columns under \<open>values\<close>. A score is a float, or an array of floats where
  the source subtracts an array from a float.
\<close>

datatype outval = Score fl | Scores "fl list" | Table dataframe

type_synonym out_dict = "(string \<times> outval) list"

definition score_of :: "fl comp \<Rightarrow> outval comp" where
  "score_of c = bnd c (\<lambda>v. ret (Score v))"

text \<open>\<open>if m in metrics_to_report: out[m] = ...\<close>.\<close>

definition when_reported :: "string \<Rightarrow> string list \<Rightarrow> out_dict \<Rightarrow> outval comp \<Rightarrow> out_dict comp" where
  "when_reported m metrics_to_report out c =
     (if m \<in> set metrics_to_report then bnd c (\<lambda>v. ret (AList.update m v out))
      else ret out)"

text \<open>\<open>try: out[m] = ... except Exception: pass\<close>; what the attempt wrote stays written.\<close>

definition try_reported :: "string \<Rightarrow> string list \<Rightarrow> out_dict \<Rightarrow> outval comp \<Rightarrow> out_dict comp" where
  "try_reported m metrics_to_report out c =
     (if m \<in> set metrics_to_report
      then (\<lambda>s. case c s of
                  (Inl e, s') \<Rightarrow> (Inr out, s')
                | (Inr v, s') \<Rightarrow> (Inr (AList.update m v out), s'))
      else ret out)"

text \<open>
  The diagnostic table: the treatment and outcome columns of the frame and, when the
  simple ATE is a float, the propensity, the two policies and the ERUPT weights. \<open>df\<close> is
  the reference of the working frame, \<open>d\<close> the frame read there, and \<open>values0\<close> the two
  columns taken from it. The table is an object of its own: only \<open>make_scores\<close> holds it.
\<close>

definition values_table ::
  "scorer \<Rightarrow> ref \<Rightarrow> dataframe \<Rightarrow> dataframe \<Rightarrow> fl list \<Rightarrow> ate_result \<Rightarrow> dataframe comp" where
  "values_table self df d values0 cate_estimate a =
     (case a of
        AteVector v \<Rightarrow> ret values0
      | AteScalar simple_ate s c \<Rightarrow>
          bnd (lift (andthen (propensity_model_of self) (\<lambda>propensitymodel.
                     andthen (getitems d (features_of self)) (\<lambda>f.
                     andthen (propensitymodel f) (\<lambda>proba.
                     andthen (column_at proba (Fin 1)) (\<lambda>p.
                     andthen (setitem values0 ''p'' p) (\<lambda>v1.
                     andthen (setitem v1 ''policy''
                                (map (\<lambda>x. of_bool_fl (fl_less (Fin 0) x)) cate_estimate)) (\<lambda>v2.
                     setitem v2 ''norm_policy''
                       (map (\<lambda>x. of_bool_fl (fl_less simple_ate x)) cate_estimate))))))))) (\<lambda>v3.
          bnd (lift (attr (erupt self))) (\<lambda>er.
          bnd (erupt_weights er df (map (\<lambda>x. fl_less (Fin 0) x) cate_estimate)) (\<lambda>w.
          lift (setitem v3 ''weights'' w)))))"

text \<open>
  \<open>cate_estimate > simple_ate\<close>: against a float, or against the vector of estimates
  with numpy's broadcasting of one-dimensional arrays.
\<close>

definition above_ate :: "fl list \<Rightarrow> ate_result \<Rightarrow> pyerr + bool list" where
  "above_ate cate_estimate a =
     (case a of
        AteScalar simple_ate s c \<Rightarrow> Inr (map (\<lambda>x. fl_less simple_ate x) cate_estimate)
      | AteVector v \<Rightarrow>
          if length v = length cate_estimate
          then Inr (map (\<lambda>(x, y). fl_less y x) (zip cate_estimate v))
          else if length cate_estimate = 1 then Inr (map (\<lambda>y. fl_less y (cate_estimate ! 0)) v)
          else if length v = 1 then Inr (map (\<lambda>x. fl_less (v ! 0) x) cate_estimate)
          else Inl ValueError)"

text \<open>
  The three ERUPT scores. Each call reads \<open>df[outcome_name]\<close> from the working frame as it
  is at that moment and hands the frame itself to the ERUPT object.
\<close>

definition plain_erupt_score :: "scorer \<Rightarrow> ref \<Rightarrow> string \<Rightarrow> fl list \<Rightarrow> fl comp" where
  "plain_erupt_score self df outcome_name cate_estimate =
     bnd (lift (attr (erupt self))) (\<lambda>er.
     bnd (deref df) (\<lambda>d.
     bnd (lift (getitem d outcome_name)) (\<lambda>y.
     erupt_score er df y (map (\<lambda>x. fl_less (Fin 0) x) cate_estimate))))"

definition norm_erupt_score ::
  "scorer \<Rightarrow> ref \<Rightarrow> dataframe \<Rightarrow> string \<Rightarrow> fl list \<Rightarrow> ate_result \<Rightarrow> outval comp" where
  "norm_erupt_score self df values outcome_name cate_estimate a =
     bnd (lift (attr (erupt self))) (\<lambda>er.
     bnd (deref df) (\<lambda>d.
     bnd (lift (getitem d outcome_name)) (\<lambda>y.
     bnd (lift (above_ate cate_estimate a)) (\<lambda>policy.
     bnd (erupt_score er df y policy) (\<lambda>sc.
     bnd (lift (getitem values ''norm_policy'')) (\<lambda>np.
       case a of
         AteScalar simple_ate s c \<Rightarrow> ret (Score (fl_sub sc (fl_mul simple_ate (pd_mean np))))
       | AteVector v \<Rightarrow> ret (Scores (map (\<lambda>x. fl_sub sc (fl_mul x (pd_mean np))) v))))))))"

definition prob_erupt_score :: "scorer \<Rightarrow> ref \<Rightarrow> string \<Rightarrow> fl list \<Rightarrow> fl comp" where
  "prob_erupt_score self df outcome_name cate_estimate =
     bnd (deref df) (\<lambda>d.
       if length cate_estimate \<noteq> nrows d then raise ValueError
       else
         (let treatment_effects = cate_estimate;
              treatment_std_devs = replicate (nrows d) (np_std cate_estimate)
          in bnd (lift (attr (erupt self))) (\<lambda>er.
             bnd (lift (getitem d outcome_name)) (\<lambda>y.
             probabilistic_erupt_score er df y treatment_effects treatment_std_devs))))"

text \<open>
  The block of \<open>make_scores\<close> for the problem \<open>backdoor\<close>, up to its assertion: the
  diagnostic table and the scores asked for. \<open>df\<close> is the reference of the working frame;
  the ERUPT object is handed that frame and \<open>frobenius_norm_score\<close> writes to it, so the
  frame is read again wherever the source reads it again.
\<close>

definition backdoor_metrics ::
  "libs \<Rightarrow> scorer \<Rightarrow> causal_estimate \<Rightarrow> ref \<Rightarrow> string list \<Rightarrow>
   (fl list \<Rightarrow> pyerr + fl) option \<Rightarrow> string \<Rightarrow> string \<Rightarrow> fl list \<Rightarrow>
   (out_dict \<times> dataframe) comp" where
  "backdoor_metrics L self estimate df metrics_to_report r_scorer treatment_name outcome_name cate_estimate =
     bnd (deref df) (\<lambda>d.
     bnd (lift (getitems d [treatment_name, outcome_name])) (\<lambda>values0.
     bnd (lift (ate L self d)) (\<lambda>a.
     bnd (values_table self df d values0 cate_estimate a) (\<lambda>values.
     bnd (when_reported ''erupt'' metrics_to_report []
            (score_of (plain_erupt_score self df outcome_name cate_estimate))) (\<lambda>out1.
     bnd (when_reported ''norm_erupt'' metrics_to_report out1
            (norm_erupt_score self df values outcome_name cate_estimate a)) (\<lambda>out2.
     bnd (when_reported ''prob_erupt'' metrics_to_report out2
            (score_of (prob_erupt_score self df outcome_name cate_estimate))) (\<lambda>out3.
     bnd (when_reported ''frobenius_norm'' metrics_to_report out3
            (score_of (frobenius_norm_score self estimate df (Fin (1 / 100))))) (\<lambda>out4.
     bnd (try_reported ''policy_risk'' metrics_to_report out4
            (score_of (policy_risk_score self estimate df cate_estimate outcome_name None None
               (Fin (1 / 100)) (Fin (5 / 100))))) (\<lambda>out5.
     bnd (when_reported ''qini'' metrics_to_report out5
            (score_of (qini_make_score L estimate df cate_estimate))) (\<lambda>out6.
     bnd (when_reported ''auc'' metrics_to_report out6
            (score_of (auc_make_score L estimate df cate_estimate))) (\<lambda>out7.
     bnd (case r_scorer of
            None \<Rightarrow> ret out7
          | Some r \<Rightarrow> bnd (lift (r_make_score r cate_estimate))
                        (\<lambda>v. ret (AList.update ''r_score'' (Score v) out7))) (\<lambda>out8.
     ret (out8, values)))))))))))))"

text \<open>
  The assertion \<open>assert len(values) == len(df)\<close> compares the number of rows of the table
  with that of the working frame as it is when the scores have been computed, and the
  table is stored under \<open>values\<close> only past it.
\<close>

definition backdoor_block ::
  "libs \<Rightarrow> scorer \<Rightarrow> causal_estimate \<Rightarrow> ref \<Rightarrow> string list \<Rightarrow>
   (fl list \<Rightarrow> pyerr + fl) option \<Rightarrow> string \<Rightarrow> string \<Rightarrow> fl list \<Rightarrow> out_dict comp" where
  "backdoor_block L self estimate df metrics_to_report r_scorer treatment_name outcome_name cate_estimate =
     bnd (backdoor_metrics L self estimate df metrics_to_report r_scorer treatment_name
            outcome_name cate_estimate) (\<lambda>(out, values).
     bnd (deref df) (\<lambda>d.
       if nrows values \<noteq> nrows d then raise AssertionError
       else ret (AList.update ''values'' (Table values) out)))"

text \<open>
  \<open>make_scores\<close> works on \<open>df.copy().reset_index()\<close>, a new frame, and passes that
  frame to the metric functions. Nothing in it catches the \<open>AssertionError\<close>.
\<close>

definition make_scores ::
  "libs \<Rightarrow> scorer \<Rightarrow> causal_estimate \<Rightarrow> ref \<Rightarrow> string list \<Rightarrow>
   (fl list \<Rightarrow> pyerr + fl) option \<Rightarrow> rng \<Rightarrow> (out_dict \<times> rng) comp" where
  "make_scores L self estimate df0 metrics_to_report r_scorer g =
     bnd (deref df0) (\<lambda>d0.
     bnd (lift (reset_index d0)) (\<lambda>d1.
     bnd (alloc d1) (\<lambda>df.
     bnd (lift (treatment_name_of (estimator estimate))) (\<lambda>treatment_name.
       let outcome_name = est_outcome_name (estimator estimate)
       in bnd (lift (effect (estimator estimate) d1)) (\<lambda>cate_estimate.
          bnd (if problem self = ''backdoor''
               then backdoor_block L self estimate df metrics_to_report r_scorer
                      treatment_name outcome_name cate_estimate
               else ret []) (\<lambda>out1.
          bnd (ret (if ''ate'' \<in> set metrics_to_report
                    then AList.update ''ate_std'' (Score (np_std cate_estimate))
                           (AList.update ''ate'' (Score (np_mean cate_estimate)) out1)
                    else out1)) (\<lambda>out2.
          bnd (when_reported ''energy_distance'' metrics_to_report out2
                 (score_of (energy_distance_score L estimate df))) (\<lambda>out3.
          bnd (when_reported ''psw_energy_distance'' metrics_to_report out3
                 (score_of (psw_energy_distance L self estimate df False))) (\<lambda>out4.
          if ''codec'' \<in> set metrics_to_report
          then bnd (codec_score L estimate df g)
                 (\<lambda>(temp, g'). ret (AList.update ''codec'' (Score temp) out4, g'))
          else ret (out4, g))))))))))"
section \<open>Example objects\<close>

text \<open>
  A scorer as \<open>Scorer.__init__\<close> leaves it for a problem other than \<open>backdoor\<close>: no
  propensity-weighting estimator is fitted and no ERUPT object is made.
\<close>

definition example_causal_model :: causal_model where
  "example_causal_model =
     \<lparr>cm_treatment = [''T''], cm_outcome = [''Y''],
      get_effect_modifiers = [''X''], get_common_causes = []\<rparr>"

definition frontdoor_scorer :: scorer where
  "frontdoor_scorer =
     \<lparr>problem = ''frontdoor'', multivalue = False, causal_model = example_causal_model,
      psw_estimator = None, erupt = None\<rparr>"

text \<open>
  A scorer for the problem \<open>backdoor\<close>, with a propensity model that gives every row
  the probabilities one half and one half, a weighting estimator whose effect is 1 on
  every row, and an ERUPT object with unit weights.
\<close>

definition example_psw :: causal_estimator where
  "example_psw =
     \<lparr>est_treatment_name = Names [''T''], est_outcome_name = ''Y'',
      est_effect_modifier_names = [''X''], est_observed_common_causes_names = [],
      identifier_method = ''backdoor'', estimating_instrument_names = [],
      effect = (\<lambda>df. Inr (replicate (nrows df) (Fin 1))),
      effect_tt = (\<lambda>df. Inr (replicate (nrows df) (Fin 1))),
      est_estimator = Some
        \<lparr>propensity_model = Some (\<lambda>df. Inr (Arr2 2 (replicate (nrows df) [Fin (1/2), Fin (1/2)]))),
         inner_effect = (\<lambda>df. Inr (Arr2 1 (replicate (nrows df) [Fin 1])))\<rparr>\<rparr>"

definition example_erupt :: erupt_obj where
  "example_erupt =
     \<lparr>erupt_weights = (\<lambda>df policy. bnd (deref df) (\<lambda>d. ret (replicate (nrows d) (Fin 1)))),
      erupt_score = (\<lambda>df outcome policy. ret (Fin 0)),
      probabilistic_erupt_score = (\<lambda>df outcome effects stds. ret (Fin 0))\<rparr>"

text \<open>
  An ERUPT object whose \<open>weights\<close> drops the last row of the frame it is handed (as
  \<open>df.drop(df.index[-1], inplace=True)\<close> does) and returns one weight for every row the
  frame had; and a scorer with it.
\<close>

definition dropping_erupt :: erupt_obj where
  "dropping_erupt =
     \<lparr>erupt_weights = (\<lambda>df policy.
        bnd (deref df) (\<lambda>d.
        bnd (assign df (iloc_head (nrows d - 1) d)) (\<lambda>_.
        ret (replicate (nrows d) (Fin 1))))),
      erupt_score = (\<lambda>df outcome policy. ret (Fin 0)),
      probabilistic_erupt_score = (\<lambda>df outcome effects stds. ret (Fin 0))\<rparr>"

definition backdoor_scorer :: scorer where
  "backdoor_scorer =
     \<lparr>problem = ''backdoor'', multivalue = False, causal_model = example_causal_model,
      psw_estimator = Some example_psw, erupt = Some example_erupt\<rparr>"

definition dropping_scorer :: scorer where
  "dropping_scorer =
     \<lparr>problem = ''backdoor'', multivalue = False, causal_model = example_causal_model,
      psw_estimator = Some example_psw, erupt = Some dropping_erupt\<rparr>"

text \<open>
  Four score records, two for each of two estimators, with their energy distances.
\<close>

definition example_record :: "string \<Rightarrow> real \<Rightarrow> score_rec" where
  "example_record name x =
     \<lparr>estimator_name = Some name, entries = [''energy_distance'' \<mapsto> Fin x]\<rparr>"

definition example_scores :: "(string \<times> score_rec) list" where
  "example_scores =
     [(''run1'', example_record ''LinearDML'' (3/10)),
      (''run2'', example_record ''LinearDML'' (7/10)),
      (''run3'', example_record ''CausalForestDML'' (1/10)),
      (''run4'', example_record ''CausalForestDML'' (9/10))]"

text \<open>
  A treatment and an outcome Series on one index, and the same outcomes under other
  labels.
\<close>

definition treatment_series :: series where
  "treatment_series = \<lparr>s_index = [0, 1, 2, 3], s_values = [Fin 1, Fin 0, Fin 1, Fin 0]\<rparr>"

definition outcome_series :: series where
  "outcome_series = \<lparr>s_index = [0, 1, 2, 3], s_values = [Fin 3, Fin 1, Fin 5, Fin 2]\<rparr>"

definition relabelled_outcome_series :: series where
  "relabelled_outcome_series = \<lparr>s_index = [4, 5, 6, 7], s_values = [Fin 3, Fin 1, Fin 5, Fin 2]\<rparr>"

text \<open>
  Two records of one estimator ranked on \<open>codec\<close>, the first with a NaN score and the
  second with 0.5; and the same two records in the other order.
\<close>

definition codec_record :: "fl \<Rightarrow> score_rec" where
  "codec_record x = \<lparr>estimator_name = Some ''A'', entries = [''codec'' \<mapsto> x]\<rparr>"

definition nan_first_scores :: "(string \<times> score_rec) list" where
  "nan_first_scores = [(''a'', codec_record NaN), (''b'', codec_record (Fin (1/2)))]"

definition nan_last_scores :: "(string \<times> score_rec) list" where
  "nan_last_scores = [(''b'', codec_record (Fin (1/2))), (''a'', codec_record NaN)]"

text \<open>
  A frame of five rows, three treated and two untreated, with one effect modifier \<open>X\<close>;
  an estimate whose effect on a row is the value of \<open>X\<close> and whose factual adjustment is
  1 on every row; and a store that holds the frame at reference 0.
\<close>

definition example_frame :: dataframe where
  "example_frame =
     \<lparr>df_index = [0, 1, 2, 3, 4],
      df_columns =
        [(''T'', [Fin 1, Fin 0, Fin 1, Fin 0, Fin 1]),
         (''Y'', [Fin 3, Fin 1, Fin 5, Fin 2, Fin 4]),
         (''X'', [Fin 1, Fin 2, Fin 3, Fin 4, Fin 5])]\<rparr>"

definition example_estimate :: causal_estimate where
  "example_estimate =
     \<lparr>estimator =
        \<lparr>est_treatment_name = Names [''T''], est_outcome_name = ''Y'',
         est_effect_modifier_names = [''X''], est_observed_common_causes_names = [],
         identifier_method = ''backdoor'', estimating_instrument_names = [],
         effect = (\<lambda>df. getitem df ''X''),
         effect_tt = (\<lambda>df. Inr (replicate (nrows df) (Fin 1))),
         est_estimator = None\<rparr>\<rparr>"

definition empty_frame :: dataframe where
  "empty_frame = \<lparr>df_index = [], df_columns = []\<rparr>"

definition example_store :: store where
  "example_store = \<lparr>frames = (\<lambda>r. if r = 0 then example_frame else empty_frame), next_ref = 1\<rparr>"

text \<open>
  A nearest-neighbour search, a distance function and an argsort in exact arithmetic, with
  equal distances and equal values taken by increasing index: what scikit-learn, scipy
  and numpy return on the arrays of the examples below, whose distances are small
  integers and which have no ties. Like scikit-learn, the search wants a two-dimensional
  array of finite numbers with at least three rows and one column.
\<close>

fun the_fin :: "fl \<Rightarrow> real" where
  "the_fin (Fin a) = a"
| "the_fin _ = 0"

definition sq_dist :: "fl list \<Rightarrow> fl list \<Rightarrow> real" where
  "sq_dist x y = sum_list (map (\<lambda>(a, b). (the_fin a - the_fin b)\<^sup>2) (zip x y))"

definition neighbours_of :: "fl list list \<Rightarrow> nat \<Rightarrow> (real \<times> nat) list" where
  "neighbours_of P i = take 3 (sort (map (\<lambda>j. (sq_dist (P ! i) (P ! j), j)) [0..<length P]))"

definition exact_kneighbors ::
  "ndarray \<Rightarrow> pyerr + ((fl \<times> fl \<times> fl) \<times> (nat \<times> nat \<times> nat)) list" where
  "exact_kneighbors X =
     (case X of
        Arr1 xs \<Rightarrow> Inl ValueError
      | Arr2 k rs \<Rightarrow>
          if k = 0 \<or> \<not> list_all (list_all isfinite) rs \<or> length rs < 3
          then Inl ValueError
          else Inr (map (\<lambda>i. let nb = neighbours_of rs i
                             in ((Fin (sqrt (fst (nb ! 0))), Fin (sqrt (fst (nb ! 1))),
                                  Fin (sqrt (fst (nb ! 2)))),
                                 (snd (nb ! 0), snd (nb ! 1), snd (nb ! 2))))
                      [0..<length rs]))"

definition exact_cdist :: "fl list \<Rightarrow> fl list list \<Rightarrow> pyerr + fl list" where
  "exact_cdist p qs = Inr (map (\<lambda>q. Fin (sqrt (sq_dist p q))) qs)"

fun fl_key :: "fl \<Rightarrow> nat \<times> real" where
  "fl_key NInf = (0, 0)"
| "fl_key (Fin a) = (1, a)"
| "fl_key PInf = (2, 0)"
| "fl_key NaN = (3, 0)"

definition stable_argsort :: "fl list \<Rightarrow> nat list" where
  "stable_argsort xs = map snd (sort (zip (map fl_key xs) [0..<length xs]))"

definition example_libs :: libs where
  "example_libs =
     \<lparr>dcor_energy_distance = (\<lambda>a b. Inr (Fin 0)),
      pairwise_distances = (\<lambda>a b. Inr (Arr2 (shape0 b) (replicate (shape0 a) (replicate (shape0 b) (Fin 0))))),
      psw_joint_weights = (\<lambda>a b. Inr (Arr2 (length (case b of None \<Rightarrow> a | Some b' \<Rightarrow> b'))
                                     (replicate (length a)
                                        (replicate (length (case b of None \<Rightarrow> a | Some b' \<Rightarrow> b')) (Fin 1))))),
      quantile_transform = (\<lambda>df. Inr (rows_of (df_values df))),
      qini_score = (\<lambda>df. Inr (Fin 0)),
      auuc_score = (\<lambda>df. Inr (Fin 0)),
      series_mean = pd_mean,
      series_std = pd_std,
      np_argsort = stable_argsort,
      kneighbors = exact_kneighbors,
      cdist = exact_cdist\<rparr>"

definition example_rng :: rng where
  "example_rng = \<lparr>draws = (\<lambda>n. n), pos = 0\<rparr>"

text \<open>
  The example frame after the reconstruction of the potential outcomes (\<open>dy\<close> is 1 on
  every row, \<open>yhat\<close> is the outcome minus 1), the store the reconstruction leaves, and
  the treated and control rows of the reconstructed frame.
\<close>

definition example_frame_hat :: dataframe where
  "example_frame_hat =
     \<lparr>df_index = [0, 1, 2, 3, 4],
      df_columns =
        [(''T'', [Fin 1, Fin 0, Fin 1, Fin 0, Fin 1]),
         (''Y'', [Fin 3, Fin 1, Fin 5, Fin 2, Fin 4]),
         (''X'', [Fin 1, Fin 2, Fin 3, Fin 4, Fin 5]),
         (''dy'', [Fin 1, Fin 1, Fin 1, Fin 1, Fin 1]),
         (''yhat'', [Fin 2, Fin 0, Fin 4, Fin 1, Fin 3])]\<rparr>"

definition example_store_hat :: store where
  "example_store_hat =
     \<lparr>frames = (\<lambda>r. if r = 0 then example_frame_hat
                     else if r = 1 then example_frame_hat else empty_frame),
      next_ref = 2\<rparr>"

definition example_treated :: dataframe where
  "example_treated =
     \<lparr>df_index = [0, 2, 4],
      df_columns =
        [(''T'', [Fin 1, Fin 1, Fin 1]),
         (''Y'', [Fin 3, Fin 5, Fin 4]),
         (''X'', [Fin 1, Fin 3, Fin 5]),
         (''dy'', [Fin 1, Fin 1, Fin 1]),
         (''yhat'', [Fin 2, Fin 4, Fin 3])]\<rparr>"

definition example_control :: dataframe where
  "example_control =
     \<lparr>df_index = [1, 3],
      df_columns =
        [(''T'', [Fin 0, Fin 0]),
         (''Y'', [Fin 1, Fin 2]),
         (''X'', [Fin 2, Fin 4]),
         (''dy'', [Fin 1, Fin 1]),
         (''yhat'', [Fin 0, Fin 1])]\<rparr>"

text \<open>A frame whose rows are all treated, before and after the reconstruction.\<close>

definition treated_only_frame :: dataframe where
  "treated_only_frame =
     \<lparr>df_index = [0, 1, 2],
      df_columns =
        [(''T'', [Fin 1, Fin 1, Fin 1]),
         (''Y'', [Fin 3, Fin 5, Fin 4]),
         (''X'', [Fin 1, Fin 3, Fin 5])]\<rparr>"

definition treated_only_hat :: dataframe where
  "treated_only_hat =
     \<lparr>df_index = [0, 1, 2],
      df_columns =
        [(''T'', [Fin 1, Fin 1, Fin 1]),
         (''Y'', [Fin 3, Fin 5, Fin 4]),
         (''X'', [Fin 1, Fin 3, Fin 5]),
         (''dy'', [Fin 1, Fin 1, Fin 1]),
         (''yhat'', [Fin 2, Fin 4, Fin 3])]\<rparr>"

definition treated_only_store :: store where
  "treated_only_store =
     \<lparr>frames = (\<lambda>r. if r = 0 then treated_only_frame else empty_frame), next_ref = 1\<rparr>"

definition treated_only_store_hat :: store where
  "treated_only_store_hat =
     \<lparr>frames = (\<lambda>r. if r = 0 then treated_only_hat
                     else if r = 1 then treated_only_hat else empty_frame),
      next_ref = 2\<rparr>"

text \<open>
  The working frame of \<open>make_scores\<close> on the example frame, and the diagnostic table it
  builds.
\<close>

definition example_frame_reset :: dataframe where
  "example_frame_reset =
     \<lparr>df_index = [0, 1, 2, 3, 4],
      df_columns =
        [(''index'', [Fin 0, Fin 1, Fin 2, Fin 3, Fin 4]),
         (''T'', [Fin 1, Fin 0, Fin 1, Fin 0, Fin 1]),
         (''Y'', [Fin 3, Fin 1, Fin 5, Fin 2, Fin 4]),
         (''X'', [Fin 1, Fin 2, Fin 3, Fin 4, Fin 5])]\<rparr>"

definition example_values :: dataframe where
  "example_values =
     \<lparr>df_index = [0, 1, 2, 3, 4],
      df_columns =
        [(''T'', [Fin 1, Fin 0, Fin 1, Fin 0, Fin 1]),
         (''Y'', [Fin 3, Fin 1, Fin 5, Fin 2, Fin 4]),
         (''p'', [Fin (1/2), Fin (1/2), Fin (1/2), Fin (1/2), Fin (1/2)]),
         (''policy'', [Fin 1, Fin 1, Fin 1, Fin 1, Fin 1]),
         (''norm_policy'', [Fin 0, Fin 1, Fin 1, Fin 1, Fin 1]),
         (''weights'', [Fin 1, Fin 1, Fin 1, Fin 1, Fin 1])]\<rparr>"

definition example_frame_dropped :: dataframe where
  "example_frame_dropped =
     \<lparr>df_index = [0, 1, 2, 3],
      df_columns =
        [(''index'', [Fin 0, Fin 1, Fin 2, Fin 3]),
         (''T'', [Fin 1, Fin 0, Fin 1, Fin 0]),
         (''Y'', [Fin 3, Fin 1, Fin 5, Fin 2]),
         (''X'', [Fin 1, Fin 2, Fin 3, Fin 4])]\<rparr>"

definition example_store_dropped :: store where
  "example_store_dropped =
     \<lparr>frames = (\<lambda>r. if r = 0 then example_frame
                     else if r = 1 then example_frame_dropped else empty_frame),
      next_ref = 2\<rparr>"

definition example_store_reset :: store where
  "example_store_reset =
     \<lparr>frames = (\<lambda>r. if r = 0 then example_frame
                     else if r = 1 then example_frame_reset else empty_frame),
      next_ref = 2\<rparr>"

text \<open>
  An estimate with the same effect on every row, and the store \<open>codec_score\<close> leaves
  for it: the frame at reference 0 has the two new columns, and no other frame was made.
\<close>

definition constant_estimate :: causal_estimate where
  "constant_estimate =
     \<lparr>estimator =
        \<lparr>est_treatment_name = Names [''T''], est_outcome_name = ''Y'',
         est_effect_modifier_names = [''X''], est_observed_common_causes_names = [],
         identifier_method = ''backdoor'', estimating_instrument_names = [],
         effect = (\<lambda>df. Inr (replicate (nrows df) (Fin 1))),
         effect_tt = (\<lambda>df. Inr (replicate (nrows df) (Fin 1))),
         est_estimator = None\<rparr>\<rparr>"

definition example_store_written :: store where
  "example_store_written =
     \<lparr>frames = (\<lambda>r. if r = 0 then example_frame_hat else empty_frame), next_ref = 1\<rparr>"

text \<open>
  Three responses with distinct gaps, the same numbers as a one-column conditioning
  matrix, a constant predictor, and the joint matrix of the two.
\<close>

definition codec_Y :: "fl list" where
  "codec_Y = [Fin 1, Fin 2, Fin 4]"

definition codec_X :: ndarray where
  "codec_X = Arr2 1 [[Fin 1], [Fin 2], [Fin 4]]"

definition codec_Z :: ndarray where
  "codec_Z = Arr1 [Fin 0, Fin 0, Fin 0]"

definition codec_W :: ndarray where
  "codec_W = Arr2 2 [[Fin 1, Fin 0], [Fin 2, Fin 0], [Fin 4, Fin 0]]"

text \<open>A response and a one-column predictor for the call without a conditioning set.\<close>

definition pairwise_Y :: "fl list" where
  "pairwise_Y = [Fin 1, Fin 2, Fin 3]"

definition pairwise_Z :: ndarray where
  "pairwise_Z = Arr2 1 [[Fin 1], [Fin 2], [Fin 3]]"

section \<open>Properties\<close>

subsection \<open>Binary64 rounding\<close>

lemma round_half_even_int: "round_half_even (of_int m) = m"
  by (simp add: round_half_even_def)

lemma round_half_even_nonneg: "0 \<le> y \<Longrightarrow> 0 \<le> round_half_even y"
  by (auto simp: round_half_even_def Let_def)

text \<open>Rounding keeps the sign: a number that is not negative rounds to one, or to infinity.\<close>

lemma f64_round_cases:
  assumes "0 \<le> x"
  shows "f64_round x = PInf \<or> (\<exists>r. f64_round x = Fin r \<and> 0 \<le> r)"
proof (cases "x = 0")
  case True then show ?thesis by (simp add: f64_round_def)
next
  case False
  define u :: real where "u = 2 powr (of_int (f64_ulp_exp x))"
  have u: "0 < u" by (simp add: u_def)
  have "0 \<le> x / u" using assms u by simp
  then have "0 \<le> round_half_even (x / u)" by (rule round_half_even_nonneg)
  then have "0 \<le> of_int (round_half_even (x / u)) * u" using u by simp
  then show ?thesis using False assms
    by (auto simp: f64_round_def Let_def u_def [symmetric])
qed

text \<open>A binary64 number rounds to itself.\<close>

lemma f64_round_exact:
  assumes x: "x = of_int m * 2 powr (of_int e)"
    and m: "\<bar>m\<bar> < 2 ^ 53" and e: "- 1074 \<le> e" and b: "\<bar>x\<bar> < 2 ^ 1024"
  shows "f64_round x = Fin x"
proof (cases "x = 0")
  case True then show ?thesis by (simp add: f64_round_def)
next
  case False
  define E where "E = f64_ulp_exp x"
  have ax: "\<bar>x\<bar> = of_int \<bar>m\<bar> * 2 powr (of_int e)" by (simp add: x abs_mult)
  have "real_of_int \<bar>m\<bar> < 2 ^ 53" using m by (metis of_int_less_numeral_power_cancel_iff)
  then have "\<bar>x\<bar> < 2 ^ 53 * 2 powr (of_int e)" unfolding ax by simp
  also have "\<dots> = 2 powr (of_int (e + 53))"
    by (simp add: powr_add powr_realpow [symmetric] mult.commute)
  finally have lt: "\<bar>x\<bar> < 2 powr (of_int (e + 53))" .
  have "log 2 \<bar>x\<bar> < of_int (e + 53)"
    using lt False by (simp add: log_less_iff)
  then have "\<lfloor>log 2 \<bar>x\<bar>\<rfloor> < e + 53" by (simp add: floor_less_iff)
  then have Ee: "E \<le> e" using e by (simp add: E_def f64_ulp_exp_def)
  then obtain k where k: "e = E + int k" by (metis zle_iff_zadd)
  have "x / 2 powr (of_int E) = of_int m * 2 powr (of_int (int k))"
    by (simp add: x k powr_add)
  also have "\<dots> = of_int (m * 2 ^ k)" by (simp add: powr_realpow)
  finally have q: "x / 2 powr (of_int E) = of_int (m * 2 ^ k)" .
  have r: "of_int (round_half_even (x / 2 powr (of_int E))) * 2 powr (of_int E) = x"
    unfolding q round_half_even_int using q by (simp add: field_simps)
  show ?thesis using False b by (simp add: f64_round_def Let_def E_def [symmetric] r)
qed

lemma f64_round_int:
  assumes m: "\<bar>m\<bar> < 2 ^ 53"
  shows "f64_round (of_int m) = Fin (of_int m)"
proof -
  have "\<bar>real_of_int m\<bar> < 2 ^ 53" using m by (metis of_int_abs of_int_less_numeral_power_cancel_iff)
  also have "\<dots> < (2::real) ^ 1024" by simp
  finally show ?thesis using f64_round_exact [of "of_int m" m 0] m by simp
qed

lemma f64_round_half:
  assumes m: "\<bar>m\<bar> < 2 ^ 53"
  shows "f64_round (of_int m / 2) = Fin (of_int m / 2)"
proof -
  have "\<bar>real_of_int m\<bar> < 2 ^ 53" using m by (metis of_int_abs of_int_less_numeral_power_cancel_iff)
  then have "\<bar>real_of_int m / 2\<bar> < 2 ^ 53" by simp
  also have "\<dots> < (2::real) ^ 1024" by simp
  finally have b: "\<bar>real_of_int m / 2\<bar> < 2 ^ 1024" .
  have "real_of_int m / 2 = of_int m * 2 powr (of_int (- 1))" by (simp add: powr_minus)
  from f64_round_exact [OF this m _ b] show ?thesis by simp
qed

lemma f64_nonneg_cases:
  assumes "(\<exists>a\<ge>0. v = Fin a) \<or> v = PInf \<or> v = NaN"
  shows "(\<exists>a\<ge>0. f64 v = Fin a) \<or> f64 v = PInf \<or> f64 v = NaN"
proof -
  from assms consider a where "0 \<le> a" "v = Fin a" | "v = PInf" | "v = NaN" by blast
  then show ?thesis
  proof cases
    case 1
    from f64_round_cases [OF 1(1)] show ?thesis unfolding 1(2) f64.simps by blast
  next
    case 2
    then show ?thesis by simp
  next
    case 3
    then show ?thesis by simp
  qed
qed

subsection \<open>Computations on the store\<close>

text \<open>What a step of a computation that returned must have done.\<close>

lemma bnd_Inr:
  "bnd m f s = (Inr y, s') \<Longrightarrow> \<exists>x s1. m s = (Inr x, s1) \<and> f x s1 = (Inr y, s')"
  by (auto simp: bnd_def split: prod.splits sum.splits)

lemma lift_Inr: "lift r s = (Inr x, s') \<Longrightarrow> r = Inr x \<and> s' = s"
  by (simp add: lift_def)

lemma deref_Inr: "deref r s = (Inr d, s') \<Longrightarrow> d = frames s r \<and> s' = s"
  by (auto simp: deref_def)

lemma ret_Inr: "ret x s = (Inr y, s') \<Longrightarrow> y = x \<and> s' = s"
  by (auto simp: ret_def)

lemma alloc_Inr:
  "alloc d s = (Inr r, s') \<Longrightarrow> r = next_ref s \<and> frames s' r = d"
  by (auto simp: alloc_def)

lemma andthen_Inr: "andthen r f = Inr y \<Longrightarrow> \<exists>x. r = Inr x \<and> f x = Inr y"
  by (auto simp: andthen_def split: sum.splits)

lemma keys_update: "set (map fst (AList.update c v al)) = insert c (set (map fst al))"
  unfolding update_keys by auto

lemma colnames_setitem:
  assumes "setitem d c v = Inr d'"
  shows "set (colnames d') = insert c (set (colnames d))"
proof -
  from assms have "d' = d\<lparr>df_columns := AList.update c v (df_columns d)\<rparr>"
    by (auto simp: setitem_def split: if_splits)
  then show ?thesis unfolding colnames_def using keys_update [of c v "df_columns d"] by simp
qed

text \<open>
  Whenever \<open>_Y0_X_potential_outcomes\<close> returns, the frame it was given holds the columns
  \<open>dy\<close> and \<open>yhat\<close>, and the frame it returns is a copy of that frame as written.
\<close>

lemma potential_outcomes_writes:
  assumes "Y0_X_potential_outcomes estimate df s = (Inr (Y0X, treatment_name, split_test_by), s')"
  shows "{''dy'', ''yhat''} \<subseteq> set (colnames (frames s' df)) \<and> frames s' Y0X = frames s' df"
  apply (insert assms [unfolded Y0_X_potential_outcomes_def Let_def setitem_at_def])
  apply (drule bnd_Inr, clarify)+
  apply (auto simp: lift_def deref_def assign_def alloc_def ret_def dest!: colnames_setitem)
  done

subsection \<open>Ranking\<close>

lemma fl_less_trans: "fl_less a b \<Longrightarrow> fl_less b c \<Longrightarrow> fl_less a c"
  by (cases a; cases b; cases c) auto

lemma fl_less_irrefl: "\<not> fl_less a a"
  by (cases a) auto

text \<open>Away from NaN, "not strictly smaller" is "at least".\<close>

lemma fl_not_less:
  "\<not> isnan a \<Longrightarrow> \<not> isnan b \<Longrightarrow> (\<not> fl_less a b) = fl_le b a"
  by (cases a; cases b) auto

lemma best_from_spec:
  assumes tr': "transp better"
    and ir': "irreflp better"
    and keys: "\<forall>x\<in>set xs. \<exists>k. key x = Inr k"
    and kb: "key b = Inr kb"
  shows "\<exists>r kr. best_from better key (b, kb) xs = Inr r \<and> r \<in> insert b (set xs) \<and>
           key r = Inr kr \<and> (\<forall>x\<in>set xs. \<forall>k. key x = Inr k \<longrightarrow> \<not> better k kr) \<and>
           (kr = kb \<or> better kr kb)"
  using keys kb
proof (induction xs arbitrary: b kb)
  case Nil
  then show ?case by simp
next
  case (Cons x xs)
  have tr: "\<And>a b c. better a b \<Longrightarrow> better b c \<Longrightarrow> better a c"
    using tr' by (auto dest: transpD)
  have ir: "\<And>a. \<not> better a a" using ir' by (auto dest: irreflpD)
  from Cons.prems obtain kx where kx: "key x = Inr kx" by auto
  have keys': "\<forall>y\<in>set xs. \<exists>k. key y = Inr k" using Cons.prems by simp
  show ?case
  proof (cases "better kx kb")
    case True
    from Cons.IH [OF keys' kx] obtain r kr where
      r: "best_from better key (x, kx) xs = Inr r" "r \<in> insert x (set xs)" "key r = Inr kr"
         "\<forall>y\<in>set xs. \<forall>k. key y = Inr k \<longrightarrow> \<not> better k kr" "kr = kx \<or> better kr kx"
      by blast
    have "\<not> better kx kr" using r(5) ir [of kx] tr [of kx kr kx] by auto
    moreover have "kr = kb \<or> better kr kb" using r(5) True tr [of kr kx kb] by auto
    ultimately show ?thesis using r kx True by auto
  next
    case False
    from Cons.IH [OF keys' Cons.prems(2)] obtain r kr where
      r: "best_from better key (b, kb) xs = Inr r" "r \<in> insert b (set xs)" "key r = Inr kr"
         "\<forall>y\<in>set xs. \<forall>k. key y = Inr k \<longrightarrow> \<not> better k kr" "kr = kb \<or> better kr kb"
      by blast
    have "\<not> better kx kr" using r(5) False tr [of kx kr kb] by auto
    then show ?thesis using r kx False by auto
  qed
qed

lemma py_best_spec:
  assumes tr': "transp better"
    and ir': "irreflp better"
    and keys: "\<forall>x\<in>set xs. \<exists>k. key x = Inr k"
    and ne: "xs \<noteq> []"
  shows "\<exists>r kr. py_best better key xs = Inr r \<and> r \<in> set xs \<and>
           key r = Inr kr \<and> (\<forall>x\<in>set xs. \<forall>k. key x = Inr k \<longrightarrow> \<not> better k kr)"
proof -
  have tr: "\<And>a b c. better a b \<Longrightarrow> better b c \<Longrightarrow> better a c"
    using tr' by (auto dest: transpD)
  have ir: "\<And>a. \<not> better a a" using ir' by (auto dest: irreflpD)
  from ne obtain b ys where xs: "xs = b # ys" by (cases xs) auto
  from keys xs obtain kb where kb: "key b = Inr kb" by auto
  have keys': "\<forall>x\<in>set ys. \<exists>k. key x = Inr k" using keys xs by simp
  from best_from_spec [OF tr' ir' keys' kb] obtain r kr where
    r: "best_from better key (b, kb) ys = Inr r" "r \<in> insert b (set ys)" "key r = Inr kr"
       "\<forall>y\<in>set ys. \<forall>k. key y = Inr k \<longrightarrow> \<not> better k kr" "kr = kb \<or> better kr kb"
    by blast
  have "\<not> better kb kr" using r(5) ir [of kb] tr [of kb kr kb] by auto
  then show ?thesis using r xs kb by (auto simp: py_best_def)
qed

lemma update_fresh: "k \<notin> fst ` set al \<Longrightarrow> AList.update k v al = al @ [(k, v)]"
  by (induction al) auto

lemma best_loop_spec:
  assumes "\<forall>n\<in>set names. \<exists>b. sel n = Inr b"
    and "\<And>n. sel n = (if metric \<in> set lower_is_better
               then py_min (metric_of metric) (filter (\<lambda>v. estimator_name v = Some n) (map snd scores))
               else py_max (metric_of metric) (filter (\<lambda>v. estimator_name v = Some n) (map snd scores)))"
    and "distinct (map fst best @ names)"
  shows "best_loop scores metric names best = Inr (best @ map (\<lambda>n. (n, projr (sel n))) names)"
  using assms(1,3)
proof (induction names arbitrary: best)
  case Nil
  then show ?case by simp
next
  case (Cons n names)
  from Cons.prems obtain b where b: "sel n = Inr b" by auto
  have fresh: "n \<notin> fst ` set best" using Cons.prems(2) by auto
  have d: "distinct (map fst (AList.update n b best) @ names)"
    using Cons.prems(2) by (auto simp: update_fresh [OF fresh])
  have "best_loop scores metric (n # names) best = best_loop scores metric names (AList.update n b best)"
    using b assms(2) [of n] by (auto simp: Let_def split: if_splits)
  also have "\<dots> = Inr (AList.update n b best @ map (\<lambda>n. (n, projr (sel n))) names)"
    using Cons.IH [OF _ d] Cons.prems(1) by simp
  finally show ?case using b by (simp add: update_fresh [OF fresh])
qed

text \<open>
  What holds of \<open>best_score_by_estimator\<close> whatever the values are: when every record has
  an \<open>estimator_name\<close> and an entry for the metric, the result has one record per distinct
  estimator name (its keys are the sorted distinct names); the record under a name is a
  record of the scores with that name, and no record with that name has a strictly smaller
  value (metrics for which lower is better) or a strictly larger one (every other metric).
\<close>

lemma best_score_by_estimator_no_better:
  assumes "\<forall>(k, v) \<in> set scores. estimator_name v \<noteq> None \<and> entries v metric \<noteq> None"
  shows "\<exists>best. best_score_by_estimator scores metric = Inr best \<and>
     map fst best = sorted_list_of_set {n. \<exists>v \<in> snd ` set scores. estimator_name v = Some n} \<and>
     (\<forall>(name, b) \<in> set best. b \<in> snd ` set scores \<and> estimator_name b = Some name \<and>
        (\<forall>v \<in> snd ` set scores. estimator_name v = Some name \<longrightarrow>
           (if metric \<in> set lower_is_better
            then \<not> fl_less (the (entries v metric)) (the (entries b metric))
            else \<not> fl_less (the (entries b metric)) (the (entries v metric)))))"
proof -
  define grp where "grp n = filter (\<lambda>v. estimator_name v = Some n) (map snd scores)" for n
  define sel where "sel n = (if metric \<in> set lower_is_better
               then py_min (metric_of metric) (grp n)
               else py_max (metric_of metric) (grp n))" for n
  define names where "names = sorted_list_of_set
                 (set (map (\<lambda>v. the (estimator_name v))
                        (filter (\<lambda>v. estimator_name v \<noteq> None) (map snd scores))))"
  have names_set: "set names = {n. \<exists>v \<in> snd ` set scores. estimator_name v = Some n}"
  proof -
    have "set names = (\<lambda>v. the (estimator_name v)) `
            {v \<in> snd ` set scores. estimator_name v \<noteq> None}"
      by (simp add: names_def)
    also have "\<dots> = {n. \<exists>v \<in> snd ` set scores. estimator_name v = Some n}"
    proof (intro set_eqI iffI)
      fix n assume "n \<in> (\<lambda>v. the (estimator_name v)) `
            {v \<in> snd ` set scores. estimator_name v \<noteq> None}"
      then obtain v where "v \<in> snd ` set scores" "estimator_name v \<noteq> None"
        "n = the (estimator_name v)" by blast
      then show "n \<in> {n. \<exists>v \<in> snd ` set scores. estimator_name v = Some n}" by auto
    next
      fix n assume "n \<in> {n. \<exists>v \<in> snd ` set scores. estimator_name v = Some n}"
      then obtain v where v: "v \<in> snd ` set scores" "estimator_name v = Some n" by blast
      then have "v \<in> {v \<in> snd ` set scores. estimator_name v \<noteq> None}" by simp
      moreover have "n = the (estimator_name v)" using v by simp
      ultimately show "n \<in> (\<lambda>v. the (estimator_name v)) `
            {v \<in> snd ` set scores. estimator_name v \<noteq> None}" by blast
    qed
    finally show ?thesis .
  qed
  have keys: "\<forall>x\<in>set (grp n). \<exists>k. metric_of metric x = Inr k" for n
    using assms by (auto simp: grp_def metric_of_def split: option.splits)
  have ent: "\<forall>x\<in>set (grp n). \<exists>k. entries x metric = Some k" for n
    using assms by (auto simp: grp_def)
  have trl: "transp (\<lambda>a b. fl_less a b)" by (auto intro!: transpI dest: fl_less_trans)
  have irl: "irreflp (\<lambda>a b. fl_less a b)" by (auto intro!: irreflpI simp: fl_less_irrefl)
  have trg: "transp (\<lambda>a b. fl_less b a)" by (auto intro!: transpI dest: fl_less_trans)
  have irg: "irreflp (\<lambda>a b. fl_less b a)" by (auto intro!: irreflpI simp: fl_less_irrefl)
  have sel_ok: "\<exists>b. sel n = Inr b \<and> b \<in> set (grp n) \<and>
          (\<forall>v \<in> set (grp n).
             (if metric \<in> set lower_is_better
              then \<not> fl_less (the (entries v metric)) (the (entries b metric))
              else \<not> fl_less (the (entries b metric)) (the (entries v metric))))"
    if "n \<in> set names" for n
  proof -
    have ne: "grp n \<noteq> []" using that names_set by (auto simp: grp_def filter_empty_conv)
    show ?thesis
    proof (cases "metric \<in> set lower_is_better")
      case True
      from py_best_spec [OF trl irl keys ne] obtain r kr where
        r: "py_best (\<lambda>a b. fl_less a b) (metric_of metric) (grp n) = Inr r" "r \<in> set (grp n)"
        "metric_of metric r = Inr kr"
        "\<forall>x\<in>set (grp n). \<forall>k. metric_of metric x = Inr k \<longrightarrow> \<not> fl_less k kr"
        by blast
      have kr: "the (entries r metric) = kr"
        using r(3) by (simp add: metric_of_def split: option.splits)
      have "\<not> fl_less (the (entries v metric)) kr" if "v \<in> set (grp n)" for v
      proof -
        from ent that obtain k where "entries v metric = Some k" by blast
        then show ?thesis using r(4) that by (simp add: metric_of_def)
      qed
      then show ?thesis using True r(1,2) kr by (simp add: sel_def py_min_def)
    next
      case False
      from py_best_spec [OF trg irg keys ne] obtain r kr where
        r: "py_best (\<lambda>a b. fl_less b a) (metric_of metric) (grp n) = Inr r" "r \<in> set (grp n)"
        "metric_of metric r = Inr kr"
        "\<forall>x\<in>set (grp n). \<forall>k. metric_of metric x = Inr k \<longrightarrow> \<not> fl_less kr k"
        by blast
      have kr: "the (entries r metric) = kr"
        using r(3) by (simp add: metric_of_def split: option.splits)
      have "\<not> fl_less kr (the (entries v metric))" if "v \<in> set (grp n)" for v
      proof -
        from ent that obtain k where "entries v metric = Some k" by blast
        then show ?thesis using r(4) that by (simp add: metric_of_def)
      qed
      then show ?thesis using False r(1,2) kr by (simp add: sel_def py_max_def)
    qed
  qed
  have noname: "\<not> list_ex (\<lambda>(k, v). estimator_name v = None) scores"
    using assms by (auto simp: list_ex_iff)
  have loop: "best_loop scores metric names [] = Inr ([] @ map (\<lambda>n. (n, projr (sel n))) names)"
  proof (rule best_loop_spec)
    show "\<forall>n\<in>set names. \<exists>b. sel n = Inr b" using sel_ok by blast
    show "sel n = (if metric \<in> set lower_is_better
        then py_min (metric_of metric) (filter (\<lambda>v. estimator_name v = Some n) (map snd scores))
        else py_max (metric_of metric) (filter (\<lambda>v. estimator_name v = Some n) (map snd scores)))" for n
      by (simp add: sel_def grp_def)
    show "distinct (map fst [] @ names)" by (simp add: names_def)
  qed
  have res: "best_score_by_estimator scores metric = Inr (map (\<lambda>n. (n, projr (sel n))) names)"
    using noname loop by (simp add: best_score_by_estimator_def names_def Let_def)
  have fst: "map fst (map (\<lambda>n. (n, projr (sel n))) names) =
      sorted_list_of_set {n. \<exists>v \<in> snd ` set scores. estimator_name v = Some n}"
    unfolding names_set [symmetric] by (simp add: comp_def names_def)
  have each: "\<forall>(name, b) \<in> set (map (\<lambda>n. (n, projr (sel n))) names).
        b \<in> snd ` set scores \<and> estimator_name b = Some name \<and>
        (\<forall>v \<in> snd ` set scores. estimator_name v = Some name \<longrightarrow>
           (if metric \<in> set lower_is_better
            then \<not> fl_less (the (entries v metric)) (the (entries b metric))
            else \<not> fl_less (the (entries b metric)) (the (entries v metric))))"
  proof -
    have "projr (sel n) \<in> snd ` set scores \<and> estimator_name (projr (sel n)) = Some n \<and>
        (\<forall>v \<in> snd ` set scores. estimator_name v = Some n \<longrightarrow>
           (if metric \<in> set lower_is_better
            then \<not> fl_less (the (entries v metric)) (the (entries (projr (sel n)) metric))
            else \<not> fl_less (the (entries (projr (sel n)) metric)) (the (entries v metric))))"
      if n: "n \<in> set names" for n
    proof -
      from sel_ok [OF n] obtain b where b: "sel n = Inr b" "b \<in> set (grp n)"
        "\<forall>v \<in> set (grp n).
             (if metric \<in> set lower_is_better
              then \<not> fl_less (the (entries v metric)) (the (entries b metric))
              else \<not> fl_less (the (entries b metric)) (the (entries v metric)))" by blast
      have g: "set (grp n) = {v \<in> snd ` set scores. estimator_name v = Some n}"
        by (auto simp: grp_def)
      show ?thesis using b unfolding g by simp
    qed
    then show ?thesis by auto
  qed
  show ?thesis using res fst each by (intro exI [of _ "map (\<lambda>n. (n, projr (sel n))) names"] conjI)
qed

text \<open>
  C4 (as amended). When every record of the scores dictionary has an \<open>estimator_name\<close> and
  an entry for the metric that is not NaN, \<open>best_score_by_estimator\<close> returns a dictionary
  with one record per distinct estimator name (its keys are the sorted distinct names), and
  the record under a name is the record of the scores with that name that has the minimum
  value of the metric (at most the value of every record with that name) when the metric
  is one of \<open>energy_distance\<close>, \<open>psw_energy_distance\<close>, \<open>frobenius_norm\<close>, \<open>codec\<close>,
  \<open>policy_risk\<close>, and the maximum value (at least the value of every record with that
  name) for every other metric.
\<close>

theorem best_score_by_estimator_without_nan:
  assumes "\<forall>(k, v) \<in> set scores. estimator_name v \<noteq> None \<and>
             (\<exists>x. entries v metric = Some x \<and> \<not> isnan x)"
  shows "\<exists>best. best_score_by_estimator scores metric = Inr best \<and>
     map fst best = sorted_list_of_set {n. \<exists>v \<in> snd ` set scores. estimator_name v = Some n} \<and>
     (\<forall>(name, b) \<in> set best. b \<in> snd ` set scores \<and> estimator_name b = Some name \<and>
        (\<forall>v \<in> snd ` set scores. estimator_name v = Some name \<longrightarrow>
           (if metric \<in> set lower_is_better
            then fl_le (the (entries b metric)) (the (entries v metric))
            else fl_le (the (entries v metric)) (the (entries b metric)))))"
proof -
  have h: "\<forall>(k, v) \<in> set scores. estimator_name v \<noteq> None \<and> entries v metric \<noteq> None"
    using assms by fastforce
  have nn: "\<not> isnan (the (entries v metric))" if "v \<in> snd ` set scores" for v
    using assms that by fastforce
  from best_score_by_estimator_no_better [OF h] obtain best where
    b: "best_score_by_estimator scores metric = Inr best"
       "map fst best = sorted_list_of_set {n. \<exists>v \<in> snd ` set scores. estimator_name v = Some n}"
    and e: "\<forall>(name, b) \<in> set best. b \<in> snd ` set scores \<and> estimator_name b = Some name \<and>
        (\<forall>v \<in> snd ` set scores. estimator_name v = Some name \<longrightarrow>
           (if metric \<in> set lower_is_better
            then \<not> fl_less (the (entries v metric)) (the (entries b metric))
            else \<not> fl_less (the (entries b metric)) (the (entries v metric))))"
    by blast
  have "b' \<in> snd ` set scores \<and> estimator_name b' = Some name \<and>
        (\<forall>v \<in> snd ` set scores. estimator_name v = Some name \<longrightarrow>
           (if metric \<in> set lower_is_better
            then fl_le (the (entries b' metric)) (the (entries v metric))
            else fl_le (the (entries v metric)) (the (entries b' metric))))"
    if m: "(name, b') \<in> set best" for name b'
  proof -
    from e m have "case (name, b') of (name, b) \<Rightarrow>
        b \<in> snd ` set scores \<and> estimator_name b = Some name \<and>
        (\<forall>v \<in> snd ` set scores. estimator_name v = Some name \<longrightarrow>
           (if metric \<in> set lower_is_better
            then \<not> fl_less (the (entries v metric)) (the (entries b metric))
            else \<not> fl_less (the (entries b metric)) (the (entries v metric))))"
      by (rule bspec)
    then have in': "b' \<in> snd ` set scores" and nm: "estimator_name b' = Some name"
      and nb: "\<forall>v \<in> snd ` set scores. estimator_name v = Some name \<longrightarrow>
           (if metric \<in> set lower_is_better
            then \<not> fl_less (the (entries v metric)) (the (entries b' metric))
            else \<not> fl_less (the (entries b' metric)) (the (entries v metric)))"
      by simp_all
    have "if metric \<in> set lower_is_better
            then fl_le (the (entries b' metric)) (the (entries v metric))
            else fl_le (the (entries v metric)) (the (entries b' metric))"
      if v: "v \<in> snd ` set scores" "estimator_name v = Some name" for v
    proof (cases "metric \<in> set lower_is_better")
      case True
      with nb v have "\<not> fl_less (the (entries v metric)) (the (entries b' metric))" by auto
      then show ?thesis using True fl_not_less [OF nn [OF v(1)] nn [OF in']] by simp
    next
      case False
      with nb v have "\<not> fl_less (the (entries b' metric)) (the (entries v metric))" by auto
      then show ?thesis using False fl_not_less [OF nn [OF in'] nn [OF v(1)]] by simp
    qed
    then show ?thesis using in' nm by blast
  qed
  note each = this
  have "\<forall>(name, b) \<in> set best. b \<in> snd ` set scores \<and> estimator_name b = Some name \<and>
        (\<forall>v \<in> snd ` set scores. estimator_name v = Some name \<longrightarrow>
           (if metric \<in> set lower_is_better
            then fl_le (the (entries b metric)) (the (entries v metric))
            else fl_le (the (entries v metric)) (the (entries b metric))))"
  proof (rule ballI)
    fix x assume x: "x \<in> set best"
    obtain name b' where xe: "x = (name, b')" by (cases x)
    have m: "(name, b') \<in> set best" using x xe by simp
    show "case x of (name, b) \<Rightarrow>
        b \<in> snd ` set scores \<and> estimator_name b = Some name \<and>
        (\<forall>v \<in> snd ` set scores. estimator_name v = Some name \<longrightarrow>
           (if metric \<in> set lower_is_better
            then fl_le (the (entries b metric)) (the (entries v metric))
            else fl_le (the (entries v metric)) (the (entries b metric))))"
      unfolding xe prod.case using each [OF m] .
  qed
  with b show ?thesis by (intro exI [of _ best] conjI)
qed

text \<open>
  The four records of \<open>example_scores\<close>, ranked on \<open>energy_distance\<close>: the record with
  0.1 for \<open>CausalForestDML\<close> and the record with 0.3 for \<open>LinearDML\<close>.
\<close>

theorem best_score_by_estimator_without_nan_witness:
  "list_all (\<lambda>(k, v). estimator_name v \<noteq> None \<and>
      (\<exists>x. entries v ''energy_distance'' = Some x \<and> \<not> isnan x)) example_scores \<and>
   best_score_by_estimator example_scores ''energy_distance'' =
     Inr [(''CausalForestDML'', example_record ''CausalForestDML'' (1/10)),
          (''LinearDML'', example_record ''LinearDML'' (3/10))] \<and>
   (\<exists>best. best_score_by_estimator example_scores ''energy_distance'' = Inr best \<and>
     map fst best = sorted_list_of_set {n. \<exists>v \<in> snd ` set example_scores. estimator_name v = Some n} \<and>
     (\<forall>(name, b) \<in> set best. b \<in> snd ` set example_scores \<and> estimator_name b = Some name \<and>
        (\<forall>v \<in> snd ` set example_scores. estimator_name v = Some name \<longrightarrow>
           (if ''energy_distance'' \<in> set lower_is_better
            then fl_le (the (entries b ''energy_distance'')) (the (entries v ''energy_distance''))
            else fl_le (the (entries v ''energy_distance'')) (the (entries b ''energy_distance''))))))"
proof -
  have h: "\<forall>(k, v) \<in> set example_scores. estimator_name v \<noteq> None \<and>
             (\<exists>x. entries v ''energy_distance'' = Some x \<and> \<not> isnan x)"
    by (simp add: example_scores_def example_record_def)
  have l: "list_all (\<lambda>(k, v). estimator_name v \<noteq> None \<and>
      (\<exists>x. entries v ''energy_distance'' = Some x \<and> \<not> isnan x)) example_scores"
    by (simp add: example_scores_def example_record_def)
  have e: "best_score_by_estimator example_scores ''energy_distance'' =
     Inr [(''CausalForestDML'', example_record ''CausalForestDML'' (1/10)),
          (''LinearDML'', example_record ''LinearDML'' (3/10))]"
    by (simp add: best_score_by_estimator_def example_scores_def example_record_def
        lower_is_better_def py_min_def py_best_def metric_of_def)
  show ?thesis
    using l e best_score_by_estimator_without_nan [OF h] by (intro conjI)
qed

text \<open>
  With a NaN among the values the record returned need not have the minimum value, and
  it depends on the order of the dictionary: \<open>min\<close> keeps its first candidate unless a
  later one compares strictly smaller, and no comparison with NaN holds. Of the two
  records of estimator \<open>A\<close>, with \<open>codec\<close> NaN and 0.5, the one that comes first is
  returned: the NaN record, whose value is not at most 0.5, when it is first.
\<close>

theorem best_score_by_estimator_nan_counterexample:
  "list_all (\<lambda>(k, v). estimator_name v \<noteq> None \<and> entries v ''codec'' \<noteq> None) nan_first_scores \<and>
   best_score_by_estimator nan_first_scores ''codec'' = Inr [(''A'', codec_record NaN)] \<and>
   codec_record (Fin (1/2)) \<in> snd ` set nan_first_scores \<and>
   estimator_name (codec_record (Fin (1/2))) = Some ''A'' \<and>
   \<not> fl_le (the (entries (codec_record NaN) ''codec''))
            (the (entries (codec_record (Fin (1/2))) ''codec'')) \<and>
   best_score_by_estimator nan_last_scores ''codec'' = Inr [(''A'', codec_record (Fin (1/2)))]"
  by (simp add: best_score_by_estimator_def nan_first_scores_def nan_last_scores_def
      codec_record_def lower_is_better_def py_min_def py_best_def metric_of_def)
subsection \<open>The naive average treatment effect\<close>

lemma mask_list_nth:
  assumes "length ts = length xs"
  shows "mask_list (map P ts) xs = map (\<lambda>i. xs ! i) (filter (\<lambda>i. P (ts ! i)) [0..<length ts])"
proof -
  have z: "zip (map P ts) xs = map (\<lambda>i. (P (ts ! i), xs ! i)) [0..<length ts]"
    using assms by (intro nth_equalityI) auto
  show ?thesis
    unfolding mask_list_def z by (simp add: filter_map comp_def)
qed

lemma fl_mul_self_cases: "(\<exists>a\<ge>0. fl_mul x x = Fin a) \<or> fl_mul x x = PInf \<or> fl_mul x x = NaN"
  by (cases x) (auto simp: signed_inf_def)

lemma f64_mul_self_cases:
  "(\<exists>a\<ge>0. f64_mul x x = Fin a) \<or> f64_mul x x = PInf \<or> f64_mul x x = NaN"
  unfolding f64_mul_def by (rule f64_nonneg_cases) (rule fl_mul_self_cases)

lemma fl_add_nonneg_cases:
  assumes "(\<exists>a\<ge>0. u = Fin a) \<or> u = PInf \<or> u = NaN"
    and "(\<exists>a\<ge>0. v = Fin a) \<or> v = PInf \<or> v = NaN"
  shows "(\<exists>a\<ge>0. fl_add u v = Fin a) \<or> fl_add u v = PInf \<or> fl_add u v = NaN"
  using assms by auto

lemma math_sqrt_sum_squares:
  "\<exists>r. math_sqrt (f64_add (f64_mul x x) (f64_mul y y)) = Inr r"
proof -
  have "(\<exists>a\<ge>0. f64_add (f64_mul x x) (f64_mul y y) = Fin a) \<or>
        f64_add (f64_mul x x) (f64_mul y y) = PInf \<or> f64_add (f64_mul x x) (f64_mul y y) = NaN"
    unfolding f64_add_def
    by (rule f64_nonneg_cases, rule fl_add_nonneg_cases) (rule f64_mul_self_cases)+
  then show ?thesis by auto
qed

lemma bool_getitem_same_index:
  assumes "s_index treatment = s_index outcome"
    and "length (s_values treatment) = length (s_values outcome)"
  shows "bool_getitem outcome (s_index treatment) (map (\<lambda>t. fl_eq t v) (s_values treatment)) =
           Inr (map (\<lambda>i. s_values outcome ! i)
                  (filter (\<lambda>i. fl_eq (s_values treatment ! i) v) [0..<length (s_values treatment)]))"
  using assms by (simp add: bool_getitem_def mask_list_nth)

text \<open>
  On one index, \<open>naive_ate\<close> returns: the two selections are the outcomes of the rows with
  treatment 1 and with treatment 0, no square root is taken of a negative number, and the
  third component is the length of the Series.
\<close>

lemma naive_ate_on_one_index:
  assumes idx: "s_index treatment = s_index outcome"
    and len: "length (s_values treatment) = length (s_index treatment)"
             "length (s_values outcome) = length (s_index outcome)"
  shows "\<exists>std'. naive_ate L treatment outcome =
           Inr (f64_sub
                  (series_mean L (map (\<lambda>i. s_values outcome ! i)
                     (filter (\<lambda>i. fl_eq (s_values treatment ! i) (Fin 1)) [0..<length (s_values treatment)])))
                  (series_mean L (map (\<lambda>i. s_values outcome ! i)
                     (filter (\<lambda>i. fl_eq (s_values treatment ! i) (Fin 0)) [0..<length (s_values treatment)]))),
                std', length (s_values treatment))"
proof -
  have l: "length (s_values treatment) = length (s_values outcome)" using idx len by simp
  define rows where "rows v = map (\<lambda>i. s_values outcome ! i)
      (filter (\<lambda>i. fl_eq (s_values treatment ! i) v) [0..<length (s_values treatment)])" for v
  define is1 where "is1 = map (\<lambda>t. fl_eq t (Fin 1)) (s_values treatment)"
  define treated where "treated = length (filter (\<lambda>b. b) is1)"
  define std1 where "std1 = f64_div (series_std L (rows (Fin 1)))
                        (f64_add (f64_sqrt (Fin (real treated))) (f64_round (1 / 1000)))"
  have g1: "bool_getitem outcome (s_index treatment) is1 = Inr (rows (Fin 1))"
    unfolding is1_def rows_def by (rule bool_getitem_same_index [OF idx l])
  have g0: "bool_getitem outcome (s_index treatment) (map (\<lambda>t. fl_eq t (Fin 0)) (s_values treatment)) =
              Inr (rows (Fin 0))"
    unfolding rows_def by (rule bool_getitem_same_index [OF idx l])
  have "treated \<le> length (s_values outcome)"
    unfolding treated_def is1_def
    using l length_filter_le [of "\<lambda>b. b" "map (\<lambda>t. fl_eq t (Fin 1)) (s_values treatment)"] by simp
  then obtain r0 where s: "math_sqrt (Fin (real_of_int (int (length (s_values outcome)) - int treated))) = Inr r0"
    by simp
  define std2 where "std2 = f64_div (series_std L (rows (Fin 0))) (f64_add r0 (f64_round (1 / 1000)))"
  obtain r where r: "math_sqrt (f64_add (f64_mul std1 std1) (f64_mul std2 std2)) = Inr r"
    using math_sqrt_sum_squares by blast
  have "naive_ate L treatment outcome =
          Inr (f64_sub (series_mean L (rows (Fin 1))) (series_mean L (rows (Fin 0))), r,
               length (s_values treatment))"
    unfolding naive_ate_def Let_def is1_def [symmetric] treated_def [symmetric] g1 g0
    using s r by (simp add: andthen_def std1_def std2_def)
  then show ?thesis by (auto simp: rows_def)
qed

text \<open>
  C5 (as amended). For a treatment Series with values 0 and 1 and an outcome Series on
  the same index, \<open>naive_ate\<close> returns a triple (it does not raise) whose first component
  is the mean of the outcome over the rows with treatment 1 minus the mean over the rows
  with treatment 0, and whose third component is the length of the Series. The function
  is a function of its two arguments: nothing random enters. The two means are the ones
  pandas returns and their difference is the difference of two doubles.
\<close>

theorem naive_ate_mean_and_size:
  assumes idx: "s_index treatment = s_index outcome"
    and len: "length (s_values treatment) = length (s_index treatment)"
             "length (s_values outcome) = length (s_index outcome)"
    and vals: "set (s_values treatment) \<subseteq> {Fin 0, Fin 1}"
  shows "\<exists>std'. naive_ate L treatment outcome =
           Inr (f64_sub (spec_conditional_mean L treatment outcome (Fin 1))
                        (spec_conditional_mean L treatment outcome (Fin 0)),
                std', length (s_values treatment))"
  using naive_ate_on_one_index [OF idx len] by (simp add: spec_conditional_mean_def)

text \<open>
  Four rows, two treated with outcomes 3 and 5, two untreated with outcomes 1 and 2: the
  difference of the means is 4 - 3/2.
\<close>

lemma spec_conditional_mean_example1:
  "spec_conditional_mean example_libs treatment_series outcome_series (Fin 1) = Fin 4"
  by (simp add: spec_conditional_mean_def treatment_series_def outcome_series_def example_libs_def
      pd_mean_def dropna_def fl_eq_def fl_sum_def upt_rec)

lemma spec_conditional_mean_example0:
  "spec_conditional_mean example_libs treatment_series outcome_series (Fin 0) = Fin (3/2)"
  by (simp add: spec_conditional_mean_def treatment_series_def outcome_series_def example_libs_def
      pd_mean_def dropna_def fl_eq_def fl_sum_def upt_rec)

lemma f64_sub_example: "f64_sub (Fin 4) (Fin (3/2)) = Fin (5/2)"
  using f64_round_half [of 5] by (simp add: f64_sub_def fl_sub_def)

theorem naive_ate_mean_and_size_witness:
  "s_index treatment_series = s_index outcome_series \<and>
   length (s_values treatment_series) = length (s_index treatment_series) \<and>
   length (s_values outcome_series) = length (s_index outcome_series) \<and>
   set (s_values treatment_series) \<subseteq> {Fin 0, Fin 1} \<and>
   (\<exists>std'. naive_ate example_libs treatment_series outcome_series = Inr (Fin (5/2), std', 4))"
proof -
  have i: "s_index treatment_series = s_index outcome_series"
    by (simp add: treatment_series_def outcome_series_def)
  have l: "length (s_values treatment_series) = length (s_index treatment_series)"
    "length (s_values outcome_series) = length (s_index outcome_series)"
    by (simp_all add: treatment_series_def outcome_series_def)
  have v: "set (s_values treatment_series) \<subseteq> {Fin 0, Fin 1}"
    by (simp add: treatment_series_def)
  have n: "length (s_values treatment_series) = 4" by (simp add: treatment_series_def)
  show ?thesis
    using i l v naive_ate_mean_and_size [OF i l v, of example_libs]
    unfolding spec_conditional_mean_example1 spec_conditional_mean_example0 f64_sub_example n
    by (intro conjI)
qed

text \<open>
  Two Series of one length are not enough: when the outcome carries other labels than the
  treatment, the boolean selection cannot be aligned and \<open>naive_ate\<close> raises.
\<close>

theorem naive_ate_unaligned_counterexample:
  "length (s_values treatment_series) = length (s_values relabelled_outcome_series) \<and>
   set (s_values treatment_series) \<subseteq> {Fin 0, Fin 1} \<and>
   naive_ate example_libs treatment_series relabelled_outcome_series = Inl IndexingError"
  by (simp add: naive_ate_def bool_getitem_def treatment_series_def relabelled_outcome_series_def
      andthen_def upt_rec Let_def)

text \<open>
  The means are doubles and so is their difference. Where the sum pandas forms passes
  the largest double its mean is infinite: for the treatment \<open>(0, 1, 0)\<close> and the outcome
  \<open>(K, 0, K)\<close> with \<open>K + K\<close> past the largest double, the mean of the untreated is
  infinity and the first component is minus infinity, whatever the real mean is.
\<close>

lemma naive_ate_overflow:
  assumes "series_mean L [Fin 0] = Fin 0" and "series_mean L [K, K] = PInf"
  shows "\<exists>std'. naive_ate L \<lparr>s_index = [0, 1, 2], s_values = [Fin 0, Fin 1, Fin 0]\<rparr>
                    \<lparr>s_index = [0, 1, 2], s_values = [K, Fin 0, K]\<rparr> = Inr (NInf, std', 3)"
proof -
  have "\<exists>std'. naive_ate L \<lparr>s_index = [0, 1, 2], s_values = [Fin 0, Fin 1, Fin 0]\<rparr>
                    \<lparr>s_index = [0, 1, 2], s_values = [K, Fin 0, K]\<rparr> =
          Inr (f64_sub (series_mean L [Fin 0]) (series_mean L [K, K]), std', 3)"
    using naive_ate_on_one_index [of "\<lparr>s_index = [0, 1, 2], s_values = [Fin 0, Fin 1, Fin 0]\<rparr>"
        "\<lparr>s_index = [0, 1, 2], s_values = [K, Fin 0, K]\<rparr>" L]
    by (simp add: fl_eq_def upt_rec numeral_3_eq_3)
  then show ?thesis using assms by (simp add: f64_sub_def fl_sub_def)
qed
subsection \<open>Policy risk\<close>

lemma fl_less_le: "fl_less a b \<Longrightarrow> fl_le a b"
  by (cases a; cases b) auto

text \<open>
  C7. When the standard deviation of the CATE estimates is below the threshold (0.01 by
  default), \<open>policy_risk_score\<close> returns the float 0: a value, not an exception, and
  not the infinity the distance-based metrics return. It returns it whatever the policy,
  the evaluation rows and the propensity model are, and leaves the store as it was: the
  weighted policy value is not computed.
\<close>

theorem policy_risk_no_signal:
  assumes "fl_less (np_std cate_estimate) sd_threshold"
  shows "policy_risk_score self estimate df cate_estimate outcome_name policy rct_indices
           sd_threshold clip s = (Inr (Fin 0), s)"
  using fl_less_le [OF assms]
  by (simp add: policy_risk_score_def bnd_def deref_def ret_def Let_def)

lemma policy_risk_at_threshold:
  assumes "fl_le (np_std cate_estimate) sd_threshold"
  shows "policy_risk_score self estimate df cate_estimate outcome_name policy rct_indices
           sd_threshold clip s = (Inr (Fin 0), s)"
  using assms by (simp add: policy_risk_score_def bnd_def deref_def ret_def Let_def)

text \<open>Five equal estimates have standard deviation 0.\<close>

lemma np_std_const5: "np_std (replicate 5 (Fin 1)) = Fin 0"
  by (simp add: np_std_def np_mean_def fl_sum_def fl_sub_def fl_sq_def eval_nat_numeral)

theorem policy_risk_no_signal_witness:
  "fl_less (np_std (replicate 5 (Fin 1))) (Fin (1 / 100)) \<and>
   policy_risk_score backdoor_scorer example_estimate 0 (replicate 5 (Fin 1)) ''Y'' None None
     (Fin (1 / 100)) (Fin (5 / 100)) example_store = (Inr (Fin 0), example_store)"
proof -
  have h: "fl_less (np_std (replicate 5 (Fin 1))) (Fin (1 / 100))"
    by (simp add: np_std_const5)
  show ?thesis using h policy_risk_no_signal [OF h] by simp
qed

subsection \<open>Frobenius norm\<close>

lemma nrows_iloc_head: "nrows (iloc_head m df) = min m (nrows df)"
  by (simp add: nrows_def iloc_head_def min_def)

lemma iloc_head_idem: "iloc_head m (iloc_head m df) = iloc_head m df"
  by (simp add: iloc_head_def comp_def case_prod_unfold)

lemma difference_matrix_leading:
  "difference_matrix select_cols G1 G0 w1 w0 =
   difference_matrix select_cols
     (iloc_head (min (nrows G1) (nrows G0)) G1) (iloc_head (min (nrows G1) (nrows G0)) G0)
     (take (min (nrows G1) (nrows G0)) w1) (take (min (nrows G1) (nrows G0)) w0)"
  by (simp add: difference_matrix_def Let_def nrows_iloc_head iloc_head_idem)

lemma getitems_Inr:
  "getitems df cs = Inr F \<Longrightarrow>
     F = df\<lparr>df_columns := map (\<lambda>c. (c, the (map_of (df_columns df) c))) cs\<rparr> \<and>
     set cs \<subseteq> set (colnames df)"
  by (auto simp: getitems_def list_all_iff split: if_splits)

lemma map_of_iloc_head:
  "map_of (df_columns (iloc_head m df)) c = map_option (take m) (map_of (df_columns df) c)"
  by (simp add: iloc_head_def map_of_map)

lemma in_colnames_map_of: "c \<in> set (colnames df) \<Longrightarrow> \<exists>v. map_of (df_columns df) c = Some v"
  by (metis colnames_def map_of_eq_None_iff not_Some_eq set_map)

lemma wf_frame_col:
  "wf_frame df \<Longrightarrow> map_of (df_columns df) c = Some v \<Longrightarrow> length v = nrows df"
  by (auto simp: wf_frame_def list_all_iff dest!: map_of_SomeD)

lemma df_values_head_rows:
  assumes "getitems (iloc_head m G) sel = Inr F" and "m \<le> nrows G"
  shows "rows_of (df_values F) = map (\<lambda>k. map (\<lambda>c. take m (the (map_of (df_columns G) c)) ! k) sel) [0..<m]"
proof -
  from getitems_Inr [OF assms(1)] have
    F: "F = (iloc_head m G)\<lparr>df_columns := map (\<lambda>c. (c, the (map_of (df_columns (iloc_head m G)) c))) sel\<rparr>"
    and sub: "set sel \<subseteq> set (colnames (iloc_head m G))" by auto
  have cn: "colnames (iloc_head m G) = colnames G"
    by (simp add: colnames_def iloc_head_def comp_def case_prod_unfold)
  have col: "the (map_of (df_columns (iloc_head m G)) c) = take m (the (map_of (df_columns G) c))"
    if "c \<in> set sel" for c
  proof -
    from that sub cn have "c \<in> set (colnames G)" by auto
    from in_colnames_map_of [OF this] obtain v where "map_of (df_columns G) c = Some v" by blast
    then show ?thesis by (simp add: map_of_iloc_head)
  qed
  have n: "nrows F = m" using assms(2) by (simp add: F nrows_def iloc_head_def)
  have row: "df_row F k = map (\<lambda>c. take m (the (map_of (df_columns G) c)) ! k) sel" for k
  proof -
    have "df_row F k = map (\<lambda>c. the (map_of (df_columns (iloc_head m G)) c) ! k) sel"
      by (simp add: df_row_def F comp_def)
    also have "\<dots> = map (\<lambda>c. take m (the (map_of (df_columns G) c)) ! k) sel"
      by (rule map_cong) (simp_all add: col)
    finally show ?thesis .
  qed
  show ?thesis
    unfolding df_values_def n by (simp add: row)
qed


lemma difference_matrix_rows:
  assumes dm: "difference_matrix sel G1 G0 w1 w0 = Inr D"
    and l1: "length w1 = nrows G1" and l0: "length w0 = nrows G0"
  shows "D = map (\<lambda>k. map (\<lambda>c. fl_mul (fl_sub (the (map_of (df_columns G1) c) ! k)
                                               (the (map_of (df_columns G0) c) ! k))
                                       (fl_sqrt (fl_mul (w1 ! k) (w0 ! k)))) sel)
                 [0..<min (nrows G1) (nrows G0)]"
proof -
  define m where "m = min (nrows G1) (nrows G0)"
  have m1: "m \<le> nrows G1" and m0: "m \<le> nrows G0" by (simp_all add: m_def)
  from dm obtain a where a: "getitems (iloc_head m G1) sel = Inr a"
    and r1: "andthen (getitems (iloc_head m G0) sel) (\<lambda>b.
         andthen (np_multiply1 (take m w1) (take m w0)) (\<lambda>w.
         scale_rows
           (map (\<lambda>(r, q). map (\<lambda>(x, y). fl_sub x y) (zip r q))
              (zip (rows_of (df_values a)) (rows_of (df_values b))))
           (map fl_sqrt w))) = Inr D"
    unfolding difference_matrix_def Let_def m_def [symmetric] by (blast dest: andthen_Inr)
  from r1 obtain b where b: "getitems (iloc_head m G0) sel = Inr b"
    and r2: "andthen (np_multiply1 (take m w1) (take m w0)) (\<lambda>w.
         scale_rows
           (map (\<lambda>(r, q). map (\<lambda>(x, y). fl_sub x y) (zip r q))
              (zip (rows_of (df_values a)) (rows_of (df_values b))))
           (map fl_sqrt w)) = Inr D"
    by (blast dest: andthen_Inr)
  have lw: "length (take m w1) = m" "length (take m w0) = m" using l1 l0 m1 m0 by simp_all
  have w: "np_multiply1 (take m w1) (take m w0) =
             Inr (map (\<lambda>(x, y). fl_mul x y) (zip (take m w1) (take m w0)))"
    using lw by (simp add: np_multiply1_def)
  have ra: "rows_of (df_values a) = map (\<lambda>k. map (\<lambda>c. take m (the (map_of (df_columns G1) c)) ! k) sel) [0..<m]"
    by (rule df_values_head_rows [OF a m1])
  have rb: "rows_of (df_values b) = map (\<lambda>k. map (\<lambda>c. take m (the (map_of (df_columns G0) c)) ! k) sel) [0..<m]"
    by (rule df_values_head_rows [OF b m0])
  define pre where "pre = map (\<lambda>(r, q). map (\<lambda>(x, y). fl_sub x y) (zip r q))
              (zip (rows_of (df_values a)) (rows_of (df_values b)))"
  define ws where "ws = map fl_sqrt (map (\<lambda>(x, y). fl_mul x y) (zip (take m w1) (take m w0)))"
  have lp: "length pre = m" by (simp add: pre_def ra rb)
  have lws: "length ws = m" using lw by (simp add: ws_def)
  have "scale_rows pre ws = Inr D"
    using r2 unfolding w andthen_def pre_def ws_def by (simp only: sum.case)
  then have D: "D = map (\<lambda>(r, x). map (\<lambda>y. fl_mul y x) r) (zip pre ws)"
    using lp lws by (simp add: scale_rows_def)
  show ?thesis
    unfolding m_def [symmetric]
  proof (rule nth_equalityI)
    show "length D = length (map (\<lambda>k. map (\<lambda>c. fl_mul (fl_sub (the (map_of (df_columns G1) c) ! k)
                                               (the (map_of (df_columns G0) c) ! k))
                                       (fl_sqrt (fl_mul (w1 ! k) (w0 ! k)))) sel) [0..<m])"
      by (simp add: D lp lws)
  next
    fix k assume "k < length D"
    then have k: "k < m" by (simp add: D lp lws)
    have pk: "pre ! k = map (\<lambda>c. fl_sub (the (map_of (df_columns G1) c) ! k)
                                        (the (map_of (df_columns G0) c) ! k)) sel"
      using k by (simp add: pre_def ra rb zip_map_map zip_same_conv_map comp_def)
    have wk: "ws ! k = fl_sqrt (fl_mul (w1 ! k) (w0 ! k))"
      using k lw by (simp add: ws_def)
    show "D ! k = map (\<lambda>k. map (\<lambda>c. fl_mul (fl_sub (the (map_of (df_columns G1) c) ! k)
                                               (the (map_of (df_columns G0) c) ! k))
                                       (fl_sqrt (fl_mul (w1 ! k) (w0 ! k)))) sel) [0..<m] ! k"
      using k lp lws by (simp add: D pk wk comp_def)
  qed
qed

lemma colnames_iloc_head: "colnames (iloc_head m df) = colnames df"
  by (simp add: colnames_def iloc_head_def comp_def case_prod_unfold)

lemma colnames_mask_rows: "colnames (mask_rows df msk) = colnames df"
  by (simp add: colnames_def mask_rows_def comp_def case_prod_unfold)

lemma colnames_rows_where_eq: "rows_where_eq df c x = Inr G \<Longrightarrow> colnames G = colnames df"
  by (auto simp: rows_where_eq_def colnames_mask_rows split: sum.splits)

lemma getitems_returns:
  "set cs \<subseteq> set (colnames df) \<Longrightarrow> \<exists>F. getitems df cs = Inr F"
  by (auto simp: getitems_def list_all_iff)

lemma difference_matrix_returns:
  assumes c1: "set sel \<subseteq> set (colnames G1)" and c0: "set sel \<subseteq> set (colnames G0)"
    and l1: "length w1 = nrows G1" and l0: "length w0 = nrows G0"
  shows "difference_matrix sel G1 G0 w1 w0 =
     Inr (map (\<lambda>k. map (\<lambda>c. fl_mul (fl_sub (cell_of G1 c k) (cell_of G0 c k))
                                    (fl_sqrt (fl_mul (w1 ! k) (w0 ! k)))) sel)
              [0..<min (nrows G1) (nrows G0)])"
proof -
  define m where "m = min (nrows G1) (nrows G0)"
  have m1: "m \<le> nrows G1" and m0: "m \<le> nrows G0" by (simp_all add: m_def)
  from c1 obtain a where a: "getitems (iloc_head m G1) sel = Inr a"
    using getitems_returns [of sel "iloc_head m G1"] by (auto simp: colnames_iloc_head)
  from c0 obtain b where b: "getitems (iloc_head m G0) sel = Inr b"
    using getitems_returns [of sel "iloc_head m G0"] by (auto simp: colnames_iloc_head)
  have lw: "length (take m w1) = m" "length (take m w0) = m" using l1 l0 m1 m0 by simp_all
  have w: "np_multiply1 (take m w1) (take m w0) =
             Inr (map (\<lambda>(x, y). fl_mul x y) (zip (take m w1) (take m w0)))"
    using lw by (simp add: np_multiply1_def)
  have na: "length (rows_of (df_values a)) = m"
    using df_values_head_rows [OF a m1] by simp
  have nb: "length (rows_of (df_values b)) = m"
    using df_values_head_rows [OF b m0] by simp
  have "\<exists>D. difference_matrix sel G1 G0 w1 w0 = Inr D"
    unfolding difference_matrix_def Let_def m_def [symmetric]
    using lw na nb by (simp add: a b w andthen_def scale_rows_def)
  then obtain D where D: "difference_matrix sel G1 G0 w1 w0 = Inr D" by blast
  from difference_matrix_rows [OF D l1 l0] D show ?thesis by (simp add: cell_of_def)
qed

lemma potential_outcomes_colnames:
  assumes "Y0_X_potential_outcomes estimate df s = (Inr (Y0X, treatment_name, split_test_by), s')"
  shows "set (colnames (frames s' Y0X)) = insert ''yhat'' (insert ''dy'' (set (colnames (frames s df))))"
  apply (insert assms [unfolded Y0_X_potential_outcomes_def Let_def setitem_at_def])
  apply (drule bnd_Inr, clarify)+
  apply (auto simp: lift_def deref_def assign_def alloc_def ret_def dest!: colnames_setitem)
  done

lemma normalized_frobenius_spec:
  assumes "n = min (nrows G1) (nrows G0)" and "n \<noteq> 0"
  shows "normalized_frobenius (length sel)
           (map (\<lambda>k. map (\<lambda>c. fl_mul (fl_sub (cell_of G1 c k) (cell_of G0 c k))
                                    (fl_sqrt (fl_mul (w1 ! k) (w0 ! k)))) sel) [0..<n]) =
         spec_frobenius_score sel G1 G0 w1 w0"
proof -
  have "min (nrows G1) (nrows G0) \<noteq> 0" using assms by simp
  then show ?thesis
    unfolding assms(1)
    by (simp add: normalized_frobenius_def spec_frobenius_score_def frobenius_norm_def Let_def
        map_concat comp_def del: min_less_iff_conj)
qed

text \<open>
  C6. Take an input on which the effect call does not raise (an \<open>AttributeError\<close>
  aside) and the reconstruction of the potential outcomes succeeds, and let \<open>G1\<close> and
  \<open>G0\<close> be the treated and the control rows of the reconstructed frame. If one of the
  two groups has no rows, \<open>frobenius_norm_score\<close> returns infinity. Otherwise, past the
  test on the standard deviation, with propensities \<open>w1\<close> and \<open>w0\<close> for the rows of the
  two groups and the effect modifiers among the columns of the frame, it returns
  \<open>spec_frobenius_score\<close>: the normalized Frobenius norm of the matrix whose row \<open>k\<close>,
  for \<open>k\<close> below the smaller group size, is the \<open>k\<close>-th row of \<open>G1\<close> minus the \<open>k\<close>-th
  row of \<open>G0\<close> on the selected columns, in the order of the frame (no matching of pairs),
  times the square root of the product of the propensities of the two rows. No row and no
  propensity past the smaller group size enters.
\<close>

theorem frobenius_leading_rows_and_sentinel:
  assumes cate: "cate_or_inf (estimator estimate) (frames s df) = Inr c"
    and recon: "Y0_X_potential_outcomes estimate df s = (Inr (Y0X, treatment_name, split_test_by), s1)"
    and g1: "rows_where_eq (frames s1 Y0X) split_test_by (Fin 1) = Inr G1"
    and g0: "rows_where_eq (frames s1 Y0X) split_test_by (Fin 0) = Inr G0"
  shows "(nrows G1 = 0 \<or> nrows G0 = 0 \<longrightarrow>
            (\<exists>s'. frobenius_norm_score self estimate df sd_threshold s = (Inr PInf, s'))) \<and>
         (\<forall>cate_estimates w1 w0.
            c = Some cate_estimates \<and> \<not> fl_le (np_std cate_estimates) sd_threshold \<and>
            group_propensities self treatment_name G1 G0 = Inr (w1, w0) \<and>
            length w1 = nrows G1 \<and> length w0 = nrows G0 \<and>
            set (est_effect_modifier_names (estimator estimate)) \<subseteq> set (colnames (frames s df)) \<longrightarrow>
            frobenius_norm_score self estimate df sd_threshold s =
              (Inr (spec_frobenius_score (est_effect_modifier_names (estimator estimate) @ [''yhat''])
                      G1 G0 w1 w0), s1))"
proof (intro conjI impI allI)
  assume e: "nrows G1 = 0 \<or> nrows G0 = 0"
  show "\<exists>s'. frobenius_norm_score self estimate df sd_threshold s = (Inr PInf, s')"
  proof (cases c)
    case None
    then show ?thesis using cate
      by (simp add: frobenius_norm_score_def bnd_def deref_def lift_def ret_def)
  next
    case (Some cate_estimates)
    show ?thesis
    proof (cases "fl_le (np_std cate_estimates) sd_threshold")
      case True
      then show ?thesis using cate Some
        by (simp add: frobenius_norm_score_def bnd_def deref_def lift_def ret_def)
    next
      case False
      have "frobenius_norm_score self estimate df sd_threshold s = (Inr PInf, s1)"
        using cate Some False recon g1 g0 e
        by (simp add: frobenius_norm_score_def bnd_def deref_def lift_def ret_def)
      then show ?thesis by blast
    qed
  qed
next
  fix cate_estimates w1 w0
  define sel where "sel = est_effect_modifier_names (estimator estimate) @ [''yhat'']"
  assume a: "c = Some cate_estimates \<and> \<not> fl_le (np_std cate_estimates) sd_threshold \<and>
            group_propensities self treatment_name G1 G0 = Inr (w1, w0) \<and>
            length w1 = nrows G1 \<and> length w0 = nrows G0 \<and>
            set (est_effect_modifier_names (estimator estimate)) \<subseteq> set (colnames (frames s df))"
  have cols: "set sel \<subseteq> set (colnames (frames s1 Y0X))"
    using a potential_outcomes_colnames [OF recon] by (auto simp: sel_def)
  have c1: "set sel \<subseteq> set (colnames G1)" using cols colnames_rows_where_eq [OF g1] by simp
  have c0: "set sel \<subseteq> set (colnames G0)" using cols colnames_rows_where_eq [OF g0] by simp
  have l: "length w1 = nrows G1" "length w0 = nrows G0" using a by simp_all
  show "frobenius_norm_score self estimate df sd_threshold s =
      (Inr (spec_frobenius_score (est_effect_modifier_names (estimator estimate) @ [''yhat''])
              G1 G0 w1 w0), s1)"
  proof (cases "nrows G1 = 0 \<or> nrows G0 = 0")
    case True
    have "frobenius_norm_score self estimate df sd_threshold s = (Inr PInf, s1)"
      using cate a recon g1 g0 True
      by (simp add: frobenius_norm_score_def bnd_def deref_def lift_def ret_def)
    moreover have "spec_frobenius_score sel G1 G0 w1 w0 = PInf"
      using True by (auto simp: spec_frobenius_score_def Let_def)
    ultimately show ?thesis by (simp add: sel_def)
  next
    case False
    then have n: "min (nrows G1) (nrows G0) \<noteq> 0" by auto
    have "frobenius_norm_score self estimate df sd_threshold s =
      (andthen (difference_matrix sel G1 G0 w1 w0)
         (\<lambda>D. Inr (normalized_frobenius (length sel) D)), s1)"
      using cate a recon g1 g0 False
      by (simp add: frobenius_norm_score_def bnd_def deref_def lift_def ret_def Let_def andthen_def
          sel_def split: sum.splits)
    also have "\<dots> = (Inr (spec_frobenius_score sel G1 G0 w1 w0), s1)"
      unfolding difference_matrix_returns [OF c1 c0 l]
      using normalized_frobenius_spec [OF refl n, of sel w1 w0] by (simp add: andthen_def)
    finally show ?thesis by (simp add: sel_def)
  qed
qed

text \<open>
  The example: three treated rows and two control rows, so two rows of each enter; and a
  frame without control rows, for which the score is infinity.
\<close>

lemma example_reconstruction:
  "Y0_X_potential_outcomes example_estimate 0 example_store = (Inr (1, ''T'', ''T''), example_store_hat)"
  by (simp add: Y0_X_potential_outcomes_def example_estimate_def example_store_def example_store_hat_def
      example_frame_def example_frame_hat_def treatment_name_of_def bnd_def lift_def deref_def
      setitem_at_def setitem_def assign_def alloc_def ret_def getitem_def nrows_def fl_sub_def
      fun_eq_iff)

lemma example_groups:
  "rows_where_eq (frames example_store_hat 1) ''T'' (Fin 1) = Inr example_treated"
  "rows_where_eq (frames example_store_hat 1) ''T'' (Fin 0) = Inr example_control"
  by (simp_all add: example_store_hat_def example_frame_hat_def example_treated_def
      example_control_def rows_where_eq_def getitem_def mask_rows_def mask_list_def fl_eq_def)

lemma example_cate:
  "cate_or_inf (estimator example_estimate) (frames example_store 0) =
     Inr (Some [Fin 1, Fin 2, Fin 3, Fin 4, Fin 5])"
  by (simp add: cate_or_inf_def example_estimate_def example_store_def example_frame_def getitem_def)

lemma sqrt2_above: "\<not> sqrt 2 \<le> 1 / 100"
proof -
  have "(1 / 100 :: real) < sqrt 2" by (rule real_less_rsqrt) (simp add: power2_eq_square)
  then show ?thesis by simp
qed

lemma example_std: "np_std [Fin 1, Fin 2, Fin 3, Fin 4, Fin 5] = Fin (sqrt 2)"
  by (simp add: np_std_def np_mean_def fl_sum_def fl_sub_def fl_sq_def)

lemma example_propensities:
  "group_propensities backdoor_scorer ''T'' example_treated example_control =
     Inr ([Fin (1/2), Fin (1/2), Fin (1/2)], [Fin (1/2), Fin (1/2)])"
  by (simp add: group_propensities_def propensity_model_of_def backdoor_scorer_def example_psw_def
      attr_def andthen_def features_of_def example_causal_model_def getitems_def colnames_def
      example_treated_def example_control_def nrows_def getitem_def realized_psw_def unique_def
      column_at_def fl_eq_def eval_nat_numeral)


lemma treated_only_reconstruction:
  "Y0_X_potential_outcomes example_estimate 0 treated_only_store =
     (Inr (1, ''T'', ''T''), treated_only_store_hat)"
  by (simp add: Y0_X_potential_outcomes_def example_estimate_def treated_only_store_def
      treated_only_store_hat_def treated_only_frame_def treated_only_hat_def treatment_name_of_def
      bnd_def lift_def deref_def setitem_at_def setitem_def assign_def alloc_def ret_def
      getitem_def nrows_def fl_sub_def fun_eq_iff)

lemma treated_only_groups:
  "rows_where_eq (frames treated_only_store_hat 1) ''T'' (Fin 1) = Inr treated_only_hat"
  "rows_where_eq (frames treated_only_store_hat 1) ''T'' (Fin 0) =
     Inr \<lparr>df_index = [], df_columns = [(''T'', []), (''Y'', []), (''X'', []), (''dy'', []), (''yhat'', [])]\<rparr>"
  by (simp_all add: treated_only_store_hat_def treated_only_hat_def rows_where_eq_def getitem_def
      mask_rows_def mask_list_def fl_eq_def)

lemma treated_only_cate:
  "cate_or_inf (estimator example_estimate) (frames treated_only_store 0) =
     Inr (Some [Fin 1, Fin 3, Fin 5])"
  by (simp add: cate_or_inf_def example_estimate_def treated_only_store_def treated_only_frame_def
      getitem_def)

lemma sqrt_quarter: "sqrt (1 / 4) = 1 / 2"
  by (simp add: real_sqrt_divide)

lemma sqrt_15_4: "sqrt (15 / 4) / 2 = sqrt 15 / 4"
  by (simp add: real_sqrt_divide)

lemma example_spec_score:
  "spec_frobenius_score [''X'', ''yhat''] example_treated example_control
     [Fin (1/2), Fin (1/2), Fin (1/2)] [Fin (1/2), Fin (1/2)] = Fin (sqrt 15 / 4)"
  by (simp add: spec_frobenius_score_def nrows_def example_treated_def example_control_def Let_def
      cell_of_def fl_sq_def fl_sum_def fl_sub_def upt_rec [of 0] upt_rec [of 1] sqrt_quarter
      real_sqrt_divide)

lemma sqrt_15_bounds: "968 / 1000 < sqrt 15 / 4 \<and> sqrt 15 / 4 < 969 / 1000"
proof -
  have "(3872 / 1000 :: real) < sqrt 15" by (rule real_less_rsqrt) (simp add: power2_eq_square)
  moreover have "sqrt 15 < (3876 / 1000 :: real)" by (rule real_less_lsqrt) (simp_all add: power2_eq_square)
  ultimately show ?thesis by simp
qed

text \<open>
  On the example the two leading treated rows meet the two control rows, all propensities
  are 1/2, and the score is \<open>sqrt 15 / 4\<close>, between 0.968 and 0.969; on the frame without
  control rows the score is infinity.
\<close>

theorem frobenius_leading_rows_and_sentinel_witness:
  "cate_or_inf (estimator example_estimate) (frames example_store 0) =
     Inr (Some [Fin 1, Fin 2, Fin 3, Fin 4, Fin 5]) \<and>
   Y0_X_potential_outcomes example_estimate 0 example_store =
     (Inr (1, ''T'', ''T''), example_store_hat) \<and>
   rows_where_eq (frames example_store_hat 1) ''T'' (Fin 1) = Inr example_treated \<and>
   rows_where_eq (frames example_store_hat 1) ''T'' (Fin 0) = Inr example_control \<and>
   nrows example_treated = 3 \<and> nrows example_control = 2 \<and>
   \<not> fl_le (np_std [Fin 1, Fin 2, Fin 3, Fin 4, Fin 5]) (Fin (1 / 100)) \<and>
   group_propensities backdoor_scorer ''T'' example_treated example_control =
     Inr ([Fin (1/2), Fin (1/2), Fin (1/2)], [Fin (1/2), Fin (1/2)]) \<and>
   set (est_effect_modifier_names (estimator example_estimate)) \<subseteq>
     set (colnames (frames example_store 0)) \<and>
   frobenius_norm_score backdoor_scorer example_estimate 0 (Fin (1 / 100)) example_store =
     (Inr (Fin (sqrt 15 / 4)), example_store_hat) \<and>
   nrows \<lparr>df_index = [], df_columns = [(''T'', []), (''Y'', []), (''X'', []), (''dy'', []), (''yhat'', [])]\<rparr> = 0 \<and>
   (\<exists>s'. frobenius_norm_score backdoor_scorer example_estimate 0 (Fin (1 / 100)) treated_only_store =
           (Inr PInf, s'))"
proof -
  have n: "nrows example_treated = 3" "nrows example_control = 2"
    by (simp_all add: nrows_def example_treated_def example_control_def)
  have sd: "\<not> fl_le (np_std [Fin 1, Fin 2, Fin 3, Fin 4, Fin 5]) (Fin (1 / 100))"
    using sqrt2_above by (simp add: example_std)
  have sel: "est_effect_modifier_names (estimator example_estimate) @ [''yhat''] = [''X'', ''yhat'']"
    by (simp add: example_estimate_def)
  have cols: "set (est_effect_modifier_names (estimator example_estimate)) \<subseteq>
     set (colnames (frames example_store 0))"
    by (simp add: example_estimate_def example_store_def example_frame_def colnames_def)
  have e: "nrows \<lparr>df_index = [], df_columns = [(''T'', []), (''Y'', []), (''X'', []), (''dy'', []), (''yhat'', [])]\<rparr> = 0"
    by (simp add: nrows_def)
  note t1 = frobenius_leading_rows_and_sentinel
    [OF example_cate example_reconstruction example_groups, of backdoor_scorer "Fin (1 / 100)"]
  note t2 = frobenius_leading_rows_and_sentinel
    [OF treated_only_cate treated_only_reconstruction treated_only_groups, of backdoor_scorer "Fin (1 / 100)"]
  have r1: "frobenius_norm_score backdoor_scorer example_estimate 0 (Fin (1 / 100)) example_store =
     (Inr (Fin (sqrt 15 / 4)), example_store_hat)"
    using t1 [THEN conjunct2, rule_format,
        of "[Fin 1, Fin 2, Fin 3, Fin 4, Fin 5]" "[Fin (1/2), Fin (1/2), Fin (1/2)]" "[Fin (1/2), Fin (1/2)]"]
      sd n example_propensities cols
    by (simp add: sel example_spec_score)
  have r2: "\<exists>s'. frobenius_norm_score backdoor_scorer example_estimate 0 (Fin (1 / 100)) treated_only_store =
           (Inr PInf, s')"
    using t2 [THEN conjunct1] e by simp
  show ?thesis
    using example_cate example_reconstruction example_groups n sd example_propensities cols r1 e r2
    by (intro conjI)
qed
subsection \<open>The score aggregator\<close>

lemma nrows_getitems: "getitems d cs = Inr v \<Longrightarrow> nrows v = nrows d"
  by (auto simp: getitems_def nrows_def split: if_splits)

lemma nrows_setitem: "setitem d c x = Inr v \<Longrightarrow> nrows v = nrows d"
  by (auto simp: setitem_def nrows_def split: if_splits)

lemma nrows_reset_index: "reset_index d = Inr v \<Longrightarrow> nrows v = nrows d"
  by (auto simp: reset_index_def nrows_def Let_def split: if_splits)

lemma values_table_nrows:
  assumes "values_table self df d values0 cate_estimate a s = (Inr v, s')"
  shows "nrows v = nrows values0"
proof (cases a)
  case (AteVector x)
  then show ?thesis using assms by (simp add: values_table_def ret_def)
next
  case (AteScalar simple_ate sd c)
  note run = assms [unfolded values_table_def AteScalar ate_result.case]
  from run obtain v3 s1 where
    v3: "lift (andthen (propensity_model_of self) (\<lambda>propensitymodel.
                     andthen (getitems d (features_of self)) (\<lambda>f.
                     andthen (propensitymodel f) (\<lambda>proba.
                     andthen (column_at proba (Fin 1)) (\<lambda>p.
                     andthen (setitem values0 ''p'' p) (\<lambda>v1.
                     andthen (setitem v1 ''policy''
                                (map (\<lambda>x. of_bool_fl (fl_less (Fin 0) x)) cate_estimate)) (\<lambda>v2.
                     setitem v2 ''norm_policy''
                       (map (\<lambda>x. of_bool_fl (fl_less simple_ate x)) cate_estimate)))))))) s = (Inr v3, s1)"
    and rest: "bnd (lift (attr (erupt self))) (\<lambda>er.
          bnd (erupt_weights er df (map (\<lambda>x. fl_less (Fin 0) x) cate_estimate)) (\<lambda>w.
          lift (setitem v3 ''weights'' w))) s1 = (Inr v, s')"
    by (blast dest: bnd_Inr)
  from v3 have "andthen (propensity_model_of self) (\<lambda>propensitymodel.
                     andthen (getitems d (features_of self)) (\<lambda>f.
                     andthen (propensitymodel f) (\<lambda>proba.
                     andthen (column_at proba (Fin 1)) (\<lambda>p.
                     andthen (setitem values0 ''p'' p) (\<lambda>v1.
                     andthen (setitem v1 ''policy''
                                (map (\<lambda>x. of_bool_fl (fl_less (Fin 0) x)) cate_estimate)) (\<lambda>v2.
                     setitem v2 ''norm_policy''
                       (map (\<lambda>x. of_bool_fl (fl_less simple_ate x)) cate_estimate))))))) = Inr v3"
    by (auto dest: lift_Inr)
  then obtain p v1 v2 where
    "setitem values0 ''p'' p = Inr v1"
    "setitem v1 ''policy'' (map (\<lambda>x. of_bool_fl (fl_less (Fin 0) x)) cate_estimate) = Inr v2"
    "setitem v2 ''norm_policy'' (map (\<lambda>x. of_bool_fl (fl_less simple_ate x)) cate_estimate) = Inr v3"
    apply -
    apply (drule andthen_Inr, clarify)+
    apply blast
    done
  then have n3: "nrows v3 = nrows values0" by (auto dest!: nrows_setitem)
  from rest obtain w where "setitem v3 ''weights'' w = Inr v"
    apply -
    apply (drule bnd_Inr, clarify)+
    apply (auto dest!: lift_Inr)
    done
  then show ?thesis using n3 by (auto dest!: nrows_setitem)
qed

lemma when_reported_keeps:
  assumes "when_reported m metrics_to_report out c s = (Inr out', s')" and "m \<noteq> k"
  shows "map_of out' k = map_of out k"
  using assms
  by (auto simp: when_reported_def bnd_def ret_def update_conv' split: if_splits prod.splits sum.splits)

lemma try_reported_keeps:
  assumes "try_reported m metrics_to_report out c s = (Inr out', s')" and "m \<noteq> k"
  shows "map_of out' k = map_of out k"
  using assms
  by (auto simp: try_reported_def ret_def update_conv' split: if_splits prod.splits sum.splits)

text \<open>
  The table \<open>backdoor_metrics\<close> returns has the rows of the working frame as it was when
  the block began, whatever the ERUPT object did to the frame since.
\<close>

lemma backdoor_metrics_values:
  assumes "backdoor_metrics L self estimate df metrics_to_report r_scorer treatment_name
             outcome_name cate_estimate s = (Inr (out, values), s')"
  shows "nrows values = nrows (frames s df)"
proof -
  note run = assms [unfolded backdoor_metrics_def]
  from run obtain d s0 where d: "deref df s = (Inr d, s0)" by (blast dest: bnd_Inr)
  then have d': "d = frames s df" by (auto dest: deref_Inr)
  from run obtain values0 a v sa sb sc where
    v0: "lift (getitems (frames s df) [treatment_name, outcome_name]) s = (Inr values0, sa)"
    and vt: "values_table self df (frames s df) values0 cate_estimate a sb = (Inr v, sc)"
    and rest: "bnd (when_reported ''erupt'' metrics_to_report []
            (score_of (plain_erupt_score self df outcome_name cate_estimate))) (\<lambda>out1.
     bnd (when_reported ''norm_erupt'' metrics_to_report out1
            (norm_erupt_score self df v outcome_name cate_estimate a)) (\<lambda>out2.
     bnd (when_reported ''prob_erupt'' metrics_to_report out2
            (score_of (prob_erupt_score self df outcome_name cate_estimate))) (\<lambda>out3.
     bnd (when_reported ''frobenius_norm'' metrics_to_report out3
            (score_of (frobenius_norm_score self estimate df (Fin (1 / 100))))) (\<lambda>out4.
     bnd (try_reported ''policy_risk'' metrics_to_report out4
            (score_of (policy_risk_score self estimate df cate_estimate outcome_name None None
               (Fin (1 / 100)) (Fin (5 / 100))))) (\<lambda>out5.
     bnd (when_reported ''qini'' metrics_to_report out5
            (score_of (qini_make_score L estimate df cate_estimate))) (\<lambda>out6.
     bnd (when_reported ''auc'' metrics_to_report out6
            (score_of (auc_make_score L estimate df cate_estimate))) (\<lambda>out7.
     bnd (case r_scorer of
            None \<Rightarrow> ret out7
          | Some r \<Rightarrow> bnd (lift (r_make_score r cate_estimate))
                        (\<lambda>v. ret (AList.update ''r_score'' (Score v) out7))) (\<lambda>out8.
     ret (out8, v))))))))) sc = (Inr (out, values), s')"
    apply -
    apply (drule bnd_Inr, clarify)
    apply (drule deref_Inr, clarify)
    apply (drule bnd_Inr, clarify)
    apply (drule bnd_Inr, clarify)
    apply (drule bnd_Inr, clarify)
    apply blast
    done
  from rest have "values = v"
    apply -
    apply (drule bnd_Inr, clarify)+
    apply (auto dest: ret_Inr)
    done
  moreover have "nrows v = nrows values0" by (rule values_table_nrows [OF vt])
  moreover have "nrows values0 = nrows (frames s df)"
    using v0 by (auto dest!: lift_Inr nrows_getitems)
  ultimately show ?thesis by simp
qed

text \<open>
  Past the assertion the table is under \<open>values\<close>, with the rows the working frame had
  when the block began and has now.
\<close>

lemma backdoor_block_values:
  assumes "backdoor_block L self estimate df metrics_to_report r_scorer treatment_name
             outcome_name cate_estimate s = (Inr out, s')"
  shows "\<exists>v. map_of out ''values'' = Some (Table v) \<and> nrows v = nrows (frames s df) \<and>
             nrows v = nrows (frames s' df)"
proof -
  from assms [unfolded backdoor_block_def] obtain x s1 where
    m0: "backdoor_metrics L self estimate df metrics_to_report r_scorer treatment_name
             outcome_name cate_estimate s = (Inr x, s1)"
    and a0: "(case x of (out, vals) \<Rightarrow> bnd (deref df) (\<lambda>d.
       if nrows vals \<noteq> nrows d then raise AssertionError
       else ret (AList.update ''values'' (Table vals) out))) s1 = (Inr out, s')"
    by (blast dest: bnd_Inr)
  obtain out0 vals where x: "x = (out0, vals)" by (cases x)
  have "nrows vals = nrows (frames s1 df) \<and> out = AList.update ''values'' (Table vals) out0 \<and> s' = s1"
    using a0 unfolding x by (auto simp: bnd_def deref_def raise_def ret_def split: if_splits)
  then show ?thesis using backdoor_metrics_values [OF m0 [unfolded x]] by (auto simp: update_conv')
qed

text \<open>
  When the table and the working frame differ in their number of rows at the assertion,
  the block raises \<open>AssertionError\<close>.
\<close>

lemma backdoor_block_mismatch:
  assumes "backdoor_metrics L self estimate df metrics_to_report r_scorer treatment_name
             outcome_name cate_estimate s = (Inr (out, values), s')"
    and "nrows values \<noteq> nrows (frames s' df)"
  shows "backdoor_block L self estimate df metrics_to_report r_scorer treatment_name
             outcome_name cate_estimate s = (Inl AssertionError, s')"
  using assms by (simp add: backdoor_block_def bnd_def deref_def raise_def)

lemma make_scores_returns_values:
  assumes "problem self = ''backdoor''"
    and "make_scores L self estimate df metrics_to_report r_scorer g s = (Inr (out, g'), s')"
  shows "\<exists>v. map_of out ''values'' = Some (Table v) \<and> nrows v = nrows (frames s df)"
proof -
  note run = assms(2) [unfolded make_scores_def Let_def]
  from run obtain d0 s0 where d0: "deref df s = (Inr d0, s0)"
    and r1: "bnd (lift (reset_index d0)) (\<lambda>d1.
     bnd (alloc d1) (\<lambda>df.
     bnd (lift (treatment_name_of (estimator estimate))) (\<lambda>treatment_name.
          bnd (lift (effect (estimator estimate) d1)) (\<lambda>cate_estimate.
          bnd (if problem self = ''backdoor''
               then backdoor_block L self estimate df metrics_to_report r_scorer
                      treatment_name (est_outcome_name (estimator estimate)) cate_estimate
               else ret []) (\<lambda>out1.
          bnd (ret (if ''ate'' \<in> set metrics_to_report
                    then AList.update ''ate_std'' (Score (np_std cate_estimate))
                           (AList.update ''ate'' (Score (np_mean cate_estimate)) out1)
                    else out1)) (\<lambda>out2.
          bnd (when_reported ''energy_distance'' metrics_to_report out2
                 (score_of (energy_distance_score L estimate df))) (\<lambda>out3.
          bnd (when_reported ''psw_energy_distance'' metrics_to_report out3
                 (score_of (psw_energy_distance L self estimate df False))) (\<lambda>out4.
          if ''codec'' \<in> set metrics_to_report
          then bnd (codec_score L estimate df g)
                 (\<lambda>(temp, g'). ret (AList.update ''codec'' (Score temp) out4, g'))
          else ret (out4, g))))))))) s0 = (Inr (out, g'), s')"
    by (blast dest: bnd_Inr)
  from d0 have d0': "d0 = frames s df" "s0 = s" by (auto dest: deref_Inr)
  from r1 obtain d1 sa where d1: "lift (reset_index d0) s0 = (Inr d1, sa)"
    and r2: "bnd (alloc d1) (\<lambda>df.
     bnd (lift (treatment_name_of (estimator estimate))) (\<lambda>treatment_name.
          bnd (lift (effect (estimator estimate) d1)) (\<lambda>cate_estimate.
          bnd (if problem self = ''backdoor''
               then backdoor_block L self estimate df metrics_to_report r_scorer
                      treatment_name (est_outcome_name (estimator estimate)) cate_estimate
               else ret []) (\<lambda>out1.
          bnd (ret (if ''ate'' \<in> set metrics_to_report
                    then AList.update ''ate_std'' (Score (np_std cate_estimate))
                           (AList.update ''ate'' (Score (np_mean cate_estimate)) out1)
                    else out1)) (\<lambda>out2.
          bnd (when_reported ''energy_distance'' metrics_to_report out2
                 (score_of (energy_distance_score L estimate df))) (\<lambda>out3.
          bnd (when_reported ''psw_energy_distance'' metrics_to_report out3
                 (score_of (psw_energy_distance L self estimate df False))) (\<lambda>out4.
          if ''codec'' \<in> set metrics_to_report
          then bnd (codec_score L estimate df g)
                 (\<lambda>(temp, g'). ret (AList.update ''codec'' (Score temp) out4, g'))
          else ret (out4, g)))))))) sa = (Inr (out, g'), s')"
    by (blast dest: bnd_Inr)
  from d1 have n1: "nrows d1 = nrows (frames s df)"
    using d0' by (auto dest!: lift_Inr nrows_reset_index)
  from r2 obtain w sb where w: "alloc d1 sa = (Inr w, sb)"
    and r3: "bnd (lift (treatment_name_of (estimator estimate))) (\<lambda>treatment_name.
          bnd (lift (effect (estimator estimate) d1)) (\<lambda>cate_estimate.
          bnd (if problem self = ''backdoor''
               then backdoor_block L self estimate w metrics_to_report r_scorer
                      treatment_name (est_outcome_name (estimator estimate)) cate_estimate
               else ret []) (\<lambda>out1.
          bnd (ret (if ''ate'' \<in> set metrics_to_report
                    then AList.update ''ate_std'' (Score (np_std cate_estimate))
                           (AList.update ''ate'' (Score (np_mean cate_estimate)) out1)
                    else out1)) (\<lambda>out2.
          bnd (when_reported ''energy_distance'' metrics_to_report out2
                 (score_of (energy_distance_score L estimate w))) (\<lambda>out3.
          bnd (when_reported ''psw_energy_distance'' metrics_to_report out3
                 (score_of (psw_energy_distance L self estimate w False))) (\<lambda>out4.
          if ''codec'' \<in> set metrics_to_report
          then bnd (codec_score L estimate w g)
                 (\<lambda>(temp, g'). ret (AList.update ''codec'' (Score temp) out4, g'))
          else ret (out4, g))))))) sb = (Inr (out, g'), s')"
    by (blast dest: bnd_Inr)
  from w have fw: "frames sb w = d1" by (auto dest: alloc_Inr)
  from r3 obtain treatment_name cate_estimate out1 out2 out3 out4 sc sd se sf sg sh where
    tn: "lift (treatment_name_of (estimator estimate)) sb = (Inr treatment_name, sc)"
    and ce: "lift (effect (estimator estimate) d1) sc = (Inr cate_estimate, sd)"
    and blk: "(if problem self = ''backdoor''
               then backdoor_block L self estimate w metrics_to_report r_scorer
                      treatment_name (est_outcome_name (estimator estimate)) cate_estimate
               else ret []) sd = (Inr out1, se)"
    and o2: "ret (if ''ate'' \<in> set metrics_to_report
                    then AList.update ''ate_std'' (Score (np_std cate_estimate))
                           (AList.update ''ate'' (Score (np_mean cate_estimate)) out1)
                    else out1) se = (Inr out2, sf)"
    and o3: "when_reported ''energy_distance'' metrics_to_report out2
                 (score_of (energy_distance_score L estimate w)) sf = (Inr out3, sg)"
    and o4: "when_reported ''psw_energy_distance'' metrics_to_report out3
                 (score_of (psw_energy_distance L self estimate w False)) sg = (Inr out4, sh)"
    and fin: "(if ''codec'' \<in> set metrics_to_report
          then bnd (codec_score L estimate w g)
                 (\<lambda>(temp, g'). ret (AList.update ''codec'' (Score temp) out4, g'))
          else ret (out4, g)) sh = (Inr (out, g'), s')"
    apply -
    apply (drule bnd_Inr, clarify)+
    apply blast
    done
  have sd: "sd = sb" using tn ce by (auto dest!: lift_Inr)
  from blk assms(1) have "backdoor_block L self estimate w metrics_to_report r_scorer
                      treatment_name (est_outcome_name (estimator estimate)) cate_estimate sb = (Inr out1, se)"
    by (simp add: sd)
  from backdoor_block_values [OF this] obtain v where
    v: "map_of out1 ''values'' = Some (Table v)" "nrows v = nrows (frames sb w)" by blast
  have k2: "map_of out2 ''values'' = map_of out1 ''values''"
    using o2 by (auto simp: ret_def update_conv' split: if_splits)
  have k3: "map_of out3 ''values'' = map_of out2 ''values''"
    by (rule when_reported_keeps [OF o3]) simp
  have k4: "map_of out4 ''values'' = map_of out3 ''values''"
    by (rule when_reported_keeps [OF o4]) simp
  have k5: "map_of out ''values'' = map_of out4 ''values''"
    using fin by (auto simp: ret_def bnd_def update_conv' split: if_splits prod.splits sum.splits)
  show ?thesis using v k2 k3 k4 k5 fw n1 by auto
qed


lemma make_scores_mismatch:
  assumes p: "problem self = ''backdoor''"
    and r: "reset_index (frames s df) = Inr d1"
    and t: "treatment_name_of (estimator estimate) = Inr treatment_name"
    and e: "effect (estimator estimate) d1 = Inr cate_estimate"
    and m: "backdoor_metrics L self estimate (next_ref s) metrics_to_report r_scorer treatment_name
              (est_outcome_name (estimator estimate)) cate_estimate
              (s\<lparr>frames := (frames s)(next_ref s := d1), next_ref := Suc (next_ref s)\<rparr>) =
            (Inr (out, values), s2)"
    and n: "nrows values \<noteq> nrows (frames s2 (next_ref s))"
  shows "make_scores L self estimate df metrics_to_report r_scorer g s = (Inl AssertionError, s2)"
  using backdoor_block_mismatch [OF m n] p r t e
  by (simp add: make_scores_def bnd_def deref_def lift_def alloc_def Let_def)


text \<open>
  C9. On a scorer for the problem \<open>backdoor\<close>, a Score Record that \<open>make_scores\<close>
  returns has a table under \<open>values\<close>, and the table has exactly as many rows as the
  frame that was passed in. And a mismatch is fatal: when the diagnostic table and the
  working frame (the reset copy of the input, at the reference \<open>make_scores\<close> allocates)
  differ in their number of rows once the scores of the block are computed, \<open>make_scores\<close>
  ends with \<open>AssertionError\<close>, which nothing in it catches, and returns no record.
\<close>

theorem make_scores_values_rows:
  assumes "problem self = ''backdoor''"
  shows "(\<forall>out g' s'.
            make_scores L self estimate df metrics_to_report r_scorer g s = (Inr (out, g'), s') \<longrightarrow>
            (\<exists>v. map_of out ''values'' = Some (Table v) \<and> nrows v = nrows (frames s df))) \<and>
         (\<forall>d1 treatment_name cate_estimate out vals s2.
            reset_index (frames s df) = Inr d1 \<and>
            treatment_name_of (estimator estimate) = Inr treatment_name \<and>
            effect (estimator estimate) d1 = Inr cate_estimate \<and>
            backdoor_metrics L self estimate (next_ref s) metrics_to_report r_scorer treatment_name
              (est_outcome_name (estimator estimate)) cate_estimate
              (s\<lparr>frames := (frames s)(next_ref s := d1), next_ref := Suc (next_ref s)\<rparr>) =
            (Inr (out, vals), s2) \<and>
            nrows vals \<noteq> nrows (frames s2 (next_ref s)) \<longrightarrow>
            make_scores L self estimate df metrics_to_report r_scorer g s = (Inl AssertionError, s2))"
proof (intro conjI allI impI)
  fix out g' s'
  assume "make_scores L self estimate df metrics_to_report r_scorer g s = (Inr (out, g'), s')"
  then show "\<exists>v. map_of out ''values'' = Some (Table v) \<and> nrows v = nrows (frames s df)"
    by (rule make_scores_returns_values [OF assms])
next
  fix d1 treatment_name cate_estimate out vals s2
  assume a: "reset_index (frames s df) = Inr d1 \<and>
            treatment_name_of (estimator estimate) = Inr treatment_name \<and>
            effect (estimator estimate) d1 = Inr cate_estimate \<and>
            backdoor_metrics L self estimate (next_ref s) metrics_to_report r_scorer treatment_name
              (est_outcome_name (estimator estimate)) cate_estimate
              (s\<lparr>frames := (frames s)(next_ref s := d1), next_ref := Suc (next_ref s)\<rparr>) =
            (Inr (out, vals), s2) \<and>
            nrows vals \<noteq> nrows (frames s2 (next_ref s))"
  from a have r: "reset_index (frames s df) = Inr d1"
    and t: "treatment_name_of (estimator estimate) = Inr treatment_name"
    and e: "effect (estimator estimate) d1 = Inr cate_estimate"
    and m: "backdoor_metrics L self estimate (next_ref s) metrics_to_report r_scorer treatment_name
              (est_outcome_name (estimator estimate)) cate_estimate
              (s\<lparr>frames := (frames s)(next_ref s := d1), next_ref := Suc (next_ref s)\<rparr>) =
            (Inr (out, vals), s2)"
    and n: "nrows vals \<noteq> nrows (frames s2 (next_ref s))"
    by simp_all
  show "make_scores L self estimate df metrics_to_report r_scorer g s = (Inl AssertionError, s2)"
    by (rule make_scores_mismatch [OF assms r t e m n])
qed

text \<open>
  \<open>make_scores\<close> on the example frame, reporting \<open>ate\<close> and \<open>policy_risk\<close>: the
  policy risk fails (the frame has no column \<open>random\<close>) and is left out, and the table
  under \<open>values\<close> has the five rows of the frame. With the ERUPT object that drops a row
  of the frame it is handed, the table has five rows and the frame four, and
  \<open>make_scores\<close> ends with \<open>AssertionError\<close>.
\<close>

lemma example_reset: "reset_index example_frame = Inr example_frame_reset"
  by (simp add: reset_index_def example_frame_def example_frame_reset_def colnames_def nrows_def
      upt_rec Let_def)

lemma example_ate:
  "\<exists>sd. ate example_libs backdoor_scorer example_frame_reset = Inr (AteScalar (Fin 1) sd 5)"
proof -
  define t where "t = \<lparr>s_index = [0, 1, 2, 3, 4], s_values = [Fin 1, Fin 0, Fin 1, Fin 0, Fin 1]\<rparr>"
  define y where "y = \<lparr>s_index = [0, 1, 2, 3, 4], s_values = [Fin 3, Fin 1, Fin 5, Fin 2, Fin 4]\<rparr>"
  have "\<exists>m sd. naive_ate example_libs t y = Inr (m, sd, length (s_values t))"
    using naive_ate_on_one_index [of t y example_libs] by (auto simp: t_def y_def)
  then obtain m sd where n: "naive_ate example_libs t y = Inr (m, sd, 5)"
    by (auto simp: t_def)
  have "ate example_libs backdoor_scorer example_frame_reset = Inr (AteScalar (Fin 1) sd 5)"
    using n unfolding t_def y_def
    by (simp add: ate_def backdoor_scorer_def example_psw_def attr_def andthen_def column_def
        example_frame_reset_def nrows_def np_mean_def fl_sum_def example_causal_model_def
        getitem_def)
  then show ?thesis by blast
qed


lemma example_values0:
  "getitems example_frame_reset [''T'', ''Y''] =
      Inr (example_frame_reset\<lparr>df_columns := [(''T'', [Fin 1, Fin 0, Fin 1, Fin 0, Fin 1]),
         (''Y'', [Fin 3, Fin 1, Fin 5, Fin 2, Fin 4])]\<rparr>)"
  by (simp add: getitems_def colnames_def example_frame_reset_def)

lemma example_values3:
  "andthen (propensity_model_of self) (\<lambda>propensitymodel.
     andthen (getitems example_frame_reset (features_of self)) (\<lambda>f.
     andthen (propensitymodel f) (\<lambda>proba.
     andthen (column_at proba (Fin 1)) (\<lambda>p.
     andthen (setitem (example_frame_reset\<lparr>df_columns := [(''T'', [Fin 1, Fin 0, Fin 1, Fin 0, Fin 1]),
                         (''Y'', [Fin 3, Fin 1, Fin 5, Fin 2, Fin 4])]\<rparr>) ''p'' p) (\<lambda>v1.
     andthen (setitem v1 ''policy''
                (map (\<lambda>x. of_bool_fl (fl_less (Fin 0) x)) [Fin 1, Fin 2, Fin 3, Fin 4, Fin 5])) (\<lambda>v2.
     setitem v2 ''norm_policy''
       (map (\<lambda>x. of_bool_fl (fl_less (Fin 1) x)) [Fin 1, Fin 2, Fin 3, Fin 4, Fin 5]))))))) =
   Inr (example_values\<lparr>df_columns := butlast (df_columns example_values)\<rparr>)"
  if "psw_estimator self = Some example_psw" and "causal_model self = example_causal_model"
  using that
  by (simp add: andthen_def propensity_model_of_def example_psw_def attr_def features_of_def
      example_causal_model_def getitems_def colnames_def example_frame_reset_def nrows_def
      column_at_def setitem_def of_bool_fl_def example_values_def eval_nat_numeral)

lemma example_values_table:
  "values_table backdoor_scorer (Suc 0) example_frame_reset
     (example_frame_reset\<lparr>df_columns := [(''T'', [Fin 1, Fin 0, Fin 1, Fin 0, Fin 1]),
         (''Y'', [Fin 3, Fin 1, Fin 5, Fin 2, Fin 4])]\<rparr>)
     [Fin 1, Fin 2, Fin 3, Fin 4, Fin 5] (AteScalar (Fin 1) sd 5) example_store_reset =
   (Inr example_values, example_store_reset)"
proof -
  have v3: "andthen (propensity_model_of backdoor_scorer) (\<lambda>propensitymodel.
     andthen (getitems example_frame_reset (features_of backdoor_scorer)) (\<lambda>f.
     andthen (propensitymodel f) (\<lambda>proba.
     andthen (column_at proba (Fin 1)) (\<lambda>p.
     andthen (setitem (example_frame_reset\<lparr>df_columns := [(''T'', [Fin 1, Fin 0, Fin 1, Fin 0, Fin 1]),
                         (''Y'', [Fin 3, Fin 1, Fin 5, Fin 2, Fin 4])]\<rparr>) ''p'' p) (\<lambda>v1.
     andthen (setitem v1 ''policy''
                (map (\<lambda>x. of_bool_fl (fl_less (Fin 0) x)) [Fin 1, Fin 2, Fin 3, Fin 4, Fin 5])) (\<lambda>v2.
     setitem v2 ''norm_policy''
       (map (\<lambda>x. of_bool_fl (fl_less (Fin 1) x)) [Fin 1, Fin 2, Fin 3, Fin 4, Fin 5]))))))) =
   Inr (example_values\<lparr>df_columns := butlast (df_columns example_values)\<rparr>)"
    by (rule example_values3) (simp_all add: backdoor_scorer_def)
  have f: "frames example_store_reset (Suc 0) = example_frame_reset"
    by (simp add: example_store_reset_def)
  show ?thesis
    unfolding values_table_def ate_result.case v3
    by (simp add: bnd_def lift_def attr_def backdoor_scorer_def example_erupt_def deref_def f ret_def
        setitem_def example_values_def nrows_def example_frame_reset_def)
qed

lemma dropping_values_table:
  "values_table dropping_scorer (Suc 0) example_frame_reset
     (example_frame_reset\<lparr>df_columns := [(''T'', [Fin 1, Fin 0, Fin 1, Fin 0, Fin 1]),
         (''Y'', [Fin 3, Fin 1, Fin 5, Fin 2, Fin 4])]\<rparr>)
     [Fin 1, Fin 2, Fin 3, Fin 4, Fin 5] (AteScalar (Fin 1) sd 5) example_store_reset =
   (Inr example_values, example_store_dropped)"
proof -
  have v3: "andthen (propensity_model_of dropping_scorer) (\<lambda>propensitymodel.
     andthen (getitems example_frame_reset (features_of dropping_scorer)) (\<lambda>f.
     andthen (propensitymodel f) (\<lambda>proba.
     andthen (column_at proba (Fin 1)) (\<lambda>p.
     andthen (setitem (example_frame_reset\<lparr>df_columns := [(''T'', [Fin 1, Fin 0, Fin 1, Fin 0, Fin 1]),
                         (''Y'', [Fin 3, Fin 1, Fin 5, Fin 2, Fin 4])]\<rparr>) ''p'' p) (\<lambda>v1.
     andthen (setitem v1 ''policy''
                (map (\<lambda>x. of_bool_fl (fl_less (Fin 0) x)) [Fin 1, Fin 2, Fin 3, Fin 4, Fin 5])) (\<lambda>v2.
     setitem v2 ''norm_policy''
       (map (\<lambda>x. of_bool_fl (fl_less (Fin 1) x)) [Fin 1, Fin 2, Fin 3, Fin 4, Fin 5]))))))) =
   Inr (example_values\<lparr>df_columns := butlast (df_columns example_values)\<rparr>)"
    by (rule example_values3) (simp_all add: dropping_scorer_def)
  have f: "frames example_store_reset (Suc 0) = example_frame_reset"
    by (simp add: example_store_reset_def)
  have d: "example_store_reset\<lparr>frames := (frames example_store_reset)
              (Suc 0 := iloc_head (nrows example_frame_reset - Suc 0) example_frame_reset)\<rparr> =
           example_store_dropped"
    by (simp add: example_store_reset_def example_store_dropped_def fun_eq_iff iloc_head_def
        nrows_def example_frame_reset_def example_frame_dropped_def)
  have w: "setitem (example_values\<lparr>df_columns := butlast (df_columns example_values)\<rparr>) ''weights''
             (replicate (nrows example_frame_reset) (Fin 1)) = Inr example_values"
    by (simp add: setitem_def example_values_def nrows_def example_frame_reset_def)
  show ?thesis
    unfolding values_table_def ate_result.case v3
    by (simp add: bnd_def lift_def attr_def dropping_scorer_def dropping_erupt_def deref_def f
        assign_def d ret_def w)
qed

lemma example_policy_risk:
  "policy_risk_score backdoor_scorer example_estimate (Suc 0) [Fin 1, Fin 2, Fin 3, Fin 4, Fin 5] ''Y''
     None None (Fin (1 / 100)) (Fin (1 / 20)) example_store_reset = (Inl KeyError, example_store_reset)"
  using sqrt2_above
  by (simp add: policy_risk_score_def bnd_def deref_def example_store_reset_def example_std
      lift_def backdoor_scorer_def example_psw_def getitems_def colnames_def example_frame_reset_def
      Let_def)

lemma example_metrics:
  "backdoor_metrics example_libs backdoor_scorer example_estimate (Suc 0) [''ate'', ''policy_risk''] None
     ''T'' ''Y'' [Fin 1, Fin 2, Fin 3, Fin 4, Fin 5] example_store_reset =
   (Inr ([], example_values), example_store_reset)"
proof -
  obtain sd where a: "ate example_libs backdoor_scorer example_frame_reset = Inr (AteScalar (Fin 1) sd 5)"
    using example_ate by blast
  have f: "frames example_store_reset (Suc 0) = example_frame_reset"
    by (simp add: example_store_reset_def)
  show ?thesis
    by (simp add: backdoor_metrics_def bnd_def deref_def f lift_def example_values0 a
        example_values_table when_reported_def try_reported_def ret_def score_of_def
        example_policy_risk)
qed

lemma dropping_metrics:
  "backdoor_metrics example_libs dropping_scorer example_estimate (Suc 0) [] None
     ''T'' ''Y'' [Fin 1, Fin 2, Fin 3, Fin 4, Fin 5] example_store_reset =
   (Inr ([], example_values), example_store_dropped)"
proof -
  have "ate example_libs dropping_scorer example_frame_reset =
        ate example_libs backdoor_scorer example_frame_reset"
    by (simp add: ate_def dropping_scorer_def backdoor_scorer_def
        cong: ndarray.case_cong list.case_cong if_cong)
  then obtain sd where a: "ate example_libs dropping_scorer example_frame_reset = Inr (AteScalar (Fin 1) sd 5)"
    using example_ate by auto
  have f: "frames example_store_reset (Suc 0) = example_frame_reset"
    by (simp add: example_store_reset_def)
  show ?thesis
    by (simp add: backdoor_metrics_def bnd_def deref_def f lift_def example_values0 a
        dropping_values_table when_reported_def try_reported_def ret_def)
qed

lemma example_alloc:
  "alloc example_frame_reset example_store = (Inr (Suc 0), example_store_reset)"
  by (simp add: alloc_def example_store_def example_store_reset_def fun_eq_iff)

lemma example_make_scores:
  "make_scores example_libs backdoor_scorer example_estimate 0 [''ate'', ''policy_risk''] None
     example_rng example_store =
   (Inr ([(''values'', Table example_values), (''ate'', Score (Fin 3)),
          (''ate_std'', Score (Fin (sqrt 2)))], example_rng), example_store_reset)"
proof -
  have f: "frames example_store 0 = example_frame" by (simp add: example_store_def)
  have f1: "frames example_store_reset (Suc 0) = example_frame_reset"
    by (simp add: example_store_reset_def)
  have e: "effect (estimator example_estimate) example_frame_reset = Inr [Fin 1, Fin 2, Fin 3, Fin 4, Fin 5]"
    by (simp add: example_estimate_def getitem_def example_frame_reset_def)
  have t: "treatment_name_of (estimator example_estimate) = Inr ''T''"
    by (simp add: treatment_name_of_def example_estimate_def)
  have o: "est_outcome_name (estimator example_estimate) = ''Y''"
    by (simp add: example_estimate_def)
  have p: "problem backdoor_scorer = ''backdoor''" by (simp add: backdoor_scorer_def)
  have m: "np_mean [Fin 1, Fin 2, Fin 3, Fin 4, Fin 5] = Fin 3"
    by (simp add: np_mean_def fl_sum_def)
  have n: "nrows example_values = nrows example_frame_reset"
    by (simp add: nrows_def example_values_def example_frame_reset_def)
  show ?thesis
    by (simp add: make_scores_def backdoor_block_def bnd_def deref_def f f1 lift_def example_reset
        example_alloc t o e p example_metrics n ret_def when_reported_def example_std m)
qed

lemma example_store_after_alloc:
  "example_store\<lparr>frames := (frames example_store)(Suc 0 := example_frame_reset),
                  next_ref := Suc (Suc 0)\<rparr> = example_store_reset"
  by (simp add: example_store_def example_store_reset_def fun_eq_iff)

theorem make_scores_values_rows_witness:
  "problem backdoor_scorer = ''backdoor'' \<and>
   make_scores example_libs backdoor_scorer example_estimate 0 [''ate'', ''policy_risk''] None
     example_rng example_store =
   (Inr ([(''values'', Table example_values), (''ate'', Score (Fin 3)),
          (''ate_std'', Score (Fin (sqrt 2)))], example_rng), example_store_reset) \<and>
   (\<exists>v. map_of [(''values'', Table example_values), (''ate'', Score (Fin 3)),
                  (''ate_std'', Score (Fin (sqrt 2)))] ''values'' = Some (Table v) \<and>
        nrows v = nrows (frames example_store 0)) \<and>
   nrows (frames example_store 0) = 5 \<and>
   problem dropping_scorer = ''backdoor'' \<and>
   reset_index (frames example_store 0) = Inr example_frame_reset \<and>
   treatment_name_of (estimator example_estimate) = Inr ''T'' \<and>
   effect (estimator example_estimate) example_frame_reset = Inr [Fin 1, Fin 2, Fin 3, Fin 4, Fin 5] \<and>
   backdoor_metrics example_libs dropping_scorer example_estimate 1 [] None ''T'' ''Y''
     [Fin 1, Fin 2, Fin 3, Fin 4, Fin 5] example_store_reset =
     (Inr ([], example_values), example_store_dropped) \<and>
   nrows example_values = 5 \<and> nrows (frames example_store_dropped 1) = 4 \<and>
   make_scores example_libs dropping_scorer example_estimate 0 [] None example_rng example_store =
     (Inl AssertionError, example_store_dropped)"
proof -
  have p: "problem backdoor_scorer = ''backdoor''" by (simp add: backdoor_scorer_def)
  have q: "problem dropping_scorer = ''backdoor''" by (simp add: dropping_scorer_def)
  have n: "nrows (frames example_store 0) = 5"
    by (simp add: example_store_def example_frame_def nrows_def)
  have r: "reset_index (frames example_store 0) = Inr example_frame_reset"
    using example_reset by (simp add: example_store_def)
  have t: "treatment_name_of (estimator example_estimate) = Inr ''T''"
    by (simp add: treatment_name_of_def example_estimate_def)
  have o: "est_outcome_name (estimator example_estimate) = ''Y''"
    by (simp add: example_estimate_def)
  have e: "effect (estimator example_estimate) example_frame_reset = Inr [Fin 1, Fin 2, Fin 3, Fin 4, Fin 5]"
    by (simp add: example_estimate_def getitem_def example_frame_reset_def)
  have nr: "next_ref example_store = 1" by (simp add: example_store_def)
  have m: "backdoor_metrics example_libs dropping_scorer example_estimate 1 [] None ''T'' ''Y''
     [Fin 1, Fin 2, Fin 3, Fin 4, Fin 5] example_store_reset =
     (Inr ([], example_values), example_store_dropped)"
    using dropping_metrics by simp
  have nv: "nrows example_values = 5" by (simp add: nrows_def example_values_def)
  have nd: "nrows (frames example_store_dropped 1) = 4"
    by (simp add: nrows_def example_store_dropped_def example_frame_dropped_def)
  have v: "\<exists>v. map_of [(''values'', Table example_values), (''ate'', Score (Fin 3)),
                  (''ate_std'', Score (Fin (sqrt 2)))] ''values'' = Some (Table v) \<and>
        nrows v = nrows (frames example_store 0)"
    using make_scores_values_rows [OF p, THEN conjunct1, rule_format, OF example_make_scores] .
  have a: "make_scores example_libs dropping_scorer example_estimate 0 [] None example_rng example_store =
     (Inl AssertionError, example_store_dropped)"
    using make_scores_values_rows [OF q, THEN conjunct2, rule_format,
        of example_store 0 example_frame_reset example_estimate "''T''" "[Fin 1, Fin 2, Fin 3, Fin 4, Fin 5]"
           example_libs "[]" None "[]" example_values example_store_dropped example_rng]
      r t e m nv nd
    by (simp add: nr o example_store_after_alloc)
  show ?thesis
    using p example_make_scores v n q r t e m nv nd a by (intro conjI)
qed
subsection \<open>Writes to the frame of the caller\<close>

text \<open>
  \<open>energy_distance_score\<close>, \<open>psw_energy_distance\<close> and \<open>frobenius_norm_score\<close> all go
  through \<open>_Y0_X_potential_outcomes\<close>, which writes the columns \<open>dy\<close> and \<open>yhat\<close> to the
  frame it was given (lemma \<open>potential_outcomes_writes\<close>).
\<close>

text \<open>
  \<open>policy_risk_score\<close> is the one metric function that does copy first: it adds its
  columns \<open>weight\<close> and \<open>policy_treatment\<close> to \<open>df.loc[rct_indices].copy()\<close>, so the
  frame of the caller is the same after every run, returning or raising.
\<close>

lemma keeps_lift: "keeps_frame df (lift r)"
  by (simp add: keeps_frame_def lift_def)

lemma keeps_ret: "keeps_frame df (ret x)"
  by (simp add: keeps_frame_def ret_def)

lemma keeps_raise: "keeps_frame df (raise e)"
  by (simp add: keeps_frame_def raise_def)

lemma keeps_deref: "keeps_frame df (deref r)"
  by (simp add: keeps_frame_def deref_def)

lemma keeps_bnd:
  assumes "keeps_frame df m" and "\<And>x. keeps_frame df (f x)"
  shows "keeps_frame df (bnd m f)"
proof (unfold keeps_frame_def, intro allI impI)
  fix s r s' assume run: "bnd m f s = (r, s')" and a: "df < next_ref s"
  obtain r1 s1 where m: "m s = (r1, s1)" by (cases "m s")
  from assms(1) m a have k1: "frames s1 df = frames s df" "next_ref s \<le> next_ref s1"
    unfolding keeps_frame_def by blast+
  show "frames s' df = frames s df \<and> next_ref s \<le> next_ref s'"
  proof (cases r1)
    case (Inl e)
    with run m have "s' = s1" by (simp add: bnd_def)
    with k1 show ?thesis by simp
  next
    case (Inr x)
    with run m have "f x s1 = (r, s')" by (simp add: bnd_def)
    moreover have "df < next_ref s1" using a k1(2) by simp
    ultimately have "frames s' df = frames s1 df \<and> next_ref s1 \<le> next_ref s'"
      using assms(2) [of x] unfolding keeps_frame_def by blast
    with k1 show ?thesis by simp
  qed
qed

lemma keeps_alloc_bnd:
  assumes "\<And>r. df < r \<Longrightarrow> keeps_frame df (f r)"
  shows "keeps_frame df (bnd (alloc d) f)"
  unfolding keeps_frame_def
proof (intro allI impI)
  fix s r s' assume run: "bnd (alloc d) f s = (r, s')" and a: "df < next_ref s"
  let ?s1 = "s\<lparr>frames := (frames s)(next_ref s := d), next_ref := Suc (next_ref s)\<rparr>"
  have "f (next_ref s) ?s1 = (r, s')" using run by (simp add: bnd_def alloc_def)
  moreover have "df < next_ref ?s1" using a by simp
  ultimately have "frames s' df = frames ?s1 df \<and> next_ref ?s1 \<le> next_ref s'"
    using assms [OF a] unfolding keeps_frame_def by blast
  then show "frames s' df = frames s df \<and> next_ref s \<le> next_ref s'"
    using a by auto
qed

lemma keeps_setitem_at: "df \<noteq> r \<Longrightarrow> keeps_frame df (setitem_at r c v)"
  by (auto simp: keeps_frame_def setitem_at_def bnd_def deref_def lift_def assign_def
      split: sum.splits)

lemma policy_risk_keeps_caller_frame:
  "keeps_frame df (policy_risk_score self estimate df cate_estimate outcome_name policy
                     rct_indices sd_threshold clip)"
  unfolding policy_risk_score_def Let_def
  by (intro keeps_bnd keeps_alloc_bnd keeps_lift keeps_ret keeps_raise keeps_deref
        keeps_setitem_at impI conjI allI
      | simp split: name_spec.splits prod.splits add: keeps_ret keeps_raise)+

text \<open>
  On the example frame, \<open>energy_distance_score\<close> returns with the frame of the caller
  changed, and so does \<open>codec_score\<close>, even where it returns its sentinel.
\<close>

lemma example_energy_distance:
  "energy_distance_score example_libs example_estimate 0 example_store =
     (Inr (Fin 0), example_store_hat)"
proof -
  have f: "frames example_store_hat (Suc 0) = example_frame_hat"
    by (simp add: example_store_hat_def)
  have g: "rows_where_eq example_frame_hat ''T'' (Fin 1) = Inr example_treated"
    "rows_where_eq example_frame_hat ''T'' (Fin 0) = Inr example_control"
    using example_groups by (simp_all add: example_store_hat_def)
  have c: "getitems example_treated [''X'', ''yhat''] =
             Inr (example_treated\<lparr>df_columns := [(''X'', [Fin 1, Fin 3, Fin 5]), (''yhat'', [Fin 2, Fin 4, Fin 3])]\<rparr>)"
    "getitems example_control [''X'', ''yhat''] =
             Inr (example_control\<lparr>df_columns := [(''X'', [Fin 2, Fin 4]), (''yhat'', [Fin 0, Fin 1])]\<rparr>)"
    by (simp_all add: getitems_def colnames_def example_treated_def example_control_def)
  have e: "est_effect_modifier_names (estimator example_estimate) = [''X'']"
    by (simp add: example_estimate_def)
  show ?thesis
    using example_reconstruction
    by (simp add: energy_distance_score_def bnd_def deref_def f lift_def g c e example_libs_def)
qed

lemma example_codec_score:
  "codec_score example_libs constant_estimate 0 example_rng example_store =
     (Inr (PInf, example_rng), example_store_written)"
  by (simp add: codec_score_def constant_estimate_def treatment_name_of_def bnd_def lift_def
      deref_def example_store_def example_frame_def identify_confounders_def colnames_def
      nrows_def np_std_def np_mean_def fl_sum_def fl_sub_def fl_sq_def setitem_at_def setitem_def
      assign_def getitem_def getitems_def ret_def example_store_written_def example_frame_hat_def
      fun_eq_iff Let_def)

text \<open>
  C1 (the code departs from it). The claim is that no metric function changes the frame
  of the caller. After \<open>energy_distance_score\<close> and after \<open>codec_score\<close> the frame at the
  reference of the caller has the two columns \<open>dy\<close> and \<open>yhat\<close> it did not have before.
\<close>

theorem metric_functions_write_to_caller_frame:
  "energy_distance_score example_libs example_estimate 0 example_store =
     (Inr (Fin 0), example_store_hat) \<and>
   codec_score example_libs constant_estimate 0 example_rng example_store =
     (Inr (PInf, example_rng), example_store_written) \<and>
   colnames (frames example_store 0) = [''T'', ''Y'', ''X''] \<and>
   colnames (frames example_store_hat 0) = [''T'', ''Y'', ''X'', ''dy'', ''yhat''] \<and>
   colnames (frames example_store_written 0) = [''T'', ''Y'', ''X'', ''dy'', ''yhat'']"
  using example_energy_distance example_codec_score
  by (simp add: colnames_def example_store_def example_store_hat_def example_store_written_def
      example_frame_def example_frame_hat_def)


subsection \<open>Metric catalog\<close>

lemma supported_metrics_other:
  "p \<noteq> ''iv'' \<Longrightarrow> p \<noteq> ''backdoor'' \<Longrightarrow> supported_metrics p mv so = None"
  by (simp add: supported_metrics_def)

lemma sorted_list_nonempty: "sorted_list_of_set (set (xs @ [x])) \<noteq> []"
  by simp

text \<open>
  C8. On a scorer for the problem \<open>backdoor\<close> with \<open>multivalue = False\<close>,
  \<open>resolve_metric\<close> returns a supported metric name unchanged and leaves the log as it
  was; for any other name (\<open>bogus_metric\<close>, say) it returns \<open>energy_distance\<close> and
  appends exactly one warning to the log.
\<close>

theorem resolve_metric_backdoor_single:
  assumes "problem self = ''backdoor''" and "\<not> multivalue self"
  shows "resolve_metric self metric wlog =
     (if metric \<in> set [''erupt'', ''norm_erupt'', ''prob_erupt'', ''policy_risk'',
                       ''qini'', ''auc'', ''energy_distance'', ''psw_energy_distance'',
                       ''frobenius_norm'', ''codec'']
      then Inr (metric, wlog)
      else Inr (''energy_distance'',
                wlog @ [UsingEnergyDistance metric
                          [''erupt'', ''norm_erupt'', ''prob_erupt'', ''policy_risk'',
                           ''qini'', ''auc'', ''energy_distance'', ''psw_energy_distance'',
                           ''frobenius_norm'', ''codec'']]))"
  using assms by (simp add: resolve_metric_def supported_metrics_def not_in_def)

text \<open>
  The theorem at the scorer \<open>backdoor_scorer\<close>: \<open>bogus_metric\<close> is replaced and logged
  once, starting from an empty log.
\<close>

theorem resolve_metric_backdoor_single_witness:
  "problem backdoor_scorer = ''backdoor'' \<and> \<not> multivalue backdoor_scorer \<and>
   resolve_metric backdoor_scorer ''bogus_metric'' [] =
     Inr (''energy_distance'',
          [UsingEnergyDistance ''bogus_metric''
             [''erupt'', ''norm_erupt'', ''prob_erupt'', ''policy_risk'',
              ''qini'', ''auc'', ''energy_distance'', ''psw_energy_distance'',
              ''frobenius_norm'', ''codec'']])"
proof -
  have p: "problem backdoor_scorer = ''backdoor''" by (simp add: backdoor_scorer_def)
  have m: "\<not> multivalue backdoor_scorer" by (simp add: backdoor_scorer_def)
  show ?thesis
    using p m resolve_metric_backdoor_single [OF p m, of "''bogus_metric''" "[]"] by simp
qed

text \<open>
  C10 (as amended). For a problem other than \<open>iv\<close> and \<open>backdoor\<close>,
  \<open>supported_metrics\<close> returns \<open>None\<close>; \<open>resolve_metric\<close> raises \<open>TypeError\<close> for
  every metric name; \<open>resolve_reported_metrics\<close> raises \<open>TypeError\<close> when it is given a
  list of metrics to report, and returns \<open>None\<close> without raising and without a warning
  when \<open>metrics_to_report\<close> is \<open>None\<close>. The energy-distance default is substituted in
  none of these cases.
\<close>

theorem unknown_problem_no_default:
  assumes "problem self \<noteq> ''iv''" and "problem self \<noteq> ''backdoor''"
  shows "supported_metrics (problem self) (multivalue self) scores_only = None \<and>
         resolve_metric self metric wlog = Inl TypeError \<and>
         resolve_reported_metrics self (Some mtr) scoring_metric wlog = Inl TypeError \<and>
         resolve_reported_metrics self None scoring_metric wlog = Inr (None, wlog)"
proof -
  have none: "\<And>so. supported_metrics (problem self) (multivalue self) so = None"
    using assms by (simp add: supported_metrics_other)
  have rm: "resolve_metric self metric wlog = Inl TypeError"
    by (simp add: resolve_metric_def none not_in_def)
  have rn: "resolve_reported_metrics self None scoring_metric wlog = Inr (None, wlog)"
    by (simp add: resolve_reported_metrics_def none)
  obtain m ms where ms: "sorted_list_of_set (set (mtr @ [scoring_metric])) = m # ms"
    using sorted_list_nonempty [of mtr scoring_metric]
    by (cases "sorted_list_of_set (set (mtr @ [scoring_metric]))") auto
  have rs: "resolve_reported_metrics self (Some mtr) scoring_metric wlog = Inl TypeError"
    using ms by (simp add: resolve_reported_metrics_def none not_in_def Let_def)
  show ?thesis using none rm rn rs by blast
qed

theorem unknown_problem_no_default_witness:
  "problem frontdoor_scorer \<noteq> ''iv'' \<and> problem frontdoor_scorer \<noteq> ''backdoor'' \<and>
   supported_metrics (problem frontdoor_scorer) (multivalue frontdoor_scorer) True = None \<and>
   resolve_metric frontdoor_scorer ''energy_distance'' [] = Inl TypeError \<and>
   resolve_reported_metrics frontdoor_scorer (Some [''ate'']) ''energy_distance'' [] = Inl TypeError \<and>
   resolve_reported_metrics frontdoor_scorer None ''energy_distance'' [] = Inr (None, [])"
proof -
  have a: "problem frontdoor_scorer \<noteq> ''iv''" by (simp add: frontdoor_scorer_def)
  have b: "problem frontdoor_scorer \<noteq> ''backdoor''" by (simp add: frontdoor_scorer_def)
  show ?thesis
    using a b unknown_problem_no_default [OF a b, of True "''energy_distance''" "[]" "[''ate'']" "''energy_distance''"]
    by simp
qed

text \<open>
  The claim as first stated fails: on a scorer for the problem \<open>frontdoor\<close>,
  \<open>resolve_reported_metrics\<close> with \<open>metrics_to_report = None\<close> returns \<open>None\<close> and
  raises nothing.
\<close>

theorem resolve_reported_metrics_none_counterexample:
  "resolve_reported_metrics frontdoor_scorer None ''energy_distance'' [] = Inr (None, [])"
  by (simp add: resolve_reported_metrics_def frontdoor_scorer_def supported_metrics_def)

subsection \<open>The conditional dependence coefficient\<close>

text \<open>
  C3 (as amended). Whenever \<open>codec\<close> with a conditioning set \<open>X\<close> (\<open>X\<close> equal to \<open>Y\<close>
  included) returns, it returns 1 if \<open>estimateConditionalS\<close> is 0 on \<open>Y\<close> and \<open>X\<close>, and
  the quotient of \<open>estimateConditionalQ\<close> by \<open>estimateConditionalS\<close> otherwise; in the first
  case \<open>estimateConditionalQ\<close> is not called.
\<close>

theorem codec_given_X_fallback:
  assumes "codec L Y Z (Some X) na_rm g = Inr (T, g')"
  shows "\<exists>S g1. estimateConditionalS L Y X g = Inr (S, g1) \<and>
           (if fl_eq S (Fin 0) then T = Fin 1 \<and> g' = g1
            else \<exists>Q. estimateConditionalQ L Y X Z g1 = Inr (Q, g') \<and> T = fl_div Q S)"
proof -
  have t: "estimateConditionalT L Y Z X g = Inr (T, g')"
  proof (cases "length Y \<noteq> shape0 X \<or> length Y \<noteq> shape0 Z \<or> shape0 X \<noteq> shape0 Z \<or> length Y < 2")
    case True
    then have "codec L Y Z (Some X) na_rm g = Inl ValueError" by (auto simp: codec_def)
    then show ?thesis using assms by simp
  next
    case False
    then show ?thesis using assms by (simp add: codec_def)
  qed
  show ?thesis
  proof (cases "estimateConditionalS L Y X g")
    case (Inl e)
    then show ?thesis using t by (simp add: estimateConditionalT_def andthen_def)
  next
    case (Inr p)
    obtain S g1 where pe: "p = (S, g1)" by (cases p)
    show ?thesis
    proof (cases "fl_eq S (Fin 0)")
      case True
      then have "T = Fin 1 \<and> g' = g1"
        using t Inr pe by (simp add: estimateConditionalT_def andthen_def)
      then show ?thesis using Inr pe True by simp
    next
      case False
      show ?thesis
      proof (cases "estimateConditionalQ L Y X Z g1")
        case (Inl e)
        then show ?thesis
          using t Inr pe False by (simp add: estimateConditionalT_def andthen_def)
      next
        case q: (Inr q)
        obtain Q g2 where qe: "q = (Q, g2)" by (cases q)
        have "T = fl_div Q S \<and> g2 = g'"
          using t Inr pe False q qe by (simp add: estimateConditionalT_def andthen_def)
        then show ?thesis using Inr pe False q qe by simp
      qed
    qed
  qed
qed

text \<open>
  The example: \<open>Y = (1, 2, 4)\<close>, \<open>X\<close> the same numbers as a column, \<open>Z\<close> constant. No
  two rows coincide and no row has two nearest rows, so the random source is not used.
  \<open>S\<close> is 2/9, \<open>Q\<close> is 0, and \<open>codec\<close> returns 0.
\<close>

lemma upt3: "[0..<3] = [0, Suc 0, 2]" by (simp add: upt_rec numeral_eq_Suc)

lemma sqrt9: "sqrt 9 = 3" using real_sqrt_abs [of 3] by simp

lemma codec_example_neighbours:
  "kneighbors example_libs codec_X =
     Inr [((Fin 0, Fin 1, Fin 3), (0, Suc 0, 2)), ((Fin 0, Fin 1, Fin 2), (Suc 0, 0, 2)),
          ((Fin 0, Fin 2, Fin 3), (2, Suc 0, 0))]"
  "kneighbors example_libs codec_W =
     Inr [((Fin 0, Fin 1, Fin 3), (0, Suc 0, 2)), ((Fin 0, Fin 1, Fin 2), (Suc 0, 0, 2)),
          ((Fin 0, Fin 2, Fin 3), (2, Suc 0, 0))]"
  by (simp_all add: example_libs_def codec_X_def codec_W_def exact_kneighbors_def upt3
      neighbours_of_def sq_dist_def sqrt9 Let_def)

lemma group_transform_empty: "group_transform [] [] g = Inr ([], g)"
  by (simp add: group_transform_def andthen_def)

lemma codec_example_stage:
  "nn_stage example_libs codec_X H g = Inr ([Suc 0, 0, Suc 0], False, g)"
  "nn_stage example_libs codec_W H g = Inr ([Suc 0, 0, Suc 0], False, g)"
  by (simp_all add: nn_stage_def codec_example_neighbours andthen_def upt3 group_transform_empty
      scatter_def fl_eq_def Let_def)

lemma codec_example_ranks: "rank_Y example_libs codec_Y = [0, Suc 0, 2]"
  by (simp add: codec_Y_def rank_Y_def example_libs_def stable_argsort_def upt3)

lemma codec_example_length: "length codec_Y = 3"
  by (simp add: codec_Y_def)

lemma codec_example_S:
  "estimateConditionalS example_libs codec_Y codec_X g = Inr (Fin (2 / 9), g)"
  by (simp add: estimateConditionalS_def codec_example_stage codec_example_ranks
      codec_example_length andthen_def min_with_neighbour_def int_sum_def)

lemma codec_example_hstack: "hstack codec_X (reshape_column codec_Z) = Inr codec_W"
  by (simp add: reshape_column_def codec_X_def codec_Z_def codec_W_def)

lemma codec_example_Q:
  "estimateConditionalQ example_libs codec_Y codec_X codec_Z g = Inr (Fin 0, g)"
  by (simp add: estimateConditionalQ_def codec_example_hstack codec_example_stage
      codec_example_ranks codec_example_length andthen_def min_with_neighbour_def int_sum_def)

lemma codec_example:
  "codec example_libs codec_Y codec_Z (Some codec_X) True g = Inr (Fin 0, g)"
proof -
  have "shape0 codec_X = 3" "shape0 codec_Z = 3" by (simp_all add: codec_X_def codec_Z_def)
  then show ?thesis
    by (simp add: codec_def estimateConditionalT_def codec_example_S codec_example_Q
        codec_example_length andthen_def fl_eq_def)
qed

theorem codec_given_X_fallback_witness:
  "codec example_libs codec_Y codec_Z (Some codec_X) True example_rng = Inr (Fin 0, example_rng) \<and>
   (\<exists>S g1. estimateConditionalS example_libs codec_Y codec_X example_rng = Inr (S, g1) \<and>
      (if fl_eq S (Fin 0) then Fin 0 = Fin 1 \<and> example_rng = g1
       else \<exists>Q. estimateConditionalQ example_libs codec_Y codec_X codec_Z g1 = Inr (Q, example_rng) \<and>
                Fin 0 = fl_div Q S))"
  using codec_example [of example_rng] codec_given_X_fallback [OF codec_example [of example_rng]]
  by (intro conjI)

text \<open>
  The claim as first stated fails: with \<open>X\<close> equal to \<open>Y\<close>, as a column, \<open>S\<close> is 2/9, not
  0, and \<open>codec\<close> returns 0, not 1; with \<open>X\<close> the one-dimensional \<open>Y\<close> itself the neighbour
  search refuses the array and \<open>codec\<close> raises.
\<close>

lemma codec_example_one_dimensional:
  "codec example_libs codec_Y codec_Z (Some (Arr1 codec_Y)) True g = Inl ValueError"
  by (simp add: codec_def estimateConditionalT_def estimateConditionalS_def nn_stage_def
      example_libs_def exact_kneighbors_def andthen_def codec_Y_def codec_Z_def)

theorem codec_with_X_equal_Y_counterexample:
  "codec_X = Arr2 1 (map (\<lambda>y. [y]) codec_Y) \<and>
   estimateConditionalS example_libs codec_Y codec_X example_rng = Inr (Fin (2 / 9), example_rng) \<and>
   codec example_libs codec_Y codec_Z (Some codec_X) True example_rng = Inr (Fin 0, example_rng) \<and>
   codec example_libs codec_Y codec_Z (Some (Arr1 codec_Y)) True example_rng = Inl ValueError"
  using codec_example_S [of example_rng] codec_example [of example_rng]
    codec_example_one_dimensional [of example_rng]
  by (simp add: codec_X_def codec_Y_def)

text \<open>
  Without a conditioning set \<open>codec\<close> raises on every input: the array of shape
  \<open>(n, 0)\<close> it passes in the place of \<open>Z\<close> is reshaped to no rows and cannot be stacked
  beside the predictors.
\<close>

lemma length_mask_list:
  "length xs = length msk \<Longrightarrow> length (mask_list msk xs) = length (filter (\<lambda>b. b) msk)"
  unfolding mask_list_def by (induction xs msk rule: list_induct2) auto

lemma hstack_zero_height:
  "length Y \<ge> 2 \<Longrightarrow> length Y = shape0 Z \<Longrightarrow>
     hstack Z (reshape_column (Arr2 0 (replicate (length Y) []))) = Inl ValueError"
  by (cases Z) (auto simp: reshape_column_def)

lemma codec_without_X_raises: "codec L Y Z None na_rm g = Inl ValueError"
proof (cases "length Y \<noteq> shape0 Z")
  case True
  then show ?thesis by (simp add: codec_def)
next
  case len: False
  show ?thesis
  proof (cases na_rm)
    case False
    show ?thesis
    proof (cases "length Y < 2")
      case True
      then show ?thesis using len False by (simp add: codec_def andthen_def)
    next
      case n: False
      then have "hstack Z (reshape_column (Arr2 0 (replicate (length Y) []))) = Inl ValueError"
        using len by (intro hstack_zero_height) auto
      then show ?thesis using len False n
        by (simp add: codec_def andthen_def estimateConditionalQ_def)
    qed
  next
    case True
    show ?thesis
    proof (cases Z)
      case (Arr1 zs)
      then show ?thesis using len True by (simp add: codec_def andthen_def)
    next
      case (Arr2 k rs)
      define msk where "msk = map (\<lambda>(y, r). isfinite y \<and> list_all isfinite r) (zip Y rs)"
      define Y' where "Y' = mask_list msk Y"
      define rs' where "rs' = mask_list msk rs"
      have lm: "length msk = length Y" using len Arr2 by (simp add: msk_def)
      have l: "length Y' = shape0 (Arr2 k rs')"
        using len Arr2 lm by (simp add: Y'_def rs'_def length_mask_list)
      have c: "codec L Y Z None na_rm g =
          (if length Y' < 2 then Inl ValueError
           else estimateConditionalQ L Y' (Arr2 k rs') (Arr2 0 (replicate (length Y') [])) g)"
        using len True Arr2
        by (simp add: codec_def andthen_def Let_def msk_def Y'_def rs'_def)
      show ?thesis
      proof (cases "length Y' < 2")
        case True
        then show ?thesis by (simp add: c)
      next
        case False
        then have "hstack (Arr2 k rs') (reshape_column (Arr2 0 (replicate (length Y') []))) = Inl ValueError"
          using l by (intro hstack_zero_height) auto
        then show ?thesis using False by (simp add: c estimateConditionalQ_def andthen_def)
      qed
    qed
  qed
qed


text \<open>
  C2 (the code departs from it). The claim is that \<open>codec\<close> without \<open>X\<close> computes the
  \<open>Q\<close> statistic of \<open>Y\<close> on \<open>Z\<close>. On three rows with a one-column \<open>Z\<close> the call raises
  \<open>ValueError\<close>, and so does the call of \<open>estimateConditionalQ\<close> the code makes.
\<close>

theorem codec_without_X_example_raises:
  "codec example_libs pairwise_Y pairwise_Z None True example_rng = Inl ValueError \<and>
   estimateConditionalQ example_libs pairwise_Y pairwise_Z (Arr2 0 (replicate 3 [])) example_rng =
     Inl ValueError \<and>
   length pairwise_Y = 3 \<and> shape0 pairwise_Z = 3"
  by (simp add: codec_def pairwise_Y_def pairwise_Z_def andthen_def mask_list_def
      estimateConditionalQ_def reshape_column_def eval_nat_numeral)

text \<open>The call on the example does not return a value.\<close>

theorem codec_without_X_example_raises_witness:
  "\<exists>e. codec example_libs pairwise_Y pairwise_Z None True example_rng = Inl e"
  using codec_without_X_example_raises by blast

end
